theory Spec2Isabelle
  imports Main "HOL-Library.Signed_Division"
begin

section \<open>Common types (CommonTypes.hh)\<close>

text \<open>
  The enumerators of the source end in an underscore (\<open>HEAD_\<close>, \<open>IDLE_\<close>, \<open>SA_\<close>, ...), which
  is not a legal name here, so the trailing underscore is dropped.  \<open>Tick\<close> and \<open>Cycles\<close> are
  unsigned 64-bit counters of the simulation kernel; no modelled computation comes near their
  range, so they are natural numbers.  C++ \<open>int\<close> is \<open>int\<close>; sizes and \<open>unsigned\<close> are \<open>nat\<close>.
\<close>

type_synonym Tick = nat
type_synonym Cycles = nat
type_synonym PortDirection = string

datatype flit_type =
  HEAD | BODY | TAIL | HEAD_TAIL | PROBE | MOVE | CHECK_PROBE | KILL_MOVE | CREDIT

datatype VC_state_type = IDLE | VC_AB | ACTIVE

datatype flit_stage = I_stage | VA | SA | ST | LT

datatype RoutingAlgorithm = TABLE | XY | CUSTOM | ADAPTIVE | CAR3D | UGAL

datatype Counter_state =
  s_off | s_move | s_frozen | s_deadlock_detection | s_forward_progress | s_check_probe

text \<open>\<open>#define INFINITE_ 10000\<close>\<close>

definition INFINITE :: int where
  "INFINITE = 10000"

text \<open>
  Every way the source leaves the normal control flow is a value: a failed \<open>assert\<close> (one
  constructor per assertion site that a property below talks about), \<open>fatal\<close>, \<open>panic\<close>,
  and an access that C++ leaves undefined (a vector or queue read out of range).
\<close>

datatype error =
    AssertWidth
  | AssertPortRange
  | AssertVnetRange
  | AssertCounterThresh
  | AssertCounterFrozen
  | AssertSourceIdLatched
  | AssertPathBufferValid
  | AssertVcNotEmpty
  | AssertEscapeAllocation
  | AssertOutvcValid
  | AssertOutportValid
  | AssertVcIdle
  | AssertVcActive
  | AssertPipeStages
  | FatalNoRoute
  | PanicPlaceholder
  | UndefinedBehaviour

definition bindE :: "error + 'a \<Rightarrow> ('a \<Rightarrow> error + 'b) \<Rightarrow> error + 'b" where
  "bindE m f = (case m of Inl e \<Rightarrow> Inl e | Inr x \<Rightarrow> f x)"

text \<open>\<open>v[i]\<close> on a \<open>std::vector\<close>: undefined outside \<open>0 \<le> i < v.size()\<close>.\<close>

definition at_index :: "'a list \<Rightarrow> int \<Rightarrow> error + 'a" where
  "at_index xs i = (if 0 \<le> i \<and> i < int (length xs) then Inr (xs ! nat i) else Inl UndefinedBehaviour)"

text \<open>A C++ \<open>int\<close> converted to \<open>unsigned\<close> (32 bits).\<close>

definition to_unsigned :: "int \<Rightarrow> nat" where
  "to_unsigned i = nat (i mod 2 ^ 32)"

text \<open>An \<open>unsigned\<close> converted to a C++ \<open>int\<close> (32 bits, two's complement).\<close>

definition to_signed :: "nat \<Rightarrow> int" where
  "to_signed n = (if n mod 2 ^ 32 < 2 ^ 31 then int (n mod 2 ^ 32) else int (n mod 2 ^ 32) - 2 ^ 32)"

record RouteInfo =
  vnet :: int
  net_dest :: "nat set"
  src_ni :: int
  src_router :: int
  dest_ni :: int
  dest_router :: int
  hops_traversed :: int

record move_info =
  mi_inport :: int
  mi_vc :: int
  mi_outport :: int
  vc_at_downstream_router :: int
  tail_moved :: bool
  cur_move_count :: int

section \<open>Flits (flit.hh)\<close>

record flit =
  m_id :: int
  m_vnet :: int
  m_vc :: int
  m_route :: RouteInfo
  m_time :: Tick
  m_type :: flit_type
  m_outport :: int
  m_stage :: "flit_stage \<times> Tick"
  m_width :: nat
  m_must_send :: bool
  m_source_id :: int
  m_source_inp_port :: int
  m_source_vc :: int
  m_inport :: int
  m_path :: "int list"
  m_delay :: Tick

definition is_stage :: "flit \<Rightarrow> flit_stage \<Rightarrow> Tick \<Rightarrow> bool" where
  "is_stage f stage time = (stage = fst (m_stage f) \<and> snd (m_stage f) \<le> time)"

definition advance_stage :: "flit_stage \<Rightarrow> Tick \<Rightarrow> flit \<Rightarrow> flit" where
  "advance_stage t_stage newTime f = f\<lparr>m_stage := (t_stage, newTime)\<rparr>"

definition increment_hops :: "flit \<Rightarrow> flit" where
  "increment_hops f = f\<lparr>m_route := (m_route f)\<lparr>hops_traversed := hops_traversed (m_route f) + 1\<rparr>\<rparr>"

text \<open>\<open>std::queue<int>\<close> as a list, front first; \<open>push\<close> appends at the back.\<close>

definition peekPathTop :: "flit \<Rightarrow> int" where
  "peekPathTop f = (case m_path f of [] \<Rightarrow> -1 | v # _ \<Rightarrow> v)"

text \<open>
  \<open>getPathTop\<close> reads \<open>m_path.front()\<close> and pops it without a check; on an empty queue both are
  undefined in C++.
\<close>

definition getPathTop :: "flit \<Rightarrow> error + (int \<times> flit)" where
  "getPathTop f = (case m_path f of [] \<Rightarrow> Inl UndefinedBehaviour | v # rest \<Rightarrow> Inr (v, f\<lparr>m_path := rest\<rparr>))"

definition getNumTurns :: "flit \<Rightarrow> nat" where
  "getNumTurns f = length (m_path f)"

definition addDelay :: "Tick \<Rightarrow> flit \<Rightarrow> flit" where
  "addDelay t f = f\<lparr>m_delay := m_delay f + t\<rparr>"

definition subDelay :: "Tick \<Rightarrow> flit \<Rightarrow> flit" where
  "subDelay t f = (if t \<le> m_delay f then f\<lparr>m_delay := m_delay f - t\<rparr> else f\<lparr>m_delay := 0\<rparr>)"

section \<open>Virtual channels and credits\<close>

text \<open>
  Modelled from the spec: \<open>VirtualChannel\<close> and \<open>Credit\<close> (VirtualChannel.hh, flitBuffer.hh and
  Credit.hh are not part of the sources at hand).  Section 3 gives the attributes of a VC:
  lifecycle state, FIFO of buffered flits, chosen outport, downstream-VC index (-1 until
  allocated) and enqueue time; section 4.2 gives its operations.
\<close>

record VirtualChannel =
  m_vc_state :: "VC_state_type \<times> Tick"
  inputBuffer :: "flit list"
  m_output_port :: int
  m_output_vc :: int
  vc_enqueue_time :: Tick

record Credit =
  credit_vc :: int
  is_free_signal :: bool
  credit_time :: Tick

text \<open>Modelled from the spec: \<open>is_ready(t)\<close> is true iff the head flit's stage is SA and
  \<open>t \<ge> stage_time\<close> (section 4.2).\<close>

definition vc_isReady :: "VirtualChannel \<Rightarrow> Tick \<Rightarrow> bool" where
  "vc_isReady v t = (case inputBuffer v of [] \<Rightarrow> False | f # _ \<Rightarrow> is_stage f SA t)"

text \<open>Modelled from the spec: a VC needs stage \<open>s\<close> at time \<open>t\<close> when it holds a head flit that
  is in stage \<open>s\<close> since \<open>t\<close> or earlier (section 4.1, \<open>is_stage\<close>).\<close>

definition vc_need_stage :: "VirtualChannel \<Rightarrow> flit_stage \<Rightarrow> Tick \<Rightarrow> bool" where
  "vc_need_stage v stage t = (case inputBuffer v of [] \<Rightarrow> False | f # _ \<Rightarrow> is_stage f stage t)"

text \<open>Modelled from the spec: \<open>contains_head_and_tail\<close> is true iff both are present
  (section 4.2); a HEAD_TAIL flit is the head and the tail of its packet (glossary, Flit).\<close>

definition containsHeadAndTail :: "VirtualChannel \<Rightarrow> bool" where
  "containsHeadAndTail v =
     ((\<exists>f \<in> set (inputBuffer v). m_type f = HEAD \<or> m_type f = HEAD_TAIL) \<and>
      (\<exists>f \<in> set (inputBuffer v). m_type f = TAIL \<or> m_type f = HEAD_TAIL))"

text \<open>Modelled from the spec: a VC that becomes IDLE has its outport and downstream VC
  undefined again, written -1 as before allocation (section 3).\<close>

definition vc_set_idle :: "Tick \<Rightarrow> VirtualChannel \<Rightarrow> VirtualChannel" where
  "vc_set_idle curTime v = v\<lparr>m_vc_state := (IDLE, curTime), m_output_port := -1, m_output_vc := -1\<rparr>"

section \<open>Input unit: per-VC stall and freeze state (InputUnit.cc)\<close>

record InputUnit =
  iu_id :: int
  m_direction :: PortDirection
  virtualChannels :: "VirtualChannel list"
  m_stall_count :: "nat list"
  m_vc_frozen :: "bool list"
  m_fork_vector :: "bool list"
  creditQueue :: "Credit list"
  credit_link_events :: "Tick list"
  m_num_probes_dropped :: nat
  m_num_move_dropped :: nat
  m_num_check_probe_dropped :: nat

definition reset_stall :: "int \<Rightarrow> InputUnit \<Rightarrow> InputUnit" where
  "reset_stall vc iu =
     (if vc < 0 \<or> vc \<ge> int (length (m_stall_count iu)) then iu
      else iu\<lparr>m_stall_count := (m_stall_count iu)[nat vc := 0]\<rparr>)"

text \<open>\<open>freeze_vc\<close> takes the network's \<open>isSpinSchemeEnabled()\<close> as an argument.\<close>

definition freeze_vc :: "bool \<Rightarrow> int \<Rightarrow> InputUnit \<Rightarrow> InputUnit" where
  "freeze_vc spin_enabled vc iu =
     (if \<not> spin_enabled then iu
      else if vc < 0 \<or> vc \<ge> int (length (m_vc_frozen iu)) then iu
      else iu\<lparr>m_vc_frozen := (m_vc_frozen iu)[nat vc := True]\<rparr>)"

text \<open>The \<open>DPRINTF\<close> of \<open>thaw_vc\<close> only logs.\<close>

definition thaw_vc :: "int \<Rightarrow> InputUnit \<Rightarrow> InputUnit" where
  "thaw_vc vc iu =
     (if vc < 0 \<or> vc \<ge> int (length (m_vc_frozen iu)) then iu
      else reset_stall vc (iu\<lparr>m_vc_frozen := (m_vc_frozen iu)[nat vc := False]\<rparr>))"

definition is_vc_frozen :: "InputUnit \<Rightarrow> int \<Rightarrow> bool" where
  "is_vc_frozen iu vc =
     (if vc < 0 \<or> vc \<ge> int (length (m_vc_frozen iu)) then False else m_vc_frozen iu ! nat vc)"

text \<open>A small input unit with two VCs, the first of which has stalled three times without
  being frozen.\<close>

definition idle_vc :: VirtualChannel where
  "idle_vc = \<lparr>m_vc_state = (IDLE, 0), inputBuffer = [], m_output_port = -1, m_output_vc = -1,
              vc_enqueue_time = 0\<rparr>"

definition stalled_unit :: InputUnit where
  "stalled_unit = \<lparr>iu_id = 0, m_direction = ''West'', virtualChannels = [idle_vc, idle_vc],
     m_stall_count = [3, 0], m_vc_frozen = [False, False], m_fork_vector = [False],
     creditQueue = [], credit_link_events = [], m_num_probes_dropped = 0,
     m_num_move_dropped = 0, m_num_check_probe_dropped = 0\<rparr>"

section \<open>Output unit\<close>

text \<open>
  Modelled from the spec: \<open>OutputUnit\<close> (OutputUnit.hh and OutputUnit.cc are not part of the
  sources at hand).  Section 3: per downstream VC a lifecycle \<open>{IDLE, ACTIVE}\<close> and a credit
  counter.  Section 4.4 gives the operations below; the escape VC of a vnet is the VC at
  offset 0 of the vnet, reserved only when escape VCs are enabled (section 6).
\<close>

record OutVcState =
  ovc_state :: VC_state_type
  m_credit_count :: int

record OutputUnit =
  ou_direction :: PortDirection
  outVcState :: "OutVcState list"

text \<open>Modelled from the spec: \<open>is_vc_idle(vc, t)\<close>.\<close>

definition is_vc_idle :: "OutputUnit \<Rightarrow> int \<Rightarrow> Tick \<Rightarrow> error + bool" where
  "is_vc_idle ou vc t = bindE (at_index (outVcState ou) vc) (\<lambda>s. Inr (ovc_state s = IDLE))"

text \<open>Modelled from the spec: \<open>get_credit_count(vc)\<close>.\<close>

definition get_credit_count :: "OutputUnit \<Rightarrow> int \<Rightarrow> error + int" where
  "get_credit_count ou vc = bindE (at_index (outVcState ou) vc) (\<lambda>s. Inr (m_credit_count s))"

text \<open>Modelled from the spec: \<open>has_credit(vc)\<close> is \<open>credit_count[vc] > 0\<close>.\<close>

definition has_credit :: "OutputUnit \<Rightarrow> int \<Rightarrow> error + bool" where
  "has_credit ou vc = bindE (get_credit_count ou vc) (\<lambda>c. Inr (0 < c))"

text \<open>Modelled from the spec: the VCs of a vnet are the \<open>vc_per_vnet\<close> indices from
  \<open>vnet * vc_per_vnet\<close> on; the non-escape ones leave out offset 0 when escape VCs are
  enabled.\<close>

definition vnet_vcs :: "nat \<Rightarrow> int \<Rightarrow> int list" where
  "vnet_vcs vc_per_vnet v = map (\<lambda>off. v * int vc_per_vnet + int off) [0..<vc_per_vnet]"

definition non_escape_vcs :: "bool \<Rightarrow> nat \<Rightarrow> int \<Rightarrow> int list" where
  "non_escape_vcs escape_enabled vc_per_vnet v =
     (if escape_enabled then tl (vnet_vcs vc_per_vnet v) else vnet_vcs vc_per_vnet v)"

text \<open>Modelled from the spec: \<open>has_free_vc(vnet)\<close>: some non-escape VC in the vnet is IDLE.
  A VC index outside the unit's vector is an out-of-range read.\<close>

fun first_idle_vc :: "OutputUnit \<Rightarrow> Tick \<Rightarrow> int list \<Rightarrow> error + int" where
  "first_idle_vc ou t [] = Inr (-1)"
| "first_idle_vc ou t (vc # vcs) =
     (case is_vc_idle ou vc t of
        Inl e \<Rightarrow> Inl e
      | Inr idle \<Rightarrow> if idle then Inr vc else first_idle_vc ou t vcs)"

definition has_free_vc :: "bool \<Rightarrow> nat \<Rightarrow> Tick \<Rightarrow> OutputUnit \<Rightarrow> int \<Rightarrow> error + bool" where
  "has_free_vc escape_enabled vc_per_vnet t ou v =
     bindE (first_idle_vc ou t (non_escape_vcs escape_enabled vc_per_vnet v)) (\<lambda>vc. Inr (vc \<noteq> -1))"

text \<open>Modelled from the spec: \<open>has_free_escape_vc(vnet)\<close>: the escape VC (offset 0 of the
  vnet) is IDLE and has credits.\<close>

definition has_free_escape_vc :: "nat \<Rightarrow> Tick \<Rightarrow> OutputUnit \<Rightarrow> int \<Rightarrow> error + bool" where
  "has_free_escape_vc vc_per_vnet t ou v =
     bindE (is_vc_idle ou (v * int vc_per_vnet) t) (\<lambda>idle.
     bindE (has_credit ou (v * int vc_per_vnet)) (\<lambda>credit. Inr (idle \<and> credit)))"

definition set_vc_state :: "VC_state_type \<Rightarrow> int \<Rightarrow> OutputUnit \<Rightarrow> OutputUnit" where
  "set_vc_state st vc ou =
     ou\<lparr>outVcState := (outVcState ou)[nat vc := (outVcState ou ! nat vc)\<lparr>ovc_state := st\<rparr>]\<rparr>"

text \<open>Modelled from the spec: \<open>select_free_vc(vnet)\<close> returns and marks ACTIVE a free
  non-escape VC, or returns -1.\<close>

definition select_free_vc ::
  "bool \<Rightarrow> nat \<Rightarrow> Tick \<Rightarrow> int \<Rightarrow> OutputUnit \<Rightarrow> error + (int \<times> OutputUnit)" where
  "select_free_vc escape_enabled vc_per_vnet t v ou =
     bindE (first_idle_vc ou t (non_escape_vcs escape_enabled vc_per_vnet v)) (\<lambda>vc.
       if vc = -1 then Inr (-1, ou) else Inr (vc, set_vc_state ACTIVE vc ou))"

text \<open>Modelled from the spec: \<open>set_escape_vc(vnet)\<close> returns and marks ACTIVE the escape VC,
  or returns -1; the escape VC can be taken when it is free in the sense of
  \<open>has_free_escape_vc\<close> (allocation in SA-II verifies the credit, section 4.6).\<close>

definition set_escape_vc :: "nat \<Rightarrow> Tick \<Rightarrow> int \<Rightarrow> OutputUnit \<Rightarrow> error + (int \<times> OutputUnit)" where
  "set_escape_vc vc_per_vnet t v ou =
     bindE (has_free_escape_vc vc_per_vnet t ou v) (\<lambda>free.
       if free then Inr (v * int vc_per_vnet, set_vc_state ACTIVE (v * int vc_per_vnet) ou)
       else Inr (-1, ou))"

text \<open>Modelled from the spec: \<open>decrement_credit(vc)\<close>.\<close>

definition decrement_credit :: "int \<Rightarrow> OutputUnit \<Rightarrow> error + OutputUnit" where
  "decrement_credit vc ou =
     bindE (at_index (outVcState ou) vc) (\<lambda>s.
       Inr (ou\<lparr>outVcState := (outVcState ou)[nat vc := s\<lparr>m_credit_count := m_credit_count s - 1\<rparr>]\<rparr>))"

section \<open>Network configuration and the C library's random numbers\<close>

text \<open>
  Modelled from the spec: the network configuration (section 6; GarnetNetwork.hh is not part
  of the sources at hand): the two feature flags, the SPIN thresholds, the routing-algorithm
  selector, the per-vnet ordered flag, the mesh dimensions and the Euler-tour numbers of the
  spanning tree.
\<close>

record GarnetNetwork =
  isSpinSchemeEnabled :: bool
  isEscapeVcEnabled :: bool
  getSpinDdThreshold :: nat
  getSpinMaxTurnCapacity :: nat
  getRoutingAlgorithm :: RoutingAlgorithm
  isVNetOrdered :: "int \<Rightarrow> bool"
  getNumRows :: int
  getNumCols :: int
  tinOf :: "int \<Rightarrow> int"
  toutOf :: "int \<Rightarrow> int"

text \<open>
  \<open>rand()\<close> of the C library: one generator for the whole process, seeded (if at all) by
  \<open>srand\<close> somewhere else in the process.  Its state is the sequence of numbers it is going to
  return and how many have been drawn; every caller in the process advances the same state.
\<close>

record libc_rand =
  rand_seq :: "nat \<Rightarrow> nat"
  rand_calls :: nat

definition rand :: "libc_rand \<Rightarrow> nat \<times> libc_rand" where
  "rand g = (rand_seq g (rand_calls g), g\<lparr>rand_calls := rand_calls g + 1\<rparr>)"

section \<open>Routing unit (RoutingUnit.hh, RoutingUnit.cc)\<close>

record ChildInfo =
  c_outport :: int
  tin :: int
  tout :: int

record RoutingUnit =
  m_parentOutport :: int
  m_children :: "ChildInfo list"
  m_routing_table :: "nat set list list"
  m_weight_table :: "int list"

text \<open>Modelled from the spec: a destination set (\<open>NetDest\<close>, not part of the sources at hand)
  is a set of endpoints; a link is a candidate when its set intersects the message's.\<close>

definition intersectionIsNotEmpty :: "nat set \<Rightarrow> nat set \<Rightarrow> bool" where
  "intersectionIsNotEmpty a b = (a \<inter> b \<noteq> {})"

text \<open>First loop of \<open>lookupRoutingTable\<close>: the minimum weight among the candidate links,
  starting from \<open>INFINITE_\<close>.\<close>

fun min_weight_loop :: "int list \<Rightarrow> nat set list \<Rightarrow> nat set \<Rightarrow> nat list \<Rightarrow> int \<Rightarrow> error + int" where
  "min_weight_loop wt entry dest [] min_weight = Inr min_weight"
| "min_weight_loop wt entry dest (link # links) min_weight =
     (if intersectionIsNotEmpty dest (entry ! link) then
        (case at_index wt (int link) of
           Inl e \<Rightarrow> Inl e
         | Inr w \<Rightarrow> min_weight_loop wt entry dest links (if w \<le> min_weight then w else min_weight))
      else min_weight_loop wt entry dest links min_weight)"

text \<open>Second loop: the candidate links of that weight, in link order.\<close>

fun candidates_loop :: "int list \<Rightarrow> nat set list \<Rightarrow> nat set \<Rightarrow> int \<Rightarrow> nat list \<Rightarrow> error + int list" where
  "candidates_loop wt entry dest min_weight [] = Inr []"
| "candidates_loop wt entry dest min_weight (link # links) =
     (if intersectionIsNotEmpty dest (entry ! link) then
        (case at_index wt (int link) of
           Inl e \<Rightarrow> Inl e
         | Inr w \<Rightarrow>
            (case candidates_loop wt entry dest min_weight links of
               Inl e \<Rightarrow> Inl e
             | Inr cs \<Rightarrow> Inr (if w = min_weight then int link # cs else cs)))
      else candidates_loop wt entry dest min_weight links)"

text \<open>
  \<open>lookupRoutingTable\<close>.  \<open>fatal\<close> ends the simulation.  The function has no generator of its
  own and is given none: for an unordered vnet it calls the process-wide \<open>rand()\<close>.
\<close>

definition lookupRoutingTable ::
  "GarnetNetwork \<Rightarrow> RoutingUnit \<Rightarrow> int \<Rightarrow> nat set \<Rightarrow> libc_rand \<Rightarrow> error + (int \<times> libc_rand)" where
  "lookupRoutingTable net ru v msg_destination g =
     bindE (at_index (m_routing_table ru) v) (\<lambda>entry.
     bindE (min_weight_loop (m_weight_table ru) entry msg_destination [0..<length entry] INFINITE) (\<lambda>min_weight.
     bindE (candidates_loop (m_weight_table ru) entry msg_destination min_weight [0..<length entry])
       (\<lambda>output_link_candidates.
         if length output_link_candidates = 0 then Inl FatalNoRoute
         else if \<not> isVNetOrdered net v then
           (case rand g of (x, g') \<Rightarrow>
              Inr (output_link_candidates ! (x mod length output_link_candidates), g'))
         else Inr (output_link_candidates ! 0, g))))"

text \<open>The scan over \<open>m_children\<close> in \<open>outportEscapeVC\<close>: the first child whose Euler-tour
  interval holds the destination's \<open>tin\<close>.\<close>

fun child_scan :: "int \<Rightarrow> ChildInfo list \<Rightarrow> int option" where
  "child_scan destTin [] = None"
| "child_scan destTin (c # cs) =
     (if destTin \<ge> tin c \<and> destTin < tout c then Some (c_outport c) else child_scan destTin cs)"

section \<open>Router state (Router.hh)\<close>

record SwitchAllocator =
  m_round_robin_inport :: "int list"
  m_round_robin_invc :: "int list"
  m_port_requests :: "int list"
  m_vc_winners :: "int list"
  m_is_escape_req :: "bool list"
  m_input_arbiter_activity :: nat
  m_output_arbiter_activity :: nat

text \<open>\<open>struct counter\<close> with its \<open>pointer\<close>, \<open>struct path_buffer\<close> and
  \<open>struct source_id_buffer\<close>.\<close>

record counter =
  cptr_input_port :: nat
  cptr_vc :: nat
  cptr_vnet :: nat
  c_count :: nat
  c_thresh :: Cycles
  c_state :: Counter_state

record path_buffer =
  pb_path :: "int list"
  pb_valid :: bool

record source_id_buffer =
  sib_source_id :: int
  sib_move_id :: int
  sib_valid :: bool

text \<open>
  The router with everything it owns.  \<open>r_id\<close> is \<open>m_id\<close> of \<open>BasicRouter\<close>.  The input unit,
  the switch allocator and the routing unit reach the router through their \<open>m_router\<close>
  pointer; here their operations take the router and return it.  Their private copies of
  \<open>m_vc_per_vnet\<close> and \<open>m_num_vcs\<close> are set once from the router's and never written again, so
  the router's fields stand for them.

  Modelled from the spec: the collaborators of section 6.  The clock is \<open>curTick\<close> and the
  clock period; the router runs on a clock edge (\<open>Router::wakeup\<close> asserts it), so
  \<open>clock_edge(n)\<close> is \<open>n\<close> periods after the current tick.  \<open>schedule_wakeup\<close> records the
  requested delays in \<open>wakeups\<close>.  The crossbar's \<open>update_sw_winner\<close> records the granted flit
  with its inport in \<open>sw_winners\<close>.
\<close>

record Router =
  r_id :: int
  m_latency :: Cycles
  m_virtual_networks :: nat
  m_vc_per_vnet :: nat
  m_num_vcs :: nat
  m_bit_width :: nat
  m_network_ptr :: GarnetNetwork
  routingUnit :: RoutingUnit
  switchAllocator :: SwitchAllocator
  sw_winners :: "(int \<times> flit) list"
  m_input_unit :: "InputUnit list"
  m_output_unit :: "OutputUnit list"
  m_ugal_min_choices :: nat
  m_ugal_nonmin_choices :: nat
  m_counter :: counter
  m_path_buffer :: path_buffer
  m_source_id_buffer :: source_id_buffer
  m_move :: bool
  loop_delay :: Cycles
  probeQueue :: "flit list"
  moveQueue :: "flit list"
  kill_moveQueue :: "flit list"
  check_probeQueue :: "flit list"
  kill_move_processed_this_cycle :: bool
  start_move :: bool
  move_registry :: "move_info list"
  curTick :: Tick
  clockPeriod :: Tick
  wakeups :: "Cycles list"

definition clockEdge :: "Router \<Rightarrow> Cycles \<Rightarrow> Tick" where
  "clockEdge r n = curTick r + n * clockPeriod r"

definition curCycle :: "Router \<Rightarrow> Cycles" where
  "curCycle r = curTick r div clockPeriod r"

definition schedule_wakeup :: "Cycles \<Rightarrow> Router \<Rightarrow> Router" where
  "schedule_wakeup time r = r\<lparr>wakeups := wakeups r @ [time]\<rparr>"

definition spin_scheme_enabled :: "Router \<Rightarrow> bool" where
  "spin_scheme_enabled r = isSpinSchemeEnabled (m_network_ptr r)"

definition is_escape_vc_enabled :: "Router \<Rightarrow> bool" where
  "is_escape_vc_enabled r = isEscapeVcEnabled (m_network_ptr r)"

text \<open>\<open>getInputUnit\<close> and \<open>getOutputUnit\<close> take an \<open>unsigned\<close> port and assert that it is
  below the vector's size.  A negative \<open>int\<close> converts to an unsigned number of at least \<open>2^31\<close>,
  more than any vector holds, so the assertion fails exactly when the \<open>int\<close> is out of range.\<close>

definition getInputUnit :: "Router \<Rightarrow> int \<Rightarrow> error + InputUnit" where
  "getInputUnit r port =
     (if 0 \<le> port \<and> port < int (length (m_input_unit r)) then Inr (m_input_unit r ! nat port)
      else Inl AssertPortRange)"

definition getOutputUnit :: "Router \<Rightarrow> int \<Rightarrow> error + OutputUnit" where
  "getOutputUnit r port =
     (if 0 \<le> port \<and> port < int (length (m_output_unit r)) then Inr (m_output_unit r ! nat port)
      else Inl AssertPortRange)"

text \<open>\<open>getOutportDirection\<close> indexes \<open>m_output_unit\<close> without a check.\<close>

definition getOutportDirection :: "Router \<Rightarrow> int \<Rightarrow> error + PortDirection" where
  "getOutportDirection r outport = bindE (at_index (m_output_unit r) outport) (\<lambda>ou. Inr (ou_direction ou))"

definition getInportDirection :: "Router \<Rightarrow> int \<Rightarrow> error + PortDirection" where
  "getInportDirection r inport = bindE (at_index (m_input_unit r) inport) (\<lambda>iu. Inr (m_direction iu))"

section \<open>Route computation (RoutingUnit.cc)\<close>

text \<open>
  \<open>outportCompute\<close> dispatches on the configured algorithm.  The bodies of
  \<open>outportComputeXY\<close>, \<open>outportComputeCar3D\<close> and \<open>outportComputeAdaptive\<close> are not needed for
  anything stated below (the last two read the output units' credits, the second computes in
  double precision), so the dispatcher takes them as arguments and everything proved about it
  holds whatever they do.  \<open>outportComputeCustom\<close> is a \<open>panic\<close>.  There is no \<open>case UGAL_\<close>:
  that selector reaches \<open>default\<close>.
\<close>

type_synonym route_alg =
  "RouteInfo \<Rightarrow> int \<Rightarrow> PortDirection \<Rightarrow> Router \<Rightarrow> libc_rand \<Rightarrow> error + (int \<times> Router \<times> libc_rand)"

record topology_algs =
  outportComputeXY :: route_alg
  outportComputeCar3D :: route_alg
  outportComputeAdaptive :: route_alg

definition table_route :: route_alg where
  "table_route route inport inport_dirn r g =
     bindE (lookupRoutingTable (m_network_ptr r) (routingUnit r) (vnet route) (net_dest route) g)
       (\<lambda>(outport, g'). Inr (outport, r, g'))"

definition outportComputeCustom :: route_alg where
  "outportComputeCustom route inport inport_dirn r g = Inl PanicPlaceholder"

definition outportCompute :: "topology_algs \<Rightarrow> route_alg" where
  "outportCompute algs route inport inport_dirn r g =
     (if dest_router route = r_id r then table_route route inport inport_dirn r g
      else
        bindE
          (case getRoutingAlgorithm (m_network_ptr r) of
             TABLE \<Rightarrow> table_route route inport inport_dirn r g
           | XY \<Rightarrow> outportComputeXY algs route inport inport_dirn r g
           | CUSTOM \<Rightarrow> outportComputeCustom route inport inport_dirn r g
           | CAR3D \<Rightarrow> outportComputeCar3D algs route inport inport_dirn r g
           | ADAPTIVE \<Rightarrow> outportComputeAdaptive algs route inport inport_dirn r g
           | _ \<Rightarrow> table_route route inport inport_dirn r g)
          (\<lambda>(outport, r', g'). if outport \<noteq> -1 then Inr (outport, r', g') else Inl AssertOutportValid))"

text \<open>The UGAL statistics of the router.\<close>

definition incUGALMin :: "Router \<Rightarrow> Router" where
  "incUGALMin r = r\<lparr>m_ugal_min_choices := m_ugal_min_choices r + 1\<rparr>"

definition incUGALNonMin :: "Router \<Rightarrow> Router" where
  "incUGALNonMin r = r\<lparr>m_ugal_nonmin_choices := m_ugal_nonmin_choices r + 1\<rparr>"

text \<open>\<open>outportEscapeVC\<close>, reached through \<open>Router::escape_route_compute\<close>.\<close>

definition outportEscapeVC ::
  "RouteInfo \<Rightarrow> int \<Rightarrow> PortDirection \<Rightarrow> Router \<Rightarrow> libc_rand \<Rightarrow> error + (int \<times> libc_rand)" where
  "outportEscapeVC route inport inport_dirn r g =
     (if dest_router route = r_id r then
        lookupRoutingTable (m_network_ptr r) (routingUnit r) (vnet route) (net_dest route) g
      else
        (case child_scan (tinOf (m_network_ptr r) (dest_router route)) (m_children (routingUnit r)) of
           Some outport \<Rightarrow> Inr (outport, g)
         | None \<Rightarrow>
             if m_parentOutport (routingUnit r) \<noteq> -1 then Inr (m_parentOutport (routingUnit r), g)
             else lookupRoutingTable (m_network_ptr r) (routingUnit r) (vnet route) (net_dest route) g))"

definition escape_route_compute ::
  "RouteInfo \<Rightarrow> int \<Rightarrow> PortDirection \<Rightarrow> Router \<Rightarrow> libc_rand \<Rightarrow> error + (int \<times> libc_rand)" where
  "escape_route_compute route inport dir r g = outportEscapeVC route inport dir r g"

section \<open>Input unit: access to the VCs\<close>

text \<open>
  Modelled from the spec: the per-VC accessors of the input unit (InputUnit.hh is not part of the
  sources at hand).  The input unit owns its VCs (section 3) and the accessors hand the
  operations of section 4.2 through to the VC with the given index; an index outside the vector
  is an out-of-range read.
\<close>

definition get_vc :: "InputUnit \<Rightarrow> int \<Rightarrow> error + VirtualChannel" where
  "get_vc iu vc = at_index (virtualChannels iu) vc"

definition need_stage :: "InputUnit \<Rightarrow> int \<Rightarrow> flit_stage \<Rightarrow> Tick \<Rightarrow> error + bool" where
  "need_stage iu vc stage t = bindE (get_vc iu vc) (\<lambda>v. Inr (vc_need_stage v stage t))"

definition isReady :: "InputUnit \<Rightarrow> int \<Rightarrow> Tick \<Rightarrow> error + bool" where
  "isReady iu vc t = bindE (get_vc iu vc) (\<lambda>v. Inr (vc_isReady v t))"

definition get_vc_state :: "InputUnit \<Rightarrow> int \<Rightarrow> error + VC_state_type" where
  "get_vc_state iu vc = bindE (get_vc iu vc) (\<lambda>v. Inr (fst (m_vc_state v)))"

definition get_outport :: "InputUnit \<Rightarrow> int \<Rightarrow> error + int" where
  "get_outport iu vc = bindE (get_vc iu vc) (\<lambda>v. Inr (m_output_port v))"

definition get_outvc :: "InputUnit \<Rightarrow> int \<Rightarrow> error + int" where
  "get_outvc iu vc = bindE (get_vc iu vc) (\<lambda>v. Inr (m_output_vc v))"

definition get_enqueue_time :: "InputUnit \<Rightarrow> int \<Rightarrow> error + Tick" where
  "get_enqueue_time iu vc = bindE (get_vc iu vc) (\<lambda>v. Inr (vc_enqueue_time v))"

definition put_vc :: "int \<Rightarrow> VirtualChannel \<Rightarrow> InputUnit \<Rightarrow> InputUnit" where
  "put_vc vc v iu = iu\<lparr>virtualChannels := (virtualChannels iu)[nat vc := v]\<rparr>"

definition grant_outvc :: "int \<Rightarrow> int \<Rightarrow> InputUnit \<Rightarrow> error + InputUnit" where
  "grant_outvc vc outvc iu = bindE (get_vc iu vc) (\<lambda>v. Inr (put_vc vc (v\<lparr>m_output_vc := outvc\<rparr>) iu))"

definition set_vc_idle :: "int \<Rightarrow> Tick \<Rightarrow> InputUnit \<Rightarrow> error + InputUnit" where
  "set_vc_idle vc curTime iu = bindE (get_vc iu vc) (\<lambda>v. Inr (put_vc vc (vc_set_idle curTime v) iu))"

text \<open>Modelled from the spec: \<open>set_vc_active\<close> is \<open>set_state(ACTIVE, time)\<close> on the VC, which
  also takes the time as its enqueue time; \<open>grant_outport\<close> stores the outport on the VC;
  \<open>insertFlit\<close> appends to the VC's FIFO (section 4.2).\<close>

definition set_vc_active :: "int \<Rightarrow> Tick \<Rightarrow> InputUnit \<Rightarrow> error + InputUnit" where
  "set_vc_active vc curTime iu =
     bindE (get_vc iu vc) (\<lambda>v.
       Inr (put_vc vc (v\<lparr>m_vc_state := (ACTIVE, curTime), vc_enqueue_time := curTime\<rparr>) iu))"

definition grant_outport :: "int \<Rightarrow> int \<Rightarrow> InputUnit \<Rightarrow> error + InputUnit" where
  "grant_outport vc outport iu =
     bindE (get_vc iu vc) (\<lambda>v. Inr (put_vc vc (v\<lparr>m_output_port := outport\<rparr>) iu))"

definition insertFlit :: "int \<Rightarrow> flit \<Rightarrow> InputUnit \<Rightarrow> error + InputUnit" where
  "insertFlit vc f iu =
     bindE (get_vc iu vc) (\<lambda>v. Inr (put_vc vc (v\<lparr>inputBuffer := inputBuffer v @ [f]\<rparr>) iu))"

text \<open>Modelled from the spec: \<open>pop_top\<close> of the VC's FIFO; popping an empty FIFO is undefined.\<close>

definition getTopFlit :: "int \<Rightarrow> InputUnit \<Rightarrow> error + (flit \<times> InputUnit)" where
  "getTopFlit vc iu =
     bindE (get_vc iu vc) (\<lambda>v.
       case inputBuffer v of
         [] \<Rightarrow> Inl UndefinedBehaviour
       | f # rest \<Rightarrow> Inr (f, put_vc vc (v\<lparr>inputBuffer := rest\<rparr>) iu))"

text \<open>\<open>increment_credit\<close> (InputUnit.cc): a new credit goes to the credit queue and the credit link
  is scheduled for the clock edge one cycle ahead.\<close>

definition increment_credit :: "Router \<Rightarrow> int \<Rightarrow> bool \<Rightarrow> Tick \<Rightarrow> InputUnit \<Rightarrow> InputUnit" where
  "increment_credit r in_vc free_signal curTime iu =
     iu\<lparr>creditQueue := creditQueue iu @ [\<lparr>credit_vc = in_vc, is_free_signal = free_signal, credit_time = curTime\<rparr>],
        credit_link_events := credit_link_events iu @ [clockEdge r 1]\<rparr>"

section \<open>Switch allocator (SwitchAllocator.cc)\<close>

text \<open>\<open>get_vnet\<close>: integer division, and the assertion against the number of vnets (an unsigned
  comparison, which a negative quotient fails).  Division by zero is undefined.\<close>

definition get_vnet :: "Router \<Rightarrow> int \<Rightarrow> error + int" where
  "get_vnet r invc =
     (if m_vc_per_vnet r = 0 then Inl UndefinedBehaviour
      else let v = invc sdiv int (m_vc_per_vnet r)
           in if 0 \<le> v \<and> v < int (m_virtual_networks r) then Inr v else Inl AssertVnetRange)"

text \<open>The ordering loop of \<open>send_allowed\<close> over the VC offsets of the vnet; \<open>&&\<close> evaluates its
  operands left to right and stops at the first that is false.\<close>

fun ordering_loop :: "InputUnit \<Rightarrow> Tick \<Rightarrow> int \<Rightarrow> Tick \<Rightarrow> int \<Rightarrow> nat list \<Rightarrow> error + bool" where
  "ordering_loop iu t outport t_enqueue_time vc_base [] = Inr True"
| "ordering_loop iu t outport t_enqueue_time vc_base (vc_offset # offs) =
     (case need_stage iu (vc_base + int vc_offset) SA t of
        Inl e \<Rightarrow> Inl e
      | Inr ns \<Rightarrow>
          if \<not> ns then ordering_loop iu t outport t_enqueue_time vc_base offs
          else
            (case get_outport iu (vc_base + int vc_offset) of
               Inl e \<Rightarrow> Inl e
             | Inr op \<Rightarrow>
                 if op \<noteq> outport then ordering_loop iu t outport t_enqueue_time vc_base offs
                 else
                   (case get_enqueue_time iu (vc_base + int vc_offset) of
                      Inl e \<Rightarrow> Inl e
                    | Inr te \<Rightarrow>
                        if te < t_enqueue_time then Inr False
                        else ordering_loop iu t outport t_enqueue_time vc_base offs)))"

text \<open>\<open>send_allowed\<close>.  The \<open>DPRINTF\<close>s only log.  The output unit's \<open>has_free_vc\<close> knows from the
  network whether offset 0 is reserved for escape.\<close>

definition send_allowed :: "Router \<Rightarrow> int \<Rightarrow> int \<Rightarrow> int \<Rightarrow> int \<Rightarrow> bool \<Rightarrow> error + bool" where
  "send_allowed r inport invc outport outvc escape_vc_enabled =
     bindE (get_vnet r invc) (\<lambda>v.
     bindE (getOutputUnit r outport) (\<lambda>output_unit.
     bindE
       (if outvc = -1 then
          (if escape_vc_enabled \<and> invc smod int (m_vc_per_vnet r) = 0 then
             bindE (has_free_escape_vc (m_vc_per_vnet r) (curTick r) output_unit v)
               (\<lambda>free. Inr (free, free))
           else
             bindE (has_free_vc (is_escape_vc_enabled r) (m_vc_per_vnet r) (curTick r) output_unit v)
               (\<lambda>free. Inr (free, free)))
        else bindE (has_credit output_unit outvc) (\<lambda>c. Inr (True, c)))
       (\<lambda>(has_outvc, has_credit).
          if \<not> has_outvc \<or> \<not> has_credit then Inr False
          else if isVNetOrdered (m_network_ptr r) v then
            bindE (getInputUnit r inport) (\<lambda>input_unit.
            bindE (get_enqueue_time input_unit invc) (\<lambda>t_enqueue_time.
              ordering_loop input_unit (curTick r) outport t_enqueue_time
                (v * int (m_vc_per_vnet r)) [0..<m_vc_per_vnet r]))
          else Inr True)))"

text \<open>
  SA-II.  The two scans over the inports of \<open>arbitrate_outports\<close>: \<open>iter\<close> counts the
  inports, \<open>inport\<close> starts at the round-robin pointer and wraps to 0.  The first pass asks for
  a request for this outport with \<open>m_is_escape_req\<close> set, the second for any request for this
  outport.  \<open>m_num_inports\<close> and \<open>m_num_outports\<close> are the sizes of the router's port vectors,
  taken at \<open>init\<close>.
\<close>

definition is_requester :: "SwitchAllocator \<Rightarrow> int \<Rightarrow> int \<Rightarrow> error + bool" where
  "is_requester sa outport inport =
     bindE (at_index (m_port_requests sa) inport) (\<lambda>req. Inr (req = outport))"

definition is_escape_requester :: "SwitchAllocator \<Rightarrow> int \<Rightarrow> int \<Rightarrow> error + bool" where
  "is_escape_requester sa outport inport =
     bindE (at_index (m_port_requests sa) inport) (\<lambda>req.
       if req = outport then at_index (m_is_escape_req sa) inport else Inr False)"

fun inport_scan :: "(int \<Rightarrow> error + bool) \<Rightarrow> int \<Rightarrow> nat \<Rightarrow> int \<Rightarrow> error + int" where
  "inport_scan requesting num_inports 0 inport = Inr (-1)"
| "inport_scan requesting num_inports (Suc iters) inport =
     (case requesting (if inport \<ge> num_inports then 0 else inport) of
        Inl e \<Rightarrow> Inl e
      | Inr hit \<Rightarrow>
          if hit then Inr (if inport \<ge> num_inports then 0 else inport)
          else inport_scan requesting num_inports iters ((if inport \<ge> num_inports then 0 else inport) + 1))"

definition choose_inport :: "Router \<Rightarrow> int \<Rightarrow> error + int" where
  "choose_inport r outport =
     bindE (at_index (m_round_robin_inport (switchAllocator r)) outport) (\<lambda>start_inport.
     bindE (inport_scan (is_escape_requester (switchAllocator r) outport)
              (int (length (m_input_unit r))) (length (m_input_unit r)) start_inport) (\<lambda>chosen_inport.
       if chosen_inport = -1 then
         inport_scan (is_requester (switchAllocator r) outport)
           (int (length (m_input_unit r))) (length (m_input_unit r)) start_inport
       else Inr chosen_inport))"

text \<open>The units are reached through pointers; an operation on a unit updates it in place in the
  router.\<close>

definition on_input_unit :: "int \<Rightarrow> (InputUnit \<Rightarrow> error + InputUnit) \<Rightarrow> Router \<Rightarrow> error + Router" where
  "on_input_unit inport f r =
     bindE (getInputUnit r inport) (\<lambda>iu.
     bindE (f iu) (\<lambda>iu'. Inr (r\<lparr>m_input_unit := (m_input_unit r)[nat inport := iu']\<rparr>)))"

definition put_output_unit :: "int \<Rightarrow> OutputUnit \<Rightarrow> Router \<Rightarrow> Router" where
  "put_output_unit outport ou r = r\<lparr>m_output_unit := (m_output_unit r)[nat outport := ou]\<rparr>"

text \<open>\<open>vc_allocate\<close>: \<open>assert(false)\<close> for an escape VC index, otherwise a free VC of the output
  unit, asserted to exist, is granted to the input VC.\<close>

definition vc_allocate :: "int \<Rightarrow> int \<Rightarrow> int \<Rightarrow> Router \<Rightarrow> error + (int \<times> Router)" where
  "vc_allocate outport inport invc r =
     (if is_escape_vc_enabled r \<and> m_vc_per_vnet r = 0 then Inl UndefinedBehaviour
      else if is_escape_vc_enabled r \<and> invc smod int (m_vc_per_vnet r) = 0 then Inl AssertEscapeAllocation
      else
        bindE (getOutputUnit r outport) (\<lambda>ou.
        bindE (get_vnet r invc) (\<lambda>v.
        bindE (select_free_vc (is_escape_vc_enabled r) (m_vc_per_vnet r) (curTick r) v ou) (\<lambda>(outvc, ou').
          if outvc = -1 then Inl AssertOutvcValid
          else
            bindE (on_input_unit inport (grant_outvc invc outvc) (put_output_unit outport ou' r))
              (\<lambda>r'. Inr (outvc, r'))))))"

text \<open>
  The downstream VC of the winner.  The result is \<open>None\<close> with the request cleared when the
  escape VC could not be taken (the \<open>continue\<close> of the source), otherwise the VC.
\<close>

definition clear_request :: "int \<Rightarrow> Router \<Rightarrow> error + Router" where
  "clear_request inport r =
     (if 0 \<le> inport \<and> inport < int (length (m_port_requests (switchAllocator r))) then
        Inr (r\<lparr>switchAllocator := (switchAllocator r)
               \<lparr>m_port_requests := (m_port_requests (switchAllocator r))[nat inport := -1]\<rparr>\<rparr>)
      else Inl UndefinedBehaviour)"

definition winner_outvc :: "int \<Rightarrow> int \<Rightarrow> int \<Rightarrow> Router \<Rightarrow> error + (int option \<times> Router)" where
  "winner_outvc outport inport invc r =
     bindE (getInputUnit r inport) (\<lambda>input_unit.
     bindE (get_outvc input_unit invc) (\<lambda>outvc.
       if outvc = -1 then
         bindE (at_index (m_is_escape_req (switchAllocator r)) inport) (\<lambda>esc.
           if esc \<and> is_escape_vc_enabled r then
             bindE (getOutputUnit r outport) (\<lambda>ou.
             bindE (get_vnet r invc) (\<lambda>v.
             bindE (set_escape_vc (m_vc_per_vnet r) (curTick r) v ou) (\<lambda>(outvc, ou').
               if outvc = -1 then bindE (clear_request inport r) (\<lambda>r'. Inr (None, r'))
               else
                 bindE (on_input_unit inport (grant_outvc invc outvc) (put_output_unit outport ou' r))
                   (\<lambda>r'. Inr (Some outvc, r')))))
           else bindE (vc_allocate outport inport invc r) (\<lambda>(outvc, r'). Inr (Some outvc, r')))
       else Inr (Some outvc, r)))"

definition grant_switch :: "int \<Rightarrow> flit \<Rightarrow> Router \<Rightarrow> Router" where
  "grant_switch inport t_flit r = r\<lparr>sw_winners := sw_winners r @ [(inport, t_flit)]\<rparr>"

definition advance_round_robin :: "int \<Rightarrow> int \<Rightarrow> int \<Rightarrow> Router \<Rightarrow> error + Router" where
  "advance_round_robin outport inport invc r =
     (if 0 \<le> inport \<and> inport < int (length (m_port_requests (switchAllocator r))) \<and>
         0 \<le> outport \<and> outport < int (length (m_round_robin_inport (switchAllocator r))) \<and>
         inport < int (length (m_round_robin_invc (switchAllocator r)))
      then
        Inr (r\<lparr>switchAllocator := (switchAllocator r)
          \<lparr>m_port_requests := (m_port_requests (switchAllocator r))[nat inport := -1],
           m_round_robin_inport := (m_round_robin_inport (switchAllocator r))
             [nat outport := (if inport + 1 \<ge> int (length (m_input_unit r)) then 0 else inport + 1)],
           m_round_robin_invc := (m_round_robin_invc (switchAllocator r))
             [nat inport := (if invc + 1 \<ge> int (m_num_vcs r) then 0 else invc + 1)]\<rparr>\<rparr>)
      else Inl UndefinedBehaviour)"

text \<open>
  The grant itself, from "remove flit from Input VC" to the end of the loop body: the head flit
  leaves the input VC for the crossbar, a credit of the downstream VC is used, a credit goes
  upstream (with the free signal and the VC set idle for a TAIL or HEAD_TAIL, after the
  assertion that the VC is not ready any more), and the round-robin pointers move on.
\<close>

definition bump_output_activity :: "Router \<Rightarrow> Router" where
  "bump_output_activity r =
     r\<lparr>switchAllocator := (switchAllocator r)
        \<lparr>m_output_arbiter_activity := m_output_arbiter_activity (switchAllocator r) + 1\<rparr>\<rparr>"

definition release_vc :: "Router \<Rightarrow> flit \<Rightarrow> int \<Rightarrow> InputUnit \<Rightarrow> error + InputUnit" where
  "release_vc r t_flit invc iu =
     (if m_type t_flit = TAIL \<or> m_type t_flit = HEAD_TAIL then
        bindE (isReady iu invc (curTick r)) (\<lambda>ready.
          if ready then Inl AssertVcNotEmpty
          else
            bindE (set_vc_idle invc (curTick r) iu) (\<lambda>iu'.
              Inr (increment_credit r invc True (curTick r) iu')))
      else Inr (increment_credit r invc False (curTick r) iu))"

definition grant_flit :: "int \<Rightarrow> int \<Rightarrow> int \<Rightarrow> int \<Rightarrow> Router \<Rightarrow> error + Router" where
  "grant_flit outport inport invc outvc r =
     bindE (getInputUnit r inport) (\<lambda>input_unit.
     bindE (getTopFlit invc input_unit) (\<lambda>(top_flit, input_unit').
     bindE (getOutputUnit r outport) (\<lambda>output_unit.
     bindE (decrement_credit outvc output_unit) (\<lambda>output_unit'.
       let t_flit = advance_stage ST (curTick r) (top_flit\<lparr>m_outport := outport, m_vc := outvc\<rparr>)
       in bindE (release_vc r t_flit invc input_unit') (\<lambda>input_unit''.
            advance_round_robin outport inport invc
              (bump_output_activity
                (grant_switch inport t_flit
                  (put_output_unit outport output_unit'
                    (r\<lparr>m_input_unit := (m_input_unit r)[nat inport := input_unit'']\<rparr>)))))))))"

definition arbitrate_outport :: "int \<Rightarrow> Router \<Rightarrow> error + Router" where
  "arbitrate_outport outport r =
     bindE (choose_inport r outport) (\<lambda>chosen_inport.
       if chosen_inport = -1 then Inr r
       else
         bindE (getOutputUnit r outport) (\<lambda>output_unit.
         bindE (getInputUnit r chosen_inport) (\<lambda>input_unit.
         bindE (at_index (m_vc_winners (switchAllocator r)) chosen_inport) (\<lambda>invc.
         bindE (winner_outvc outport chosen_inport invc r) (\<lambda>(alloc, r').
           case alloc of
             None \<Rightarrow> Inr r'
           | Some outvc \<Rightarrow> grant_flit outport chosen_inport invc outvc r')))))"

fun arbitrate_outports_from :: "nat list \<Rightarrow> Router \<Rightarrow> error + Router" where
  "arbitrate_outports_from [] r = Inr r"
| "arbitrate_outports_from (outport # outports) r =
     (case arbitrate_outport (int outport) r of
        Inl e \<Rightarrow> Inl e
      | Inr r' \<Rightarrow> arbitrate_outports_from outports r')"

definition arbitrate_outports :: "Router \<Rightarrow> error + Router" where
  "arbitrate_outports r = arbitrate_outports_from [0..<length (m_output_unit r)] r"

section \<open>SPIN: router state machine (Router.cc)\<close>

text \<open>
  Modelled from the spec: the constructors of control flits (flit.cc is not part of the sources
  at hand).  A control flit carries source router id, source inport, source VC, vnet, type,
  time and a path (sections 3 and 4.1); the in-class initialisers of flit.hh give
  \<open>m_must_send = false\<close>, \<open>m_inport = -1\<close> and \<open>m_delay = 0\<close>.  What the constructors put into
  the remaining fields (flit id, VC, outport, stage, width, route) is not known; those fields
  are taken from a flit \<open>init\<close> that every operation building a flit receives.  The second
  constructor builds a KILL_MOVE from source id, path, time and inport.  The control-flit queues
  are FIFOs (section 3).
\<close>

definition new_control_flit ::
  "flit \<Rightarrow> int \<Rightarrow> int \<Rightarrow> int \<Rightarrow> int \<Rightarrow> flit_type \<Rightarrow> Tick \<Rightarrow> int list \<Rightarrow> flit" where
  "new_control_flit init src_id src_inp_port src_vc v ty curTime path =
     init\<lparr>m_vnet := v, m_time := curTime, m_type := ty, m_must_send := False,
          m_source_id := src_id, m_source_inp_port := src_inp_port, m_source_vc := src_vc,
          m_inport := -1, m_path := path, m_delay := 0\<rparr>"

definition new_kill_move_flit :: "flit \<Rightarrow> int \<Rightarrow> int list \<Rightarrow> Tick \<Rightarrow> int \<Rightarrow> flit" where
  "new_kill_move_flit init src_id path curTime inport =
     init\<lparr>m_time := curTime, m_type := KILL_MOVE, m_must_send := False,
          m_source_id := src_id, m_source_inp_port := -1, m_source_vc := -1,
          m_inport := inport, m_path := path, m_delay := 0\<rparr>"

text \<open>\<open>set_counter\<close>.  \<open>vc / m_vc_per_vnet\<close> is an unsigned division.  \<open>default\<close> is reached by
  \<open>s_off\<close>.\<close>

definition counter_thresh :: "Router \<Rightarrow> Counter_state \<Rightarrow> nat \<Rightarrow> Cycles" where
  "counter_thresh r state thresh =
     (case state of
        s_move \<Rightarrow> curCycle r + loop_delay r
      | s_check_probe \<Rightarrow> curCycle r + loop_delay r
      | s_forward_progress \<Rightarrow> curCycle r + loop_delay r
      | s_frozen \<Rightarrow> curCycle r + thresh
      | s_deadlock_detection \<Rightarrow> curCycle r + getSpinDdThreshold (m_network_ptr r)
      | _ \<Rightarrow> nat INFINITE)"

definition set_counter :: "nat \<Rightarrow> nat \<Rightarrow> Counter_state \<Rightarrow> nat \<Rightarrow> Router \<Rightarrow> error + Router" where
  "set_counter input_port vc state thresh r =
     (if m_vc_per_vnet r = 0 then Inl UndefinedBehaviour
      else if state \<noteq> s_off then
        (if counter_thresh r state thresh - curCycle r > 0 then
           Inr (schedule_wakeup (counter_thresh r state thresh - curCycle r)
                 (r\<lparr>m_counter := \<lparr>cptr_input_port = input_port, cptr_vc = vc,
                      cptr_vnet = vc div m_vc_per_vnet r, c_count = 0,
                      c_thresh = counter_thresh r state thresh, c_state = state\<rparr>\<rparr>))
         else Inl AssertCounterThresh)
      else
        Inr (r\<lparr>m_counter := \<lparr>cptr_input_port = input_port, cptr_vc = vc,
               cptr_vnet = vc div m_vc_per_vnet r, c_count = 0,
               c_thresh = counter_thresh r state thresh, c_state = state\<rparr>\<rparr>))"

definition get_counter_state :: "Router \<Rightarrow> Counter_state" where
  "get_counter_state r = c_state (m_counter r)"

text \<open>\<open>increment_counter_ptr\<close>: the condition of its three loops, the scan over the VCs of an
  inport and the scan over inports (which skips Local ones).\<close>

definition eligible_vc :: "Router \<Rightarrow> nat \<Rightarrow> nat \<Rightarrow> error + bool" where
  "eligible_vc r ip vc =
     bindE (getInputUnit r (int ip)) (\<lambda>iu.
     bindE (get_outport iu (int vc)) (\<lambda>t_outport.
     bindE (get_vc_state iu (int vc)) (\<lambda>st.
       if st = ACTIVE then bindE (getOutportDirection r t_outport) (\<lambda>d. Inr (d \<noteq> ''Local''))
       else Inr False)))"

fun vc_scan :: "Router \<Rightarrow> nat \<Rightarrow> nat list \<Rightarrow> error + nat option" where
  "vc_scan r ip [] = Inr None"
| "vc_scan r ip (vc # vcs) =
     (case eligible_vc r ip vc of
        Inl e \<Rightarrow> Inl e
      | Inr ok \<Rightarrow> if ok then Inr (Some vc) else vc_scan r ip vcs)"

fun inport_vc_scan :: "Router \<Rightarrow> nat list \<Rightarrow> error + (nat \<times> nat) option" where
  "inport_vc_scan r [] = Inr None"
| "inport_vc_scan r (ip # ips) =
     (case getInportDirection r (int ip) of
        Inl e \<Rightarrow> Inl e
      | Inr d \<Rightarrow>
          if d = ''Local'' then inport_vc_scan r ips
          else
            (case vc_scan r ip [0..<m_num_vcs r] of
               Inl e \<Rightarrow> Inl e
             | Inr (Some vc) \<Rightarrow> Inr (Some (ip, vc))
             | Inr None \<Rightarrow> inport_vc_scan r ips))"

definition increment_counter_ptr :: "Router \<Rightarrow> error + Router" where
  "increment_counter_ptr r =
     bindE (vc_scan r (cptr_input_port (m_counter r)) [cptr_vc (m_counter r) + 1..<m_num_vcs r]) (\<lambda>same.
       case same of
         Some i \<Rightarrow> set_counter (cptr_input_port (m_counter r)) i s_deadlock_detection 0 r
       | None \<Rightarrow>
           bindE (inport_vc_scan r [cptr_input_port (m_counter r) + 1..<length (m_input_unit r)]) (\<lambda>next.
             case next of
               Some (ip, j) \<Rightarrow> set_counter ip j s_deadlock_detection 0 r
             | None \<Rightarrow>
                 bindE (inport_vc_scan r [0..<cptr_input_port (m_counter r) + 1]) (\<lambda>wrap.
                   case wrap of
                     Some (ip, j) \<Rightarrow> set_counter ip j s_deadlock_detection 0 r
                   | None \<Rightarrow>
                       set_counter (cptr_input_port (m_counter r)) (cptr_vc (m_counter r)) s_off 0 r)))"

text \<open>Path buffer and source-id buffer.\<close>

definition latch_path :: "flit \<Rightarrow> Router \<Rightarrow> Router" where
  "latch_path f r = r\<lparr>m_path_buffer := \<lparr>pb_path = m_path f, pb_valid = True\<rparr>\<rparr>"

definition peek_path_top :: "Router \<Rightarrow> error + int" where
  "peek_path_top r =
     (if pb_valid (m_path_buffer r) then
        Inr (case pb_path (m_path_buffer r) of [] \<Rightarrow> -1 | v # _ \<Rightarrow> v)
      else Inl AssertPathBufferValid)"

definition invalidate_path_buffer :: "Router \<Rightarrow> Router" where
  "invalidate_path_buffer r = r\<lparr>m_path_buffer := \<lparr>pb_path = [], pb_valid = False\<rparr>\<rparr>"

definition latch_source_id_buffer :: "int \<Rightarrow> int \<Rightarrow> Router \<Rightarrow> Router" where
  "latch_source_id_buffer source_id move_id r =
     r\<lparr>m_source_id_buffer := \<lparr>sib_source_id = source_id, sib_move_id = move_id, sib_valid = True\<rparr>\<rparr>"

definition invalidate_source_id_buffer :: "Router \<Rightarrow> Router" where
  "invalidate_source_id_buffer r =
     r\<lparr>m_source_id_buffer := \<lparr>sib_source_id = -1, sib_move_id = -1, sib_valid = False\<rparr>\<rparr>"

definition partial_check_source_id_buffer :: "Router \<Rightarrow> int \<Rightarrow> bool" where
  "partial_check_source_id_buffer r source_id =
     (if \<not> sib_valid (m_source_id_buffer r) then False
      else sib_source_id (m_source_id_buffer r) = source_id)"

text \<open>Move registry.  \<open>create_move_info_entry\<close> also freezes the VC; \<open>thaw_vc\<close> and \<open>freeze_vc\<close> are
  called on the unit that \<open>getInputUnit\<close> returns.\<close>

definition create_move_info_entry :: "int \<Rightarrow> int \<Rightarrow> int \<Rightarrow> Router \<Rightarrow> error + Router" where
  "create_move_info_entry inport vc outport r =
     on_input_unit inport (\<lambda>iu. Inr (freeze_vc (spin_scheme_enabled r) vc iu))
       (r\<lparr>move_registry := move_registry r @
            [\<lparr>mi_inport = inport, mi_vc = vc, mi_outport = outport, vc_at_downstream_router = -1,
              tail_moved = False, cur_move_count = 0\<rparr>]\<rparr>)"

fun update_move_info_loop :: "int \<Rightarrow> int \<Rightarrow> int \<Rightarrow> move_info list \<Rightarrow> move_info list \<Rightarrow> Router \<Rightarrow> error + Router" where
  "update_move_info_loop inport vc outport seen [] r = Inr r"
| "update_move_info_loop inport vc outport seen (mi # rest) r =
     (if mi_outport mi = outport then
        bindE (on_input_unit inport (\<lambda>iu. Inr (thaw_vc (mi_vc mi) iu)) r) (\<lambda>r1.
          on_input_unit inport (\<lambda>iu. Inr (freeze_vc (spin_scheme_enabled r) vc iu))
            (r1\<lparr>move_registry := seen @ [mi\<lparr>mi_vc := vc\<rparr>] @ rest\<rparr>))
      else update_move_info_loop inport vc outport (seen @ [mi]) rest r)"

definition update_move_info_entry :: "int \<Rightarrow> int \<Rightarrow> int \<Rightarrow> Router \<Rightarrow> error + Router" where
  "update_move_info_entry inport vc outport r =
     update_move_info_loop inport vc outport [] (move_registry r) r"

fun invalidate_move_registry_loop :: "int \<Rightarrow> int \<Rightarrow> move_info list \<Rightarrow> move_info list \<Rightarrow> Router \<Rightarrow> error + Router" where
  "invalidate_move_registry_loop inport outport seen [] r = Inr r"
| "invalidate_move_registry_loop inport outport seen (mi # rest) r =
     (if mi_outport mi = outport then
        on_input_unit inport (\<lambda>iu. Inr (thaw_vc (mi_vc mi) iu)) (r\<lparr>move_registry := seen @ rest\<rparr>)
      else invalidate_move_registry_loop inport outport (seen @ [mi]) rest r)"

definition invalidate_move_registry_entry :: "int \<Rightarrow> int \<Rightarrow> Router \<Rightarrow> error + Router" where
  "invalidate_move_registry_entry inport outport r =
     invalidate_move_registry_loop inport outport [] (move_registry r) r"

definition check_outport_entry_in_move_registry :: "Router \<Rightarrow> int \<Rightarrow> bool" where
  "check_outport_entry_in_move_registry r outport = (\<exists>mi \<in> set (move_registry r). mi_outport mi = outport)"

fun thaw_registered :: "move_info list \<Rightarrow> Router \<Rightarrow> error + Router" where
  "thaw_registered [] r = Inr r"
| "thaw_registered (mi # rest) r =
     (case on_input_unit (mi_inport mi) (\<lambda>iu. Inr (thaw_vc (mi_vc mi) iu)) r of
        Inl e \<Rightarrow> Inl e
      | Inr r' \<Rightarrow> thaw_registered rest r')"

definition clear_move_registry :: "Router \<Rightarrow> error + Router" where
  "clear_move_registry r =
     bindE (thaw_registered (move_registry r) r) (\<lambda>r'. Inr (r'\<lparr>move_registry := []\<rparr>))"

text \<open>Sending and forwarding control flits.  \<open>clockEdge(Cycles(1)) - Cycles(1)\<close> is one tick
  before the next clock edge.\<close>

definition wake_after_latency :: "Router \<Rightarrow> Router" where
  "wake_after_latency r = (if m_latency r > 1 then schedule_wakeup (m_latency r - 1) r else r)"

definition send_move_msg :: "flit \<Rightarrow> int \<Rightarrow> int \<Rightarrow> Router \<Rightarrow> error + (int \<times> Router)" where
  "send_move_msg init inport vc r =
     (if m_vc_per_vnet r = 0 then Inl UndefinedBehaviour
      else
        Inr (m_id init,
          wake_after_latency
            (r\<lparr>moveQueue := moveQueue r @
               [subDelay (clockEdge r (m_latency r) - clockEdge r 0)
                 (addDelay (clockEdge r (loop_delay r) - clockEdge r 0)
                   (addDelay (clockEdge r (loop_delay r) - clockEdge r 0)
                     (new_control_flit init (r_id r) inport vc
                        (to_signed (to_unsigned vc div m_vc_per_vnet r)) MOVE
                        (clockEdge r 1 - 1) (pb_path (m_path_buffer r)))))]\<rparr>)))"

definition fork_probes :: "flit \<Rightarrow> flit \<Rightarrow> bool list \<Rightarrow> Router \<Rightarrow> Router" where
  "fork_probes init t_flit fork_vector r =
     r\<lparr>probeQueue := probeQueue r @
        map (\<lambda>op.
              subDelay (clockEdge r (m_latency r) - clockEdge r 0)
                (addDelay (m_delay t_flit)
                  (new_control_flit init (m_source_id t_flit) (m_inport t_flit) (m_source_vc t_flit)
                     (m_vnet t_flit) PROBE (clockEdge r 1 - 1) (m_path t_flit @ [int op]))))
            (filter (\<lambda>op. fork_vector ! op) [0..<length fork_vector])\<rparr>"

definition send_kill_move :: "flit \<Rightarrow> int \<Rightarrow> Router \<Rightarrow> Router" where
  "send_kill_move init inport r =
     wake_after_latency
       (r\<lparr>kill_moveQueue := kill_moveQueue r @
          [(new_kill_move_flit init (r_id r) (pb_path (m_path_buffer r)) (clockEdge r 1 - 1) inport)
             \<lparr>m_must_send := True\<rparr>]\<rparr>)"

definition forward_kill_move :: "flit \<Rightarrow> Router \<Rightarrow> error + Router" where
  "forward_kill_move kill_move r =
     bindE (getPathTop kill_move) (\<lambda>(outport, f).
       Inr (wake_after_latency
             (r\<lparr>kill_moveQueue := kill_moveQueue r @
                [f\<lparr>m_outport := outport, m_time := clockEdge r 1 - 1\<rparr>]\<rparr>)))"

definition forward_move :: "flit \<Rightarrow> Router \<Rightarrow> error + Router" where
  "forward_move mv r =
     bindE (getPathTop (subDelay (clockEdge r (m_latency r) - clockEdge r 0) mv)) (\<lambda>(outport, f).
       Inr (wake_after_latency
             (r\<lparr>moveQueue := moveQueue r @
                [f\<lparr>m_outport := outport, m_time := clockEdge r 1 - 1\<rparr>]\<rparr>)))"

definition forward_check_probe :: "flit \<Rightarrow> Router \<Rightarrow> error + Router" where
  "forward_check_probe cp r =
     bindE (getPathTop (subDelay (clockEdge r (m_latency r) - clockEdge r 0) cp)) (\<lambda>(outport, f).
       Inr (wake_after_latency
             (r\<lparr>check_probeQueue := check_probeQueue r @
                [f\<lparr>m_outport := outport, m_time := clockEdge r 1 - 1\<rparr>]\<rparr>)))"

section \<open>SPIN: control flits at the input unit (InputUnit.cc)\<close>

text \<open>
  The input unit at work is the one at index \<open>inport\<close> of the router's vector; \<open>addInPort\<close>
  gives a new unit its index as \<open>m_id\<close>, so \<open>inport\<close> also stands for \<open>m_id\<close>.
\<close>

definition verify_dependence_at_source :: "flit \<Rightarrow> InputUnit \<Rightarrow> error + bool" where
  "verify_dependence_at_source t_flit iu =
     (if m_source_vc t_flit < 0 then Inr False
      else bindE (get_outport iu (m_source_vc t_flit)) (\<lambda>outp. Inr (outp = peekPathTop t_flit)))"

text \<open>The loop of \<open>create_fork_vector\<close> over the VCs of the probe's vnet; it returns as soon as a
  VC is not ACTIVE or has a Local outport.  Writing \<open>m_fork_vector[outp]\<close> outside the vector
  is undefined.\<close>

fun fork_vector_loop :: "Router \<Rightarrow> InputUnit \<Rightarrow> int list \<Rightarrow> bool list \<Rightarrow> bool \<Rightarrow> error + (bool \<times> bool list)" where
  "fork_vector_loop r iu [] fv any = Inr (any, fv)"
| "fork_vector_loop r iu (i # rest) fv any =
     (case get_vc_state iu i of
        Inl e \<Rightarrow> Inl e
      | Inr st \<Rightarrow>
          if st \<noteq> ACTIVE then Inr (False, fv)
          else
            (case get_outport iu i of
               Inl e \<Rightarrow> Inl e
             | Inr outp \<Rightarrow>
                 (case getOutportDirection r outp of
                    Inl e \<Rightarrow> Inl e
                  | Inr d \<Rightarrow>
                      if d = ''Local'' then Inr (False, fv)
                      else if 0 \<le> outp \<and> outp < int (length fv)
                        then fork_vector_loop r iu rest (fv[nat outp := True]) True
                        else Inl UndefinedBehaviour)))"

definition create_fork_vector :: "Router \<Rightarrow> flit \<Rightarrow> InputUnit \<Rightarrow> error + (bool \<times> InputUnit)" where
  "create_fork_vector r t_flit iu =
     bindE (fork_vector_loop r iu (vnet_vcs (m_vc_per_vnet r) (m_vnet t_flit))
              (replicate (length (m_fork_vector iu)) False) False)
       (\<lambda>(any, fv). Inr (any, iu\<lparr>m_fork_vector := fv\<rparr>))"

definition clear_fork_vector :: "InputUnit \<Rightarrow> InputUnit" where
  "clear_fork_vector iu = iu\<lparr>m_fork_vector := replicate (length (m_fork_vector iu)) False\<rparr>"

text \<open>The loop of \<open>find_move_vc\<close>.\<close>

fun find_move_vc_loop :: "Router \<Rightarrow> InputUnit \<Rightarrow> int \<Rightarrow> int list \<Rightarrow> error + int" where
  "find_move_vc_loop r iu outp [] = Inr (-1)"
| "find_move_vc_loop r iu outp (i # rest) =
     (case get_vc iu i of
        Inl e \<Rightarrow> Inl e
      | Inr v \<Rightarrow>
          if fst (m_vc_state v) \<noteq> ACTIVE then Inr (-1)
          else
            (case getOutportDirection r (m_output_port v) of
               Inl e \<Rightarrow> Inl e
             | Inr d \<Rightarrow>
                 if d = ''Local'' then Inr (-1)
                 else if m_output_port v = outp \<and> containsHeadAndTail v then Inr i
                 else find_move_vc_loop r iu outp rest))"

definition find_move_vc :: "Router \<Rightarrow> flit \<Rightarrow> InputUnit \<Rightarrow> error + int" where
  "find_move_vc r t_flit iu =
     find_move_vc_loop r iu (peekPathTop t_flit) (vnet_vcs (m_vc_per_vnet r) (m_vnet t_flit))"

definition count_probe_dropped :: "int \<Rightarrow> Router \<Rightarrow> error + Router" where
  "count_probe_dropped inport r =
     on_input_unit inport (\<lambda>iu. Inr (iu\<lparr>m_num_probes_dropped := m_num_probes_dropped iu + 1\<rparr>)) r"

definition count_move_dropped :: "int \<Rightarrow> Router \<Rightarrow> error + Router" where
  "count_move_dropped inport r =
     on_input_unit inport (\<lambda>iu. Inr (iu\<lparr>m_num_move_dropped := m_num_move_dropped iu + 1\<rparr>)) r"

definition count_check_probe_dropped :: "int \<Rightarrow> Router \<Rightarrow> error + Router" where
  "count_check_probe_dropped inport r =
     on_input_unit inport
       (\<lambda>iu. Inr (iu\<lparr>m_num_check_probe_dropped := m_num_check_probe_dropped iu + 1\<rparr>)) r"

text \<open>What the source does when the dependence is gone at the source router of a MOVE or
  CHECK_PROBE: a KILL_MOVE is sent and the recovery state is torn down.\<close>

definition abandon_move :: "flit \<Rightarrow> int \<Rightarrow> Router \<Rightarrow> error + Router" where
  "abandon_move init inport r =
     bindE (increment_counter_ptr
              (invalidate_source_id_buffer (invalidate_path_buffer (send_kill_move init inport r))))
       clear_move_registry"

text \<open>The PROBE branch of \<open>wakeup\<close>.\<close>

definition wakeup_PROBE :: "flit \<Rightarrow> int \<Rightarrow> flit \<Rightarrow> Router \<Rightarrow> error + Router" where
  "wakeup_PROBE init inport t_flit r =
     (if m_source_id t_flit = r_id r then
        bindE (getInputUnit r inport) (\<lambda>iu.
        bindE (verify_dependence_at_source t_flit iu) (\<lambda>dep.
          if dep then
            bindE (send_move_msg init inport (m_source_vc t_flit) (latch_path t_flit (r\<lparr>loop_delay := 1\<rparr>)))
              (\<lambda>(move_id, r1).
            bindE (peek_path_top (latch_source_id_buffer (r_id r) move_id r1)) (\<lambda>top.
            bindE (create_move_info_entry inport (m_source_vc t_flit) top
                     (latch_source_id_buffer (r_id r) move_id r1)) (\<lambda>r2.
              set_counter (to_unsigned (m_source_inp_port t_flit)) (to_unsigned (m_source_vc t_flit))
                s_move 0 r2)))
          else count_probe_dropped inport r))
      else if getNumTurns t_flit > getSpinMaxTurnCapacity (m_network_ptr r) then
        count_probe_dropped inport r
      else
        bindE (getInputUnit r inport) (\<lambda>iu.
        bindE (create_fork_vector r t_flit iu) (\<lambda>(any, iu1).
        bindE (if any then
                 Inr (fork_probes init t_flit (m_fork_vector iu1)
                       (r\<lparr>m_input_unit := (m_input_unit r)[nat inport := iu1]\<rparr>))
               else count_probe_dropped inport (r\<lparr>m_input_unit := (m_input_unit r)[nat inport := iu1]\<rparr>))
          (on_input_unit inport (\<lambda>iu2. Inr (clear_fork_vector iu2))))))"

text \<open>The MOVE branch of \<open>wakeup\<close>.\<close>

definition wakeup_MOVE :: "flit \<Rightarrow> int \<Rightarrow> flit \<Rightarrow> Router \<Rightarrow> error + Router" where
  "wakeup_MOVE init inport t_flit r =
     (if m_source_id t_flit = r_id r then
        bindE (getInputUnit r inport) (\<lambda>iu.
        bindE (verify_dependence_at_source t_flit iu) (\<lambda>dep.
          if dep then
            set_counter (to_unsigned inport) (to_unsigned (m_source_vc t_flit)) s_forward_progress 0
              (r\<lparr>m_move := True\<rparr>)
          else bindE (abandon_move init inport r) (count_move_dropped inport)))
      else if \<not> (get_counter_state r = s_deadlock_detection \<or> get_counter_state r = s_off \<or>
                 get_counter_state r = s_frozen) then
        count_move_dropped inport r
      else if get_counter_state r = s_frozen \<and>
              \<not> partial_check_source_id_buffer r (m_source_id t_flit) then
        count_move_dropped inport r
      else if check_outport_entry_in_move_registry r (peekPathTop t_flit) then
        count_move_dropped inport r
      else
        bindE (getInputUnit r inport) (\<lambda>iu.
        bindE (find_move_vc r t_flit iu) (\<lambda>mvc.
          if mvc \<noteq> -1 then
            bindE (create_move_info_entry inport mvc (peekPathTop t_flit)
                     (latch_source_id_buffer (m_source_id t_flit) (m_id t_flit) (r\<lparr>m_move := True\<rparr>)))
              (\<lambda>r1.
            bindE (set_counter (to_unsigned inport) (to_unsigned mvc) s_frozen 1 r1) (\<lambda>r2.
              forward_move t_flit r2))
          else count_move_dropped inport r)))"

text \<open>The CHECK_PROBE branch of \<open>wakeup\<close>.\<close>

definition wakeup_CHECK_PROBE :: "flit \<Rightarrow> int \<Rightarrow> flit \<Rightarrow> Router \<Rightarrow> error + Router" where
  "wakeup_CHECK_PROBE init inport t_flit r =
     (if m_source_id t_flit = r_id r then
        bindE (getInputUnit r inport) (\<lambda>iu.
        bindE (verify_dependence_at_source t_flit iu) (\<lambda>dep.
          if dep then
            set_counter (to_unsigned inport) (to_unsigned (m_source_vc t_flit)) s_forward_progress 0
              (r\<lparr>m_move := True\<rparr>)
          else bindE (abandon_move init inport r) (count_check_probe_dropped inport)))
      else if get_counter_state r \<noteq> s_frozen then Inl AssertCounterFrozen
      else if \<not> partial_check_source_id_buffer r (m_source_id t_flit) then Inl AssertSourceIdLatched
      else
        bindE (getInputUnit r inport) (\<lambda>iu.
        bindE (find_move_vc r t_flit iu) (\<lambda>mvc.
          if mvc \<noteq> -1 then
            bindE (update_move_info_entry inport mvc (peekPathTop t_flit) (r\<lparr>m_move := True\<rparr>)) (\<lambda>r1.
            bindE (set_counter (to_unsigned inport) (to_unsigned mvc) s_frozen 1 r1) (\<lambda>r2.
              forward_check_probe t_flit r2))
          else count_check_probe_dropped inport r)))"

text \<open>The KILL_MOVE branch of \<open>wakeup\<close>.  At the router the flit came from it is deleted and
  nothing else happens.\<close>

definition wakeup_KILL_MOVE :: "int \<Rightarrow> flit \<Rightarrow> Router \<Rightarrow> error + Router" where
  "wakeup_KILL_MOVE inport t_flit r =
     (if m_source_id t_flit = r_id r then Inr r
      else if partial_check_source_id_buffer r (m_source_id t_flit) then
        bindE
          (if length (move_registry r) = 1 then
             bindE (increment_counter_ptr (r\<lparr>kill_move_processed_this_cycle := True, m_move := False\<rparr>))
               (\<lambda>r1. clear_move_registry (invalidate_source_id_buffer r1))
           else
             invalidate_move_registry_entry inport (peekPathTop t_flit)
               (r\<lparr>kill_move_processed_this_cycle := True\<rparr>))
          (forward_kill_move (t_flit\<lparr>m_must_send := True\<rparr>))
      else forward_kill_move (t_flit\<lparr>m_must_send := False\<rparr>) r)"

text \<open>
  The head of \<open>InputUnit::wakeup\<close> for a flit \<open>flit0\<close> taken from the input link, up to the end of
  the SPIN block.  The result is \<open>None\<close> when the SPIN block does not handle the flit (SPIN is off
  or the flit is a data flit) and \<open>wakeup\<close> goes on to buffer it (\<open>wakeup_data\<close> below).
\<close>

definition wakeup_control :: "flit \<Rightarrow> int \<Rightarrow> flit \<Rightarrow> Router \<Rightarrow> (error + Router) option" where
  "wakeup_control init inport flit0 r =
     (if m_width flit0 \<noteq> m_bit_width r then Some (Inl AssertWidth)
      else if spin_scheme_enabled r then
        (case m_type flit0 of
           PROBE \<Rightarrow> Some (wakeup_PROBE init inport ((increment_hops flit0)\<lparr>m_inport := r_id r\<rparr>) r)
         | MOVE \<Rightarrow> Some (wakeup_MOVE init inport ((increment_hops flit0)\<lparr>m_inport := r_id r\<rparr>) r)
         | CHECK_PROBE \<Rightarrow>
             Some (wakeup_CHECK_PROBE init inport ((increment_hops flit0)\<lparr>m_inport := r_id r\<rparr>) r)
         | KILL_MOVE \<Rightarrow> Some (wakeup_KILL_MOVE inport ((increment_hops flit0)\<lparr>m_inport := r_id r\<rparr>) r)
         | _ \<Rightarrow> None)
      else None)"

section \<open>Ports and the data path of the input unit (Router.cc, InputUnit.cc)\<close>

text \<open>
  The constructor of \<open>InputUnit\<close>: one VC per VC index, stall counts and frozen flags per VC,
  and a fork vector with one entry per output port the router has \<^emph>\<open>at that moment\<close>
  (\<open>m_router->get_num_outports()\<close>).  The per-vnet buffer counters are statistics and are not
  kept; their size \<open>m_num_vcs / m_vc_per_vnet\<close> is an \<open>int\<close> division, undefined for zero VCs
  per vnet.

  Modelled from the spec: a VC starts IDLE with an empty FIFO and no outport and downstream VC
  (section 3; VirtualChannel.cc is not part of the sources at hand).
\<close>

definition new_InputUnit :: "int \<Rightarrow> PortDirection \<Rightarrow> Router \<Rightarrow> error + InputUnit" where
  "new_InputUnit port_num direction r =
     (if m_vc_per_vnet r = 0 then Inl UndefinedBehaviour
      else Inr \<lparr>iu_id = port_num, m_direction = direction,
        virtualChannels = replicate (m_num_vcs r) idle_vc,
        m_stall_count = replicate (m_num_vcs r) 0,
        m_vc_frozen = replicate (m_num_vcs r) False,
        m_fork_vector = replicate (length (m_output_unit r)) False,
        creditQueue = [], credit_link_events = [], m_num_probes_dropped = 0,
        m_num_move_dropped = 0, m_num_check_probe_dropped = 0\<rparr>)"

text \<open>
  \<open>addInPort\<close> appends a new input unit.  The links and the width check on them are outside
  the router; the direction maps that \<open>addInDirection\<close> and \<open>addOutDirection\<close> fill are read
  by \<open>outportComputeXY\<close> only and are not kept.
\<close>

definition addInPort :: "PortDirection \<Rightarrow> Router \<Rightarrow> error + Router" where
  "addInPort inport_dirn r =
     bindE (new_InputUnit (int (length (m_input_unit r))) inport_dirn r) (\<lambda>input_unit.
       Inr (r\<lparr>m_input_unit := m_input_unit r @ [input_unit]\<rparr>))"

text \<open>\<open>addRoute\<close> grows the table to the number of vnets of the entry and appends the entry's
  destination set of each vnet to that vnet's row; \<open>addWeight\<close> appends the weight.\<close>

definition addRoute :: "nat set list \<Rightarrow> RoutingUnit \<Rightarrow> RoutingUnit" where
  "addRoute routing_table_entry ru =
     ru\<lparr>m_routing_table :=
          map (\<lambda>v. (if v < length (m_routing_table ru) then m_routing_table ru ! v else []) @
                    (if v < length routing_table_entry then [routing_table_entry ! v] else []))
              [0..<max (length routing_table_entry) (length (m_routing_table ru))]\<rparr>"

definition addWeight :: "int \<Rightarrow> RoutingUnit \<Rightarrow> RoutingUnit" where
  "addWeight link_weight ru = ru\<lparr>m_weight_table := m_weight_table ru @ [link_weight]\<rparr>"

text \<open>
  Modelled from the spec: the constructor of \<open>OutputUnit\<close> (OutputUnit.cc is not part of the
  sources at hand).  Each of the \<open>consumerVcs\<close> downstream VCs starts IDLE with a full credit
  counter (section 3: the counter never exceeds the buffer depth); the depth is an argument.
\<close>

definition new_OutputUnit :: "PortDirection \<Rightarrow> nat \<Rightarrow> int \<Rightarrow> OutputUnit" where
  "new_OutputUnit direction consumerVcs depth =
     \<lparr>ou_direction = direction,
      outVcState = replicate consumerVcs \<lparr>ovc_state = IDLE, m_credit_count = depth\<rparr>\<rparr>"

text \<open>\<open>addOutPort\<close> appends a new output unit and its routing table entry and weight.  No input
  unit that exists already is touched: its fork vector keeps the size it was built with.\<close>

definition addOutPort :: "PortDirection \<Rightarrow> nat set list \<Rightarrow> int \<Rightarrow> nat \<Rightarrow> int \<Rightarrow> Router \<Rightarrow> Router" where
  "addOutPort outport_dirn routing_table_entry link_weight consumerVcs depth r =
     r\<lparr>m_output_unit := m_output_unit r @ [new_OutputUnit outport_dirn consumerVcs depth],
       routingUnit := addWeight link_weight (addRoute routing_table_entry (routingUnit r))\<rparr>"

text \<open>\<open>SwitchAllocator::init\<close>, called by \<open>Router::init\<close> once the ports are there.\<close>

definition init_switch_allocator :: "Router \<Rightarrow> Router" where
  "init_switch_allocator r =
     r\<lparr>switchAllocator := (switchAllocator r)
        \<lparr>m_round_robin_inport := replicate (length (m_output_unit r)) 0,
         m_round_robin_invc := replicate (length (m_input_unit r)) 0,
         m_port_requests := replicate (length (m_input_unit r)) (-1),
         m_vc_winners := replicate (length (m_input_unit r)) (-1),
         m_is_escape_req := replicate (length (m_input_unit r)) False\<rparr>\<rparr>"

text \<open>
  \<open>Router::route_compute\<close> hands over to \<open>outportCompute\<close>.  The algorithms that
  \<open>outportCompute\<close> takes as arguments are member functions of the routing unit and write its
  members only (round-robin and EWMA state), so of the router they return the routing unit is
  kept.
\<close>

definition route_compute ::
  "topology_algs \<Rightarrow> RouteInfo \<Rightarrow> int \<Rightarrow> PortDirection \<Rightarrow> Router \<Rightarrow> libc_rand \<Rightarrow>
     error + (int \<times> Router \<times> libc_rand)" where
  "route_compute algs route inport inport_dirn r g =
     bindE (outportCompute algs route inport inport_dirn r g) (\<lambda>(outport, r', g').
       Inr (outport, r\<lparr>routingUnit := routingUnit r'\<rparr>, g'))"

text \<open>
  The data path of \<open>InputUnit::wakeup\<close>, from the test for HEAD and HEAD_TAIL to the end, for
  the flit \<open>t_flit\<close> taken from the link of input port \<open>inport\<close> (after \<open>increment_hops\<close>).
  \<open>link_ready\<close> says whether the link has another flit ready at the current tick.  The flit is
  inserted into the VC before its stage is advanced; the VC holds the pointer, so the
  buffered flit is the advanced one.  \<open>vc / m_vc_per_vnet\<close> for the buffer counters is an
  \<open>int\<close> division and the counters have \<open>m_num_vcs / m_vc_per_vnet\<close> entries.
\<close>

definition activate_vc ::
  "topology_algs \<Rightarrow> int \<Rightarrow> flit \<Rightarrow> Router \<Rightarrow> libc_rand \<Rightarrow> error + (Router \<times> libc_rand)" where
  "activate_vc algs inport t_flit r g =
     bindE (getInputUnit r inport) (\<lambda>iu.
     bindE (get_vc_state iu (m_vc t_flit)) (\<lambda>st.
       if st \<noteq> IDLE then Inl AssertVcIdle
       else
         bindE (on_input_unit inport (set_vc_active (m_vc t_flit) (curTick r)) r) (\<lambda>r1.
         bindE (route_compute algs (m_route t_flit) (iu_id iu) (m_direction iu) r1 g)
           (\<lambda>(outport, r2, g').
         bindE (on_input_unit inport (grant_outport (m_vc t_flit) outport) r2) (\<lambda>r3.
           if spin_scheme_enabled r3 \<and> get_counter_state r3 = s_off \<and> m_direction iu \<noteq> ''Local''
           then
             bindE (getOutportDirection r3 outport) (\<lambda>d.
               if d \<noteq> ''Local'' then
                 bindE (set_counter (to_unsigned (iu_id iu)) (to_unsigned (m_vc t_flit))
                          s_deadlock_detection 0 r3) (\<lambda>r4. Inr (r4, g'))
               else Inr (r3, g'))
           else Inr (r3, g'))))))"

definition buffer_flit :: "int \<Rightarrow> flit \<Rightarrow> bool \<Rightarrow> Router \<Rightarrow> error + Router" where
  "buffer_flit inport t_flit link_ready r =
     bindE (on_input_unit inport
              (insertFlit (m_vc t_flit)
                 (advance_stage SA
                    (if m_latency r = 1 then curTick r else clockEdge r (m_latency r - 1)) t_flit))
              r) (\<lambda>r1.
       if m_vc_per_vnet r = 0 then Inl UndefinedBehaviour
       else if \<not> (0 \<le> m_vc t_flit sdiv int (m_vc_per_vnet r) \<and>
                   m_vc t_flit sdiv int (m_vc_per_vnet r) < int (m_num_vcs r) sdiv int (m_vc_per_vnet r))
       then Inl UndefinedBehaviour
       else if m_latency r = 0 then Inl AssertPipeStages
       else
         Inr ((if link_ready then schedule_wakeup 1 else id)
                ((if m_latency r = 1 then id else schedule_wakeup (m_latency r - 1)) r1)))"

definition wakeup_data ::
  "topology_algs \<Rightarrow> int \<Rightarrow> flit \<Rightarrow> bool \<Rightarrow> Router \<Rightarrow> libc_rand \<Rightarrow> error + (Router \<times> libc_rand)" where
  "wakeup_data algs inport t_flit link_ready r g =
     bindE (if m_type t_flit = HEAD \<or> m_type t_flit = HEAD_TAIL then activate_vc algs inport t_flit r g
            else
              bindE (getInputUnit r inport) (\<lambda>iu.
              bindE (get_vc_state iu (m_vc t_flit)) (\<lambda>st.
                if st \<noteq> ACTIVE then Inl AssertVcActive else Inr (r, g))))
       (\<lambda>(r1, g'). bindE (buffer_flit inport t_flit link_ready r1) (\<lambda>r2. Inr (r2, g')))"

text \<open>
  \<open>InputUnit::wakeup\<close> for a flit \<open>flit0\<close> on the link: the SPIN handlers for a control flit
  when SPIN is enabled, the data path for every other flit.
\<close>

definition wakeup ::
  "topology_algs \<Rightarrow> flit \<Rightarrow> int \<Rightarrow> flit \<Rightarrow> bool \<Rightarrow> Router \<Rightarrow> libc_rand \<Rightarrow>
     error + (Router \<times> libc_rand)" where
  "wakeup algs init inport flit0 link_ready r g =
     (case wakeup_control init inport flit0 r of
        Some res \<Rightarrow> bindE res (\<lambda>r'. Inr (r', g))
      | None \<Rightarrow> wakeup_data algs inport (increment_hops flit0) link_ready r g)"

section \<open>Reference notions for the table lookup\<close>

text \<open>The links of a table row that reach the destination, and among them those of least
  weight, in link order: the candidates the specification speaks of.\<close>

definition reachable_links :: "nat set list \<Rightarrow> nat set \<Rightarrow> nat list" where
  "reachable_links entry dest = filter (\<lambda>l. intersectionIsNotEmpty dest (entry ! l)) [0..<length entry]"

definition min_weight_candidates :: "int list \<Rightarrow> nat set list \<Rightarrow> nat set \<Rightarrow> int list" where
  "min_weight_candidates wt entry dest =
     (let R = reachable_links entry dest
      in map int (filter (\<lambda>l. wt ! l = Min ((\<lambda>l. wt ! l) ` set R)) R))"

section \<open>Reference notions for \<open>send_allowed\<close>\<close>

text \<open>
  The indices \<open>send_allowed\<close> is called with, as they are in a router that has been set up:
  ports and VCs within the vectors, every unit holding \<open>num_vnets * vc_per_vnet\<close> VCs, and the
  downstream VC either -1 or a VC index.  Then the three conditions of the specification:
  (a) a free (IDLE) downstream VC in the vnet at the outport, (b) a positive credit count of the
  downstream VC, (c) no other VC of the vnet at this inport whose head flit is in stage SA,
  asks for the same outport and was enqueued strictly earlier.
\<close>

definition sa_indices_ok :: "Router \<Rightarrow> int \<Rightarrow> int \<Rightarrow> int \<Rightarrow> int \<Rightarrow> bool" where
  "sa_indices_ok r inport invc outport outvc =
     (0 < m_vc_per_vnet r \<and> 0 \<le> inport \<and> inport < int (length (m_input_unit r)) \<and>
      0 \<le> outport \<and> outport < int (length (m_output_unit r)) \<and>
      0 \<le> invc \<and> invc < int (m_virtual_networks r * m_vc_per_vnet r) \<and>
      length (virtualChannels (m_input_unit r ! nat inport)) = m_virtual_networks r * m_vc_per_vnet r \<and>
      length (outVcState (m_output_unit r ! nat outport)) = m_virtual_networks r * m_vc_per_vnet r \<and>
      -1 \<le> outvc \<and> outvc < int (m_virtual_networks r * m_vc_per_vnet r))"

definition free_vc_exists :: "Router \<Rightarrow> int \<Rightarrow> int \<Rightarrow> bool" where
  "free_vc_exists r outport v =
     (\<exists>vc \<in> set (vnet_vcs (m_vc_per_vnet r) v).
        ovc_state (outVcState (m_output_unit r ! nat outport) ! nat vc) = IDLE)"

definition earlier_flit_requests :: "Router \<Rightarrow> int \<Rightarrow> int \<Rightarrow> int \<Rightarrow> bool" where
  "earlier_flit_requests r inport invc outport =
     (\<exists>vc \<in> set (vnet_vcs (m_vc_per_vnet r) (invc div int (m_vc_per_vnet r))).
        vc \<noteq> invc \<and>
        vc_need_stage (virtualChannels (m_input_unit r ! nat inport) ! nat vc) SA (curTick r) \<and>
        m_output_port (virtualChannels (m_input_unit r ! nat inport) ! nat vc) = outport \<and>
        vc_enqueue_time (virtualChannels (m_input_unit r ! nat inport) ! nat vc) <
          vc_enqueue_time (virtualChannels (m_input_unit r ! nat inport) ! nat invc))"

definition send_allowed_spec :: "Router \<Rightarrow> int \<Rightarrow> int \<Rightarrow> int \<Rightarrow> int \<Rightarrow> bool" where
  "send_allowed_spec r inport invc outport outvc =
     ((outvc = -1 \<longrightarrow> free_vc_exists r outport (invc div int (m_vc_per_vnet r))) \<and>
      (0 \<le> outvc \<longrightarrow> 0 < m_credit_count (outVcState (m_output_unit r ! nat outport) ! nat outvc)) \<and>
      (isVNetOrdered (m_network_ptr r) (invc div int (m_vc_per_vnet r)) \<longrightarrow>
         \<not> earlier_flit_requests r inport invc outport))"

section \<open>Reference notions for SA-II\<close>

text \<open>
  Round-robin order over \<open>n\<close> inports from a start, and the first inport of an order with a
  property (-1 when there is none).  The winner the specification describes for an outport: the
  first requester with \<open>is_escape_req\<close> set in round-robin order from \<open>rr_inport[outport]\<close>, and
  only when there is none the first requester.  \<open>sa2_ok\<close> says that the allocator's vectors have
  the sizes \<open>init\<close> gives them and that the round-robin pointer is an inport.
\<close>

definition round_robin_order :: "nat \<Rightarrow> nat \<Rightarrow> int list" where
  "round_robin_order n start = map int ([start..<n] @ [0..<start])"

definition first_requester :: "(int \<Rightarrow> bool) \<Rightarrow> int list \<Rightarrow> int" where
  "first_requester P order = (case find P order of None \<Rightarrow> -1 | Some i \<Rightarrow> i)"

definition sa2_winner :: "Router \<Rightarrow> int \<Rightarrow> int" where
  "sa2_winner r outport =
     (let sa = switchAllocator r;
          order = round_robin_order (length (m_input_unit r)) (nat (m_round_robin_inport sa ! nat outport));
          esc = first_requester (\<lambda>i. m_port_requests sa ! nat i = outport \<and> m_is_escape_req sa ! nat i) order
      in if esc \<noteq> -1 then esc
         else first_requester (\<lambda>i. m_port_requests sa ! nat i = outport) order)"

definition sa2_ok :: "Router \<Rightarrow> int \<Rightarrow> bool" where
  "sa2_ok r outport =
     (0 \<le> outport \<and> outport < int (length (m_output_unit r)) \<and>
      length (m_round_robin_inport (switchAllocator r)) = length (m_output_unit r) \<and>
      length (m_round_robin_invc (switchAllocator r)) = length (m_input_unit r) \<and>
      length (m_port_requests (switchAllocator r)) = length (m_input_unit r) \<and>
      length (m_vc_winners (switchAllocator r)) = length (m_input_unit r) \<and>
      length (m_is_escape_req (switchAllocator r)) = length (m_input_unit r) \<and>
      0 \<le> m_round_robin_inport (switchAllocator r) ! nat outport \<and>
      m_round_robin_inport (switchAllocator r) ! nat outport < int (length (m_input_unit r)))"



text \<open>
  The states a router gets into.  \<open>vc_contents\<close> is what the input VCs hold: lifecycle state
  and buffered flits, per input port and VC.  In the source these are written in two places
  only: the data path of \<open>InputUnit::wakeup\<close> (\<open>set_vc_active\<close>, \<open>insertFlit\<close>) and
  \<open>arbitrate_outports\<close> (\<open>getTopFlit\<close>, \<open>set_vc_idle\<close>).  \<open>reach\<close> starts from a router whose VCs
  are all IDLE and empty, as the constructor of the input unit leaves them, and follows

    \<^item> \<open>arrive\<close>: \<open>InputUnit::wakeup\<close> takes a data flit from the link of an input port and
      returns;

    \<^item> \<open>control\<close>: \<open>InputUnit::wakeup\<close> takes a SPIN control flit from the link and the
      handler returns;

    \<^item> \<open>allocate\<close>: \<open>arbitrate_outports\<close> runs and returns;

    \<^item> \<open>other\<close>: anything that leaves \<open>vc_contents\<close> as it is (the clock, stage one of the
      allocator, credits at the output units).

  What arrives on a link is not the router's doing: the sender on the other side uses a VC for
  one packet at a time and sends the packet's flits in order.  \<open>reach\<close> carries, per input
  port and VC, whether a packet is open on the link (its HEAD has arrived, its TAIL has not);
  \<open>continues_stream\<close> says which flit types may come next and \<open>stream_open_after\<close> what the
  flit leaves behind.  \<open>vcs_of\<close> is the VCs of all input ports.
\<close>

definition vc_contents :: "Router \<Rightarrow> (VC_state_type \<times> flit list) list list" where
  "vc_contents r =
     map (\<lambda>iu. map (\<lambda>v. (fst (m_vc_state v), inputBuffer v)) (virtualChannels iu)) (m_input_unit r)"


definition continues_stream :: "bool \<Rightarrow> flit_type \<Rightarrow> bool" where
  "continues_stream opn ty = (if opn then ty = BODY \<or> ty = TAIL else ty = HEAD \<or> ty = HEAD_TAIL)"

definition stream_open_after :: "flit_type \<Rightarrow> bool" where
  "stream_open_after ty = (ty = HEAD \<or> ty = BODY)"

inductive reach :: "topology_algs \<Rightarrow> flit \<Rightarrow> (int \<times> int \<Rightarrow> bool) \<Rightarrow> Router \<Rightarrow> bool"
  for algs :: topology_algs and init :: flit where
  fresh: "\<forall>cs \<in> set (vc_contents r). \<forall>c \<in> set cs. c = (IDLE, []) \<Longrightarrow> reach algs init (\<lambda>_. False) r"
| arrive: "reach algs init opn r \<Longrightarrow>
           continues_stream (opn (inport, m_vc flit0)) (m_type flit0) \<Longrightarrow>
           wakeup algs init inport flit0 link_ready r g = Inr (r', g') \<Longrightarrow>
           reach algs init (opn((inport, m_vc flit0) := stream_open_after (m_type flit0))) r'"
| control: "reach algs init opn r \<Longrightarrow> wakeup_control init inport flit0 r = Some (Inr r') \<Longrightarrow>
            reach algs init opn r'"
| allocate: "reach algs init opn r \<Longrightarrow> arbitrate_outports r = Inr r' \<Longrightarrow> reach algs init opn r'"
| other: "reach algs init opn r \<Longrightarrow> vc_contents r' = vc_contents r \<Longrightarrow> reach algs init opn r'"




section \<open>Reference notions for the SPIN handlers\<close>

text \<open>
  A router in which the SPIN handlers find what they index: VCs per vnet and the detection
  threshold are positive, the input unit at work and the counter's pointer are inports, every
  input unit has \<open>m_num_vcs\<close> VCs, every ACTIVE VC has an outport of the router, and the move
  registry names inports of the router.
\<close>

definition spin_ok :: "Router \<Rightarrow> int \<Rightarrow> bool" where
  "spin_ok r inport =
     (0 < m_vc_per_vnet r \<and> 0 < getSpinDdThreshold (m_network_ptr r) \<and>
      0 \<le> inport \<and> inport < int (length (m_input_unit r)) \<and>
      cptr_input_port (m_counter r) < length (m_input_unit r) \<and>
      (\<forall>iu \<in> set (m_input_unit r).
         length (virtualChannels iu) = m_num_vcs r \<and>
         (\<forall>v \<in> set (virtualChannels iu).
            fst (m_vc_state v) = ACTIVE \<longrightarrow>
              0 \<le> m_output_port v \<and> m_output_port v < int (length (m_output_unit r)))) \<and>
      (\<forall>mi \<in> set (move_registry r). 0 \<le> mi_inport mi \<and> mi_inport mi < int (length (m_input_unit r))))"

text \<open>
  For a probe: a VC is part of a dependency when it is ACTIVE and its outport is not Local; the
  vnet is blocked at the inport when all its VCs are; the outports of the vnet's VCs; the probe
  copy for one outport, as \<open>fork_probes\<close> builds it (the path of the probe with the outport
  pushed at the back); and the ranges a probe's handling indexes, which include the fork vector's
  (sized at the construction of the input unit).
\<close>

definition vc_active_nonlocal :: "Router \<Rightarrow> VirtualChannel \<Rightarrow> bool" where
  "vc_active_nonlocal r v =
     (fst (m_vc_state v) = ACTIVE \<and> ou_direction (m_output_unit r ! nat (m_output_port v)) \<noteq> ''Local'')"

definition vnet_blocked :: "Router \<Rightarrow> int \<Rightarrow> int \<Rightarrow> bool" where
  "vnet_blocked r inport v =
     (\<forall>i \<in> set (vnet_vcs (m_vc_per_vnet r) v).
        vc_active_nonlocal r (virtualChannels (m_input_unit r ! nat inport) ! nat i))"

definition vnet_outports :: "Router \<Rightarrow> int \<Rightarrow> int \<Rightarrow> int set" where
  "vnet_outports r inport v =
     (\<lambda>i. m_output_port (virtualChannels (m_input_unit r ! nat inport) ! nat i)) `
       set (vnet_vcs (m_vc_per_vnet r) v)"

definition probe_ok :: "Router \<Rightarrow> int \<Rightarrow> int \<Rightarrow> bool" where
  "probe_ok r inport v =
     (0 < m_vc_per_vnet r \<and> 0 \<le> inport \<and> inport < int (length (m_input_unit r)) \<and>
      (\<forall>i \<in> set (vnet_vcs (m_vc_per_vnet r) v).
         0 \<le> i \<and> i < int (length (virtualChannels (m_input_unit r ! nat inport))) \<and>
         (fst (m_vc_state (virtualChannels (m_input_unit r ! nat inport) ! nat i)) = ACTIVE \<longrightarrow>
            0 \<le> m_output_port (virtualChannels (m_input_unit r ! nat inport) ! nat i) \<and>
            m_output_port (virtualChannels (m_input_unit r ! nat inport) ! nat i)
              < int (length (m_output_unit r)) \<and>
            m_output_port (virtualChannels (m_input_unit r ! nat inport) ! nat i)
              < int (length (m_fork_vector (m_input_unit r ! nat inport))))))"

definition fork_copy :: "flit \<Rightarrow> Router \<Rightarrow> flit \<Rightarrow> nat \<Rightarrow> flit" where
  "fork_copy init r t_flit op =
     subDelay (clockEdge r (m_latency r) - clockEdge r 0)
       (addDelay (m_delay t_flit)
         (new_control_flit init (m_source_id t_flit) (r_id r) (m_source_vc t_flit)
            (m_vnet t_flit) PROBE (clockEdge r 1 - 1) (m_path t_flit @ [int op])))"

section \<open>A small router\<close>

text \<open>
  A router with id 0, two virtual networks of two VCs each (vnet 1 ordered), two input ports and
  three output ports; links 1 and 2 both reach endpoint 2 at the same weight.  In the escape
  tree its parent is behind outport 0 and it has two children.  The configured routing
  algorithm is UGAL.
\<close>

definition ex_net :: GarnetNetwork where
  "ex_net = \<lparr>isSpinSchemeEnabled = True, isEscapeVcEnabled = False, getSpinDdThreshold = 16,
     getSpinMaxTurnCapacity = 2, getRoutingAlgorithm = UGAL, isVNetOrdered = (\<lambda>v. v = 1),
     getNumRows = 2, getNumCols = 2, tinOf = (\<lambda>d. 2 * d), toutOf = (\<lambda>d. 2 * d + 2)\<rparr>"

definition ex_ru :: RoutingUnit where
  "ex_ru = \<lparr>m_parentOutport = 0,
     m_children = [\<lparr>c_outport = 1, tin = 2, tout = 6\<rparr>, \<lparr>c_outport = 2, tin = 4, tout = 8\<rparr>],
     m_routing_table = [[{0}, {1, 2}, {2, 3}], [{0}, {1, 2}, {2, 3}]],
     m_weight_table = [1, 1, 1]\<rparr>"

definition rand_from :: "nat \<Rightarrow> libc_rand" where
  "rand_from k = \<lparr>rand_seq = (\<lambda>n. n + k), rand_calls = 0\<rparr>"

definition ex_input_unit :: "int \<Rightarrow> PortDirection \<Rightarrow> InputUnit" where
  "ex_input_unit i d = \<lparr>iu_id = i, m_direction = d,
     virtualChannels = [idle_vc, idle_vc, idle_vc, idle_vc],
     m_stall_count = [0, 0, 0, 0], m_vc_frozen = [False, False, False, False],
     m_fork_vector = [False, False, False],
     creditQueue = [], credit_link_events = [], m_num_probes_dropped = 0,
     m_num_move_dropped = 0, m_num_check_probe_dropped = 0\<rparr>"

definition ex_output_unit :: "PortDirection \<Rightarrow> OutputUnit" where
  "ex_output_unit d = \<lparr>ou_direction = d,
     outVcState = replicate 4 \<lparr>ovc_state = IDLE, m_credit_count = 4\<rparr>\<rparr>"

definition ex_router :: Router where
  "ex_router = \<lparr>r_id = 0, m_latency = 1, m_virtual_networks = 2, m_vc_per_vnet = 2, m_num_vcs = 4,
     m_bit_width = 128, m_network_ptr = ex_net, routingUnit = ex_ru,
     switchAllocator = \<lparr>m_round_robin_inport = [0, 0, 0], m_round_robin_invc = [0, 0],
       m_port_requests = [-1, -1], m_vc_winners = [-1, -1], m_is_escape_req = [False, False],
       m_input_arbiter_activity = 0, m_output_arbiter_activity = 0\<rparr>,
     sw_winners = [],
     m_input_unit = [ex_input_unit 0 ''Local'', ex_input_unit 1 ''West''],
     m_output_unit = [ex_output_unit ''Local'', ex_output_unit ''East'', ex_output_unit ''North''],
     m_ugal_min_choices = 0, m_ugal_nonmin_choices = 0,
     m_counter = \<lparr>cptr_input_port = 0, cptr_vc = 0, cptr_vnet = 0, c_count = 0, c_thresh = 0,
       c_state = s_off\<rparr>,
     m_path_buffer = \<lparr>pb_path = [], pb_valid = False\<rparr>,
     m_source_id_buffer = \<lparr>sib_source_id = -1, sib_move_id = -1, sib_valid = False\<rparr>,
     m_move = False, loop_delay = 0, probeQueue = [], moveQueue = [], kill_moveQueue = [],
     check_probeQueue = [], kill_move_processed_this_cycle = False, start_move = False,
     move_registry = [], curTick = 1000, clockPeriod = 500, wakeups = []\<rparr>"

definition ex_route :: "int \<Rightarrow> int \<Rightarrow> RouteInfo" where
  "ex_route v d = \<lparr>vnet = v, net_dest = {2}, src_ni = 0, src_router = 0, dest_ni = 2,
     dest_router = d, hops_traversed = 0\<rparr>"

definition ex_flit :: "flit_type \<Rightarrow> int \<Rightarrow> int \<Rightarrow> flit" where
  "ex_flit ty v vc = \<lparr>m_id = 0, m_vnet = v, m_vc = vc, m_route = ex_route v 3, m_time = 1000,
     m_type = ty, m_outport = -1, m_stage = (SA, 1000), m_width = 128, m_must_send = False,
     m_source_id = -1, m_source_inp_port = -1, m_source_vc = -1, m_inport = -1, m_path = [],
     m_delay = 0\<rparr>"

definition active_vc :: "flit list \<Rightarrow> int \<Rightarrow> int \<Rightarrow> Tick \<Rightarrow> VirtualChannel" where
  "active_vc fs outport outvc enq = \<lparr>m_vc_state = (ACTIVE, enq), inputBuffer = fs,
     m_output_port = outport, m_output_vc = outvc, vc_enqueue_time = enq\<rparr>"

definition ex_sa_router :: Router where
  "ex_sa_router = ex_router\<lparr>m_input_unit :=
     [ex_input_unit 0 ''Local'',
      (ex_input_unit 1 ''West'')\<lparr>virtualChannels :=
        [idle_vc, idle_vc,
         active_vc [ex_flit HEAD 1 2] 1 (-1) 900,
         active_vc [ex_flit TAIL 1 3] 1 2 800]\<rparr>]\<rparr>"


text \<open>The router in the middle of a recovery started by router 7, with one registered move, and
  a KILL_MOVE flit of a given source router with two hops of path left.\<close>

definition ex_spin_router :: Router where
  "ex_spin_router = ex_sa_router
     \<lparr>m_counter := \<lparr>cptr_input_port = 1, cptr_vc = 2, cptr_vnet = 1, c_count = 0, c_thresh = 3,
         c_state = s_frozen\<rparr>,
      m_source_id_buffer := \<lparr>sib_source_id = 7, sib_move_id = 3, sib_valid = True\<rparr>,
      m_move := True,
      move_registry := [\<lparr>mi_inport = 1, mi_vc = 2, mi_outport = 1, vc_at_downstream_router = -1,
         tail_moved = False, cur_move_count = 0\<rparr>]\<rparr>"

definition ex_kill_move :: "int \<Rightarrow> flit" where
  "ex_kill_move src = (ex_flit KILL_MOVE 1 0)\<lparr>m_source_id := src, m_path := [1, 2], m_must_send := True\<rparr>"

text \<open>A probe of router 7 for vnet 1 with a given path.\<close>

definition ex_probe :: "int list \<Rightarrow> flit" where
  "ex_probe path = (ex_flit PROBE 1 0)\<lparr>m_source_id := 7, m_source_vc := 2, m_path := path\<rparr>"

text \<open>
  The router with given VCs 2 and 3 (the VCs of vnet 1) at inport 1; a VC that holds a whole
  packet bound for outport 1; and a MOVE of router 7 for vnet 1 whose path starts with
  outport 1.
\<close>

definition ex_packet_vc :: VirtualChannel where
  "ex_packet_vc = active_vc [ex_flit HEAD 1 3, ex_flit TAIL 1 3] 1 (-1) 800"

definition ex_vcs_router :: "VirtualChannel \<Rightarrow> VirtualChannel \<Rightarrow> Router" where
  "ex_vcs_router v2 v3 = ex_router\<lparr>m_input_unit :=
     [ex_input_unit 0 ''Local'',
      (ex_input_unit 1 ''West'')\<lparr>virtualChannels := [idle_vc, idle_vc, v2, v3]\<rparr>]\<rparr>"

definition ex_move :: flit where
  "ex_move = (ex_flit MOVE 1 0)\<lparr>m_id := 9, m_source_id := 7, m_source_vc := 2, m_path := [1, 2]\<rparr>"


definition ex_fresh_router :: Router where
  "ex_fresh_router = ex_router\<lparr>m_input_unit := [], m_output_unit := [],
     routingUnit := ex_ru\<lparr>m_routing_table := [], m_weight_table := []\<rparr>,
     switchAllocator := \<lparr>m_round_robin_inport = [], m_round_robin_invc = [],
       m_port_requests = [], m_vc_winners = [], m_is_escape_req = [],
       m_input_arbiter_activity = 0, m_output_arbiter_activity = 0\<rparr>\<rparr>"

definition ex_built_router :: "error + Router" where
  "ex_built_router =
     bindE (addInPort ''Local'' ex_fresh_router) (\<lambda>r1.
     bindE (addInPort ''West'' (addOutPort ''Local'' [{0}, {0}] 1 4 4 r1)) (\<lambda>r2.
       Inr (init_switch_allocator
             (addOutPort ''North'' [{2, 3}, {2, 3}] 1 4 4
               (addOutPort ''East'' [{1, 2}, {1, 2}] 1 4 4 r2)))))"

definition ex_ports_router :: Router where
  "ex_ports_router = ex_router\<lparr>m_input_unit :=
     [(ex_input_unit 0 ''Local'')\<lparr>m_fork_vector := []\<rparr>,
      (ex_input_unit 1 ''West'')\<lparr>m_fork_vector := [False]\<rparr>]\<rparr>"

definition ex_arrived_vc :: "flit_type \<Rightarrow> int \<Rightarrow> Tick \<Rightarrow> VirtualChannel" where
  "ex_arrived_vc ty vc t = active_vc [advance_stage SA t (increment_hops (ex_flit ty 1 vc))] 1 (-1) t"

definition ex_heads_router :: "VirtualChannel \<Rightarrow> Tick \<Rightarrow> Router" where
  "ex_heads_router v3 t = ex_ports_router
     \<lparr>m_input_unit :=
        [(ex_input_unit 0 ''Local'')\<lparr>m_fork_vector := []\<rparr>,
         (ex_input_unit 1 ''West'')\<lparr>m_fork_vector := [False],
            virtualChannels := [idle_vc, idle_vc, ex_arrived_vc HEAD 2 1000, v3]\<rparr>],
      m_counter := \<lparr>cptr_input_port = 1, cptr_vc = 2, cptr_vnet = 1, c_count = 0, c_thresh = 18,
         c_state = s_deadlock_detection\<rparr>,
      wakeups := [16], curTick := t\<rparr>"

section \<open>Thawing and stall reset\<close>

lemma reset_stall_twice: "reset_stall vc (reset_stall vc iu) = reset_stall vc iu"
  by (simp add: reset_stall_def)

lemma thaw_vc_twice: "thaw_vc vc (thaw_vc vc iu) = thaw_vc vc iu"
  by (simp add: thaw_vc_def reset_stall_def)

text \<open>
  C9, as stated: thawing a VC that is not frozen changes nothing, the stall count included.
  This fails: \<open>thaw_vc\<close> always ends in \<open>reset_stall\<close>, so the stall count of a VC that has
  stalled without reaching the freeze threshold is reset to zero.
\<close>

theorem thaw_unfrozen_not_noop:
  "\<not> is_vc_frozen stalled_unit 0 \<and> thaw_vc 0 stalled_unit \<noteq> stalled_unit \<and>
   m_stall_count stalled_unit = [3, 0] \<and> m_stall_count (thaw_vc 0 stalled_unit) = [0, 0]"
  by (simp add: is_vc_frozen_def thaw_vc_def reset_stall_def stalled_unit_def)

text \<open>
  C9, amended: thawing a VC that is not frozen leaves every part of the input unit unchanged
  except that VC's stall count, which becomes zero (so it is a no-op exactly when the count was
  already zero or the index is out of range); thawing twice is the same as thawing once; and
  \<open>reset_stall\<close> twice is the same as \<open>reset_stall\<close> once.
\<close>

theorem thaw_unfrozen_resets_stall_only:
  "(\<not> is_vc_frozen iu vc \<and> 0 \<le> vc \<and> vc < int (length (m_vc_frozen iu)) \<longrightarrow>
      thaw_vc vc iu = reset_stall vc iu) \<and>
   (\<not> is_vc_frozen iu vc \<and> 0 \<le> vc \<and> vc < int (length (m_stall_count iu)) \<and>
      vc < int (length (m_vc_frozen iu)) \<longrightarrow>
      thaw_vc vc iu = iu\<lparr>m_stall_count := (m_stall_count iu)[nat vc := 0]\<rparr>) \<and>
   (vc < 0 \<or> int (length (m_vc_frozen iu)) \<le> vc \<longrightarrow> thaw_vc vc iu = iu) \<and>
   thaw_vc vc (thaw_vc vc iu) = thaw_vc vc iu \<and>
   reset_stall vc (reset_stall vc iu) = reset_stall vc iu"
proof -
  have unfrozen: "(m_vc_frozen iu)[nat vc := False] = m_vc_frozen iu"
    if "\<not> is_vc_frozen iu vc" "0 \<le> vc" "vc < int (length (m_vc_frozen iu))"
    using that by (simp add: is_vc_frozen_def list_update_same_conv)
  have a: "thaw_vc vc iu = reset_stall vc iu"
    if "\<not> is_vc_frozen iu vc" "0 \<le> vc" "vc < int (length (m_vc_frozen iu))"
    using that unfrozen by (simp add: thaw_vc_def)
  have b: "thaw_vc vc iu = iu" if "vc < 0 \<or> int (length (m_vc_frozen iu)) \<le> vc"
    using that by (auto simp add: thaw_vc_def)
  from a b show ?thesis
    by (simp add: reset_stall_twice thaw_vc_twice) (simp add: reset_stall_def)
qed

theorem thaw_unfrozen_resets_stall_only_witness:
  "\<not> is_vc_frozen stalled_unit 1 \<and> thaw_vc 1 stalled_unit = stalled_unit \<and>
   thaw_vc 0 stalled_unit = stalled_unit\<lparr>m_stall_count := [0, 0]\<rparr>"
  using thaw_unfrozen_resets_stall_only [of stalled_unit 1]
    thaw_unfrozen_resets_stall_only [of stalled_unit 0]
  by (simp add: is_vc_frozen_def stalled_unit_def reset_stall_def)

section \<open>Table lookup\<close>

lemma Min_insert_min:
  fixes a b :: int
  assumes "finite S"
  shows "Min (insert (min a b) S) = Min (insert b (insert a S))"
proof (cases "S = {}")
  case True
  then show ?thesis by (simp add: min.commute)
next
  case False
  with assms show ?thesis
    by (simp add: min.assoc min.commute min.left_commute)
qed

lemma min_weight_loop_Inr:
  "min_weight_loop wt entry dest links mw = Inr m \<Longrightarrow>
     (\<forall>l \<in> set links. intersectionIsNotEmpty dest (entry ! l) \<longrightarrow> l < length wt) \<and>
     m = Min (insert mw ((\<lambda>l. wt ! l) ` {l \<in> set links. intersectionIsNotEmpty dest (entry ! l)}))"
proof (induction links arbitrary: mw)
  case Nil
  then show ?case by simp
next
  case (Cons link links)
  show ?case
  proof (cases "intersectionIsNotEmpty dest (entry ! link)")
    case False
    with Cons.prems have "min_weight_loop wt entry dest links mw = Inr m" by simp
    from Cons.IH[OF this] False show ?thesis
      by (auto intro!: arg_cong[where f=Min])
  next
    case True
    with Cons.prems obtain w where w: "at_index wt (int link) = Inr w"
      and rec: "min_weight_loop wt entry dest links (if w \<le> mw then w else mw) = Inr m"
      by (auto split: sum.splits)
    from w have lt: "link < length wt" and wv: "w = wt ! link"
      by (auto simp add: at_index_def split: if_splits)
    let ?S = "(\<lambda>l. wt ! l) ` {l \<in> set links. intersectionIsNotEmpty dest (entry ! l)}"
    have fin: "finite ?S" by simp
    have eq: "{l \<in> set (link # links). intersectionIsNotEmpty dest (entry ! l)} =
      insert link {l \<in> set links. intersectionIsNotEmpty dest (entry ! l)}"
      using True by auto
    have ite: "(if w \<le> mw then w else mw) = min w mw" by (simp add: min_def)
    have "m = Min (insert (min w mw) ?S)"
      using Cons.IH[OF rec] unfolding ite by simp
    also have "\<dots> = Min (insert mw (insert w ?S))"
      using fin by (rule Min_insert_min)
    finally have "m = Min (insert mw (insert (wt ! link) ?S))" using wv by simp
    moreover have "\<forall>l \<in> set (link # links). intersectionIsNotEmpty dest (entry ! l) \<longrightarrow> l < length wt"
      using Cons.IH[OF rec] lt by simp
    ultimately show ?thesis unfolding eq by simp
  qed
qed

lemma candidates_loop_Inr:
  "candidates_loop wt entry dest m links = Inr cs \<Longrightarrow>
     cs = map int (filter (\<lambda>l. intersectionIsNotEmpty dest (entry ! l) \<and> wt ! l = m) links)"
proof (induction links arbitrary: cs)
  case Nil
  then show ?case by simp
next
  case (Cons link links)
  then show ?case
    by (auto simp add: at_index_def split: if_splits sum.splits)
qed

lemma lookup_unfold:
  assumes "at_index (m_routing_table ru) v = Inr entry"
    and "min_weight_loop (m_weight_table ru) entry dest [0..<length entry] INFINITE = Inr m"
    and "candidates_loop (m_weight_table ru) entry dest m [0..<length entry] = Inr cs"
  shows "lookupRoutingTable net ru v dest g =
     (if cs = [] then Inl FatalNoRoute
      else if \<not> isVNetOrdered net v
        then Inr (cs ! (rand_seq g (rand_calls g) mod length cs), g\<lparr>rand_calls := rand_calls g + 1\<rparr>)
        else Inr (hd cs, g))"
  using assms by (cases cs) (simp_all add: lookupRoutingTable_def bindE_def rand_def)

lemma lookup_Inr_cases:
  assumes "lookupRoutingTable net ru v dest g = Inr (out, g')"
  obtains entry m cs where "at_index (m_routing_table ru) v = Inr entry"
    and "min_weight_loop (m_weight_table ru) entry dest [0..<length entry] INFINITE = Inr m"
    and "candidates_loop (m_weight_table ru) entry dest m [0..<length entry] = Inr cs"
  using assms by (auto simp add: lookupRoutingTable_def bindE_def split: sum.splits)

lemma code_candidates_are_min_weight:
  assumes ml: "min_weight_loop wt entry dest [0..<length entry] INFINITE = Inr m"
    and cl: "candidates_loop wt entry dest m [0..<length entry] = Inr cs"
    and ne: "cs \<noteq> []"
  shows "cs = min_weight_candidates wt entry dest"
proof -
  let ?R = "reachable_links entry dest"
  let ?W = "(\<lambda>l. wt ! l) ` set ?R"
  have setR: "set ?R = {l \<in> set [0..<length entry]. intersectionIsNotEmpty dest (entry ! l)}"
    by (auto simp add: reachable_links_def)
  have m: "m = Min (insert INFINITE ?W)"
    using min_weight_loop_Inr[OF ml] unfolding setR by simp
  have cs: "cs = map int (filter (\<lambda>l. wt ! l = m) ?R)"
    using candidates_loop_Inr[OF cl] by (simp add: reachable_links_def conj_commute)
  from ne cs obtain l where "l \<in> set ?R" "wt ! l = m"
    by (auto simp add: filter_empty_conv)
  then have mW: "m \<in> ?W" by auto
  then have "Min ?W \<le> m" by simp
  moreover have "m \<le> Min ?W"
    using mW unfolding m by (intro Min_antimono) auto
  ultimately have "m = Min ?W" by simp
  with cs show ?thesis
    by (simp add: min_weight_candidates_def Let_def)
qed

lemma upt3: "[0..<3] = [0, 1, 2]"
  by (simp add: upt_rec)

lemma ex_lookup_ordered: "lookupRoutingTable ex_net ex_ru 1 {2} g = Inr (1, g)"
  by (simp add: lookupRoutingTable_def bindE_def at_index_def ex_ru_def ex_net_def
      INFINITE_def intersectionIsNotEmpty_def upt3)

text \<open>
  C8, as stated: for an unordered vnet the pick among the minimum-weight candidates comes from
  an injected seeded generator and never from a global one.  The code calls \<open>rand()\<close>: with the
  same routing table, weights, vnet and destination set, the outport follows the state of the
  process-wide generator (two states of it give links 1 and 2 here), and the generator is
  advanced for every other caller in the process.
\<close>

theorem lookupRoutingTable_follows_process_rand:
  "\<not> isVNetOrdered ex_net 0 \<and>
   lookupRoutingTable ex_net ex_ru 0 {2} (rand_from 0) = Inr (1, (rand_from 0)\<lparr>rand_calls := 1\<rparr>) \<and>
   lookupRoutingTable ex_net ex_ru 0 {2} (rand_from 1) = Inr (2, (rand_from 1)\<lparr>rand_calls := 1\<rparr>)"
  by (simp add: lookupRoutingTable_def bindE_def at_index_def ex_ru_def ex_net_def rand_from_def
      rand_def INFINITE_def intersectionIsNotEmpty_def upt3)

text \<open>
  C8, amended: \<open>lookupRoutingTable\<close> fails the same way whatever the state of the random
  generator.  When it returns an outport, the minimum-weight candidates (the links of the
  vnet's row that reach the destination set and have the least weight among those) are not
  empty; for an ordered vnet the outport is the first of them, the generator is not touched,
  and every other invocation with the same tables, vnet and destination set returns the same
  outport; for an unordered vnet the outport is the candidate at index
  \<open>rand() mod\<close> the number of candidates, where \<open>rand()\<close> is the next number of the process-wide
  generator of the C library, which is advanced by one.
\<close>

theorem lookupRoutingTable_first_or_libc_rand:
  "(\<forall>e. lookupRoutingTable net ru v dest g = Inl e \<longrightarrow> lookupRoutingTable net ru v dest h = Inl e) \<and>
   (\<forall>out g'. lookupRoutingTable net ru v dest g = Inr (out, g') \<longrightarrow>
      (\<exists>entry. at_index (m_routing_table ru) v = Inr entry \<and>
         min_weight_candidates (m_weight_table ru) entry dest \<noteq> [] \<and>
         (if isVNetOrdered net v
          then out = hd (min_weight_candidates (m_weight_table ru) entry dest) \<and> g' = g \<and>
               lookupRoutingTable net ru v dest h = Inr (out, h)
          else out = min_weight_candidates (m_weight_table ru) entry dest !
                       (fst (rand g) mod length (min_weight_candidates (m_weight_table ru) entry dest)) \<and>
               g' = snd (rand g))))"
proof (intro conjI allI impI)
  fix e
  assume "lookupRoutingTable net ru v dest g = Inl e"
  then show "lookupRoutingTable net ru v dest h = Inl e"
    by (auto simp add: lookupRoutingTable_def bindE_def rand_def split: sum.splits if_splits)
next
  fix out g'
  assume res: "lookupRoutingTable net ru v dest g = Inr (out, g')"
  then obtain entry m cs where e: "at_index (m_routing_table ru) v = Inr entry"
    and ml: "min_weight_loop (m_weight_table ru) entry dest [0..<length entry] INFINITE = Inr m"
    and cl: "candidates_loop (m_weight_table ru) entry dest m [0..<length entry] = Inr cs"
    by (rule lookup_Inr_cases)
  from res have ne: "cs \<noteq> []"
    unfolding lookup_unfold[OF e ml cl] by (auto split: if_splits)
  have cs: "cs = min_weight_candidates (m_weight_table ru) entry dest"
    using ml cl ne by (rule code_candidates_are_min_weight)
  from res ne have
    "if isVNetOrdered net v
     then out = hd cs \<and> g' = g \<and> lookupRoutingTable net ru v dest h = Inr (out, h)
     else out = cs ! (fst (rand g) mod length cs) \<and> g' = snd (rand g)"
    unfolding lookup_unfold[OF e ml cl] by (auto simp add: rand_def split: if_splits)
  with e ne cs
  show "\<exists>entry. at_index (m_routing_table ru) v = Inr entry \<and>
         min_weight_candidates (m_weight_table ru) entry dest \<noteq> [] \<and>
         (if isVNetOrdered net v
          then out = hd (min_weight_candidates (m_weight_table ru) entry dest) \<and> g' = g \<and>
               lookupRoutingTable net ru v dest h = Inr (out, h)
          else out = min_weight_candidates (m_weight_table ru) entry dest !
                       (fst (rand g) mod length (min_weight_candidates (m_weight_table ru) entry dest)) \<and>
               g' = snd (rand g))"
    by auto
qed

theorem lookupRoutingTable_first_or_libc_rand_witness:
  "lookupRoutingTable ex_net ex_ru 1 {2} (rand_from 0) = Inr (1, rand_from 0) \<and>
   hd (min_weight_candidates (m_weight_table ex_ru) [{0}, {1, 2}, {2, 3}] {2}) = 1 \<and>
   lookupRoutingTable ex_net ex_ru 1 {2} (rand_from 7) = Inr (1, rand_from 7)"
  using lookupRoutingTable_first_or_libc_rand [of ex_net ex_ru 1 "{2}" "rand_from 0" "rand_from 7"]
    ex_lookup_ordered [of "rand_from 0"]
  by (auto simp add: at_index_def ex_ru_def ex_net_def)

section \<open>Escape routing\<close>

lemma child_scan_filter:
  "child_scan t cs =
     (case filter (\<lambda>c. tin c \<le> t \<and> t < tout c) cs of [] \<Rightarrow> None | c # _ \<Rightarrow> Some (c_outport c))"
  by (induction cs) auto

text \<open>
  C4: for a route whose destination router is not the local router, \<open>outportEscapeVC\<close> returns
  the outport of a child with \<open>tin(child) \<le> tin(dest) < tout(child)\<close> if there is one (the first
  in the order of \<open>m_children\<close>); otherwise the parent outport when the router is not the root
  (its parent outport is not -1); otherwise, at the root, what the table lookup returns.
\<close>

theorem outportEscapeVC_down_up_table:
  assumes "dest_router route \<noteq> r_id r"
  shows "outportEscapeVC route inport inport_dirn r g =
     (case filter (\<lambda>c. tin c \<le> tinOf (m_network_ptr r) (dest_router route) \<and>
                        tinOf (m_network_ptr r) (dest_router route) < tout c)
             (m_children (routingUnit r)) of
        c # _ \<Rightarrow> Inr (c_outport c, g)
      | [] \<Rightarrow>
          if m_parentOutport (routingUnit r) \<noteq> -1 then Inr (m_parentOutport (routingUnit r), g)
          else lookupRoutingTable (m_network_ptr r) (routingUnit r) (vnet route) (net_dest route) g)"
  using assms by (simp add: outportEscapeVC_def child_scan_filter split: list.splits)

theorem outportEscapeVC_down_up_table_witness:
  "outportEscapeVC (ex_route 1 2) 1 ''West'' ex_router (rand_from 0) = Inr (1, rand_from 0) \<and>
   outportEscapeVC (ex_route 1 5) 1 ''West'' ex_router (rand_from 0) = Inr (0, rand_from 0) \<and>
   outportEscapeVC (ex_route 1 5) 1 ''West''
     (ex_router\<lparr>routingUnit := ex_ru\<lparr>m_parentOutport := -1\<rparr>\<rparr>) (rand_from 0) =
     lookupRoutingTable ex_net (ex_ru\<lparr>m_parentOutport := -1\<rparr>) 1 {2} (rand_from 0)"
  using outportEscapeVC_down_up_table [of "ex_route 1 2" ex_router 1 "''West''" "rand_from 0"]
    outportEscapeVC_down_up_table [of "ex_route 1 5" ex_router 1 "''West''" "rand_from 0"]
    outportEscapeVC_down_up_table [of "ex_route 1 5"
      "ex_router\<lparr>routingUnit := ex_ru\<lparr>m_parentOutport := -1\<rparr>\<rparr>" 1 "''West''" "rand_from 0"]
  by (simp add: ex_route_def ex_router_def ex_ru_def ex_net_def)

section \<open>The UGAL selector\<close>

text \<open>
  C1 asks for a UGAL-L decision with one of the two UGAL counters incremented.  The dispatcher
  has no case for UGAL: with that selector and a destination that is not the local router it does
  exactly what it does for TABLE, and the router, its counters included, is returned as it was.
\<close>

lemma outportCompute_UGAL_is_table:
  assumes "getRoutingAlgorithm (m_network_ptr r) = UGAL" and "dest_router route \<noteq> r_id r"
  shows "outportCompute algs route inport inport_dirn r g =
     bindE (lookupRoutingTable (m_network_ptr r) (routingUnit r) (vnet route) (net_dest route) g)
       (\<lambda>(outport, g'). if outport \<noteq> -1 then Inr (outport, r, g') else Inl AssertOutportValid)"
  using assms
  by (simp add: outportCompute_def table_route_def bindE_def split: sum.splits prod.splits)

theorem outportCompute_UGAL_counts_nothing:
  "getRoutingAlgorithm (m_network_ptr ex_router) = UGAL \<and>
   dest_router (ex_route 1 3) \<noteq> r_id ex_router \<and>
   outportCompute algs (ex_route 1 3) 1 ''West'' ex_router g = Inr (1, ex_router, g) \<and>
   m_ugal_min_choices ex_router = 0 \<and> m_ugal_nonmin_choices ex_router = 0 \<and>
   outportCompute algs (ex_route 1 3) 1 ''West''
     (ex_router\<lparr>m_network_ptr := ex_net\<lparr>getRoutingAlgorithm := TABLE\<rparr>\<rparr>) g =
     Inr (1, ex_router\<lparr>m_network_ptr := ex_net\<lparr>getRoutingAlgorithm := TABLE\<rparr>\<rparr>, g)"
proof -
  have a: "lookupRoutingTable (ex_net\<lparr>getRoutingAlgorithm := TABLE\<rparr>) ex_ru 1 {2} g = Inr (1, g)"
    by (simp add: lookupRoutingTable_def bindE_def at_index_def ex_ru_def ex_net_def
      INFINITE_def intersectionIsNotEmpty_def upt3)
  have r: "m_network_ptr ex_router = ex_net" "routingUnit ex_router = ex_ru" "r_id ex_router = 0"
    "m_ugal_min_choices ex_router = 0" "m_ugal_nonmin_choices ex_router = 0"
    by (simp_all add: ex_router_def)
  have n: "getRoutingAlgorithm ex_net = UGAL" by (simp add: ex_net_def)
  show ?thesis
    using a ex_lookup_ordered [of g]
    by (simp add: outportCompute_def table_route_def bindE_def r n ex_route_def)
qed

section \<open>Switch allocation, stage one: \<open>send_allowed\<close>\<close>

lemma sdiv_nonneg: "0 \<le> a \<Longrightarrow> 0 \<le> b \<Longrightarrow> a sdiv b = a div (b::int)"
  by (simp add: signed_divide_int_def sgn_if)

lemma first_idle_vc_spec:
  assumes "\<forall>vc \<in> set vcs. 0 \<le> vc \<and> vc < int (length (outVcState ou))"
  shows "\<exists>x. first_idle_vc ou t vcs = Inr x \<and>
           (x \<noteq> -1 \<longleftrightarrow> (\<exists>vc \<in> set vcs. ovc_state (outVcState ou ! nat vc) = IDLE))"
  using assms
  by (induction vcs) (auto simp add: is_vc_idle_def at_index_def bindE_def)

lemma ordering_loop_spec:
  assumes "\<forall>off \<in> set offs. 0 \<le> base + int off \<and> base + int off < int (length (virtualChannels iu))"
  shows "ordering_loop iu t outport te base offs =
     Inr (\<not> (\<exists>off \<in> set offs.
           vc_need_stage (virtualChannels iu ! nat (base + int off)) SA t \<and>
           m_output_port (virtualChannels iu ! nat (base + int off)) = outport \<and>
           vc_enqueue_time (virtualChannels iu ! nat (base + int off)) < te))"
  using assms
  by (induction offs)
     (auto simp add: need_stage_def get_outport_def get_enqueue_time_def get_vc_def at_index_def bindE_def)

lemma vnet_vcs_range:
  assumes "0 < n" "0 \<le> vc" "vc < int (k * n)" "x \<in> set (vnet_vcs n (vc div int n))"
  shows "0 \<le> x \<and> x < int (k * n)"
proof -
  from assms(4) obtain off where off: "off < n" and x: "x = (vc div int n) * int n + int off"
    by (auto simp add: vnet_vcs_def)
  have d0: "0 \<le> vc div int n" using assms by (simp add: pos_imp_zdiv_nonneg_iff)
  have "nat vc < k * n" using assms by linarith
  then have "nat vc div n < k" by (rule less_mult_imp_div_less)
  moreover have "vc div int n = int (nat vc div n)"
    using assms by (simp add: zdiv_int)
  ultimately have "vc div int n < int k" by simp
  then have "vc div int n + 1 \<le> int k" by simp
  then have "(vc div int n + 1) * int n \<le> int k * int n"
    by (intro mult_right_mono) auto
  with off x d0 show ?thesis by (simp add: algebra_simps)
qed


text \<open>
  C2: in standard (non-escape) mode \<open>send_allowed\<close> returns true if and only if (a) for
  \<open>outvc = -1\<close> some free downstream VC exists in the flit's vnet at the outport, (b) for
  \<open>outvc \<ge> 0\<close> the credit count of \<open>outvc\<close> is positive, and (c) for an ordered vnet no other
  flit of the vnet at this inport with a strictly earlier enqueue time requests the same
  outport.
\<close>

theorem send_allowed_standard_iff:
  assumes std: "\<not> is_escape_vc_enabled r"
    and ok: "sa_indices_ok r inport invc outport outvc"
  shows "send_allowed r inport invc outport outvc (is_escape_vc_enabled r) =
           Inr (send_allowed_spec r inport invc outport outvc)"
proof -
  let ?n = "m_vc_per_vnet r"
  let ?v = "invc div int ?n"
  let ?ou = "m_output_unit r ! nat outport"
  let ?iu = "m_input_unit r ! nat inport"
  from ok have n0: "0 < ?n" and invc: "0 \<le> invc" "invc < int (m_virtual_networks r * ?n)"
    and lin: "length (virtualChannels ?iu) = m_virtual_networks r * ?n"
    and lout: "length (outVcState ?ou) = m_virtual_networks r * ?n"
    and ip: "0 \<le> inport" "inport < int (length (m_input_unit r))"
    and op: "0 \<le> outport" "outport < int (length (m_output_unit r))"
    and ov: "-1 \<le> outvc" "outvc < int (m_virtual_networks r * ?n)"
    by (simp_all add: sa_indices_ok_def)
  have rng: "0 \<le> x \<and> x < int (m_virtual_networks r * ?n)" if "x \<in> set (vnet_vcs ?n ?v)" for x
    using n0 invc that by (rule vnet_vcs_range)
  have v0: "0 \<le> ?v" using n0 invc by (simp add: pos_imp_zdiv_nonneg_iff)
  have "nat invc < m_virtual_networks r * ?n" using invc by linarith
  then have "nat invc div ?n < m_virtual_networks r" by (rule less_mult_imp_div_less)
  moreover have "?v = int (nat invc div ?n)" using invc by (simp add: zdiv_int)
  ultimately have v1: "?v < int (m_virtual_networks r)" by simp
  have gv: "get_vnet r invc = Inr ?v"
    using n0 invc v0 v1 by (simp add: get_vnet_def sdiv_nonneg Let_def)
  have gou: "getOutputUnit r outport = Inr ?ou"
    using op by (simp add: getOutputUnit_def)
  have giu: "getInputUnit r inport = Inr ?iu"
    using ip by (simp add: getInputUnit_def)
  have ge: "get_enqueue_time ?iu invc = Inr (vc_enqueue_time (virtualChannels ?iu ! nat invc))"
    using invc lin by (simp add: get_enqueue_time_def get_vc_def at_index_def bindE_def)
  have free: "has_free_vc False ?n (curTick r) ?ou ?v = Inr (free_vc_exists r outport ?v)"
  proof -
    have "\<forall>vc \<in> set (vnet_vcs ?n ?v). 0 \<le> vc \<and> vc < int (length (outVcState ?ou))"
      using rng lout by simp
    from first_idle_vc_spec[OF this, of "curTick r"] show ?thesis
      by (auto simp add: has_free_vc_def non_escape_vcs_def free_vc_exists_def bindE_def)
  qed
  have ord: "ordering_loop ?iu (curTick r) outport (vc_enqueue_time (virtualChannels ?iu ! nat invc))
               (?v * int ?n) [0..<?n] = Inr (\<not> earlier_flit_requests r inport invc outport)"
  proof -
    have "0 \<le> ?v * int ?n + int off \<and> ?v * int ?n + int off < int (length (virtualChannels ?iu))"
      if "off < ?n" for off
      using rng[of "?v * int ?n + int off"] that lin by (simp add: vnet_vcs_def)
    then have "\<forall>off \<in> set [0..<?n]. 0 \<le> ?v * int ?n + int off \<and>
            ?v * int ?n + int off < int (length (virtualChannels ?iu))"
      by simp
    from ordering_loop_spec[OF this] show ?thesis
      by (auto simp add: earlier_flit_requests_def vnet_vcs_def)
  qed
  show ?thesis
  proof (cases "outvc = -1")
    case True
    then show ?thesis
      using std gv gou giu ge free ord
      by (simp add: send_allowed_def send_allowed_spec_def bindE_def)
  next
    case False
    with ov have o0: "0 \<le> outvc" by simp
    have hc: "has_credit ?ou outvc = Inr (0 < m_credit_count (outVcState ?ou ! nat outvc))"
      using o0 ov lout by (simp add: has_credit_def get_credit_count_def at_index_def bindE_def)
    from False o0 show ?thesis
      using std gv gou giu ge hc ord
      by (simp add: send_allowed_def send_allowed_spec_def bindE_def)
  qed
qed


lemma upt2: "[0..<2] = [0, 1]"
  by (simp add: upt_rec)

theorem send_allowed_standard_iff_witness:
  "\<not> is_escape_vc_enabled ex_sa_router \<and>
   send_allowed ex_sa_router 1 3 1 2 False = Inr True \<and>
   send_allowed ex_sa_router 1 2 1 (-1) False = Inr False \<and>
   send_allowed ex_sa_router 1 2 2 (-1) False = Inr True"
  using send_allowed_standard_iff [of ex_sa_router 1 3 1 2]
    send_allowed_standard_iff [of ex_sa_router 1 2 1 "-1"]
    send_allowed_standard_iff [of ex_sa_router 1 2 2 "-1"]
  by (simp add: is_escape_vc_enabled_def sa_indices_ok_def send_allowed_spec_def
      free_vc_exists_def earlier_flit_requests_def vnet_vcs_def upt2
      ex_sa_router_def ex_router_def ex_net_def ex_input_unit_def ex_output_unit_def
      active_vc_def idle_vc_def ex_flit_def vc_need_stage_def is_stage_def)

section \<open>Switch allocation, stage two\<close>

lemma find_append_cases:
  "find P (xs @ ys) = (case find P xs of Some x \<Rightarrow> Some x | None \<Rightarrow> find P ys)"
  by (induction xs) simp_all

lemma inport_scan_segment:
  assumes "\<forall>j. 0 \<le> j \<and> j < int n \<longrightarrow> requesting j = Inr (P j)"
    and "i + k1 \<le> n"
  shows "inport_scan requesting (int n) (k1 + k2) (int i) =
     (case find P (map int [i..<i + k1]) of
        Some j \<Rightarrow> Inr j
      | None \<Rightarrow> inport_scan requesting (int n) k2 (int (i + k1)))"
  using assms(2)
proof (induction k1 arbitrary: i)
  case 0
  then show ?case by simp
next
  case (Suc k1)
  then have i: "i < n" and le: "Suc i + k1 \<le> n" by simp_all
  have req: "requesting (int i) = Inr (P (int i))" using assms(1) i by simp
  have up: "map int [i..<Suc i + k1] = int i # map int [Suc i..<Suc i + k1]"
    using upt_conv_Cons[of i "Suc i + k1"] by simp
  have e: "i + Suc k1 = Suc i + k1" by simp
  show ?case
  proof (cases "P (int i)")
    case True
    have "inport_scan requesting (int n) (Suc k1 + k2) (int i) = Inr (int i)"
      using i req True by simp
    moreover have "find P (int i # map int [Suc i..<Suc i + k1]) = Some (int i)"
      using True by simp
    ultimately show ?thesis unfolding e up by simp
  next
    case False
    have f: "find P (int i # map int [Suc i..<Suc i + k1]) = find P (map int [Suc i..<Suc i + k1])"
      using False by simp
    have "inport_scan requesting (int n) (Suc k1 + k2) (int i) =
          inport_scan requesting (int n) (k1 + k2) (int (Suc i))"
      using i req False by (simp add: add.commute)
    also have "\<dots> = (case find P (map int [Suc i..<Suc i + k1]) of
        Some j \<Rightarrow> Inr j
      | None \<Rightarrow> inport_scan requesting (int n) k2 (int (Suc i + k1)))"
      using le by (rule Suc.IH)
    finally show ?thesis unfolding e up f .
  qed
qed

lemma inport_scan_wrap:
  "inport_scan requesting (int n) k (int n) = inport_scan requesting (int n) k 0"
  by (cases k) simp_all

lemma inport_scan_round_robin:
  assumes req: "\<forall>j. 0 \<le> j \<and> j < int n \<longrightarrow> requesting j = Inr (P j)"
    and start: "start < n"
  shows "inport_scan requesting (int n) n (int start) = Inr (first_requester P (round_robin_order n start))"
proof -
  have a: "inport_scan requesting (int n) ((n - start) + start) (int start) =
     (case find P (map int [start..<start + (n - start)]) of
        Some j \<Rightarrow> Inr j
      | None \<Rightarrow> inport_scan requesting (int n) start (int (start + (n - start))))"
    using req by (rule inport_scan_segment) (use start in simp)
  have b: "inport_scan requesting (int n) (start + 0) (int 0) =
     (case find P (map int [0..<0 + start]) of
        Some j \<Rightarrow> Inr j
      | None \<Rightarrow> inport_scan requesting (int n) 0 (int (0 + start)))"
    using req by (rule inport_scan_segment) (use start in simp)
  have n: "(n - start) + start = n" "start + (n - start) = n" using start by simp_all
  have order: "find P (round_robin_order n start) =
     (case find P (map int [start..<n]) of Some j \<Rightarrow> Some j | None \<Rightarrow> find P (map int [0..<start]))"
    by (simp add: round_robin_order_def find_append_cases)
  show ?thesis
  proof (cases "find P (map int [start..<n])")
    case (Some j)
    with a show ?thesis unfolding n by (simp add: first_requester_def order)
  next
    case None
    with a have "inport_scan requesting (int n) n (int start) = inport_scan requesting (int n) start (int n)"
      unfolding n by simp
    also have "\<dots> = inport_scan requesting (int n) start 0" by (rule inport_scan_wrap)
    also have "\<dots> = (case find P (map int [0..<start]) of Some j \<Rightarrow> Inr j | None \<Rightarrow> Inr (-1))"
      using b by (simp split: option.splits)
    finally show ?thesis using None
      by (simp add: first_requester_def order split: option.splits)
  qed
qed


lemma first_requester_in_order:
  assumes "first_requester P order \<noteq> -1"
  shows "first_requester P order \<in> set order \<and> P (first_requester P order)"
proof -
  from assms obtain i where f: "find P order = Some i"
    by (auto simp add: first_requester_def split: option.splits)
  then have "first_requester P order = i" by (simp add: first_requester_def)
  moreover from f obtain k where "k < length order" "P (order ! k)" "i = order ! k"
    unfolding find_Some_iff by blast
  ultimately show ?thesis by auto
qed

lemma round_robin_order_range:
  assumes "i \<in> set (round_robin_order n start)" "start < n"
  shows "0 \<le> i \<and> i < int n"
  using assms by (auto simp add: round_robin_order_def)

lemma sa2_winner_range:
  assumes ok: "sa2_ok r outport" and w: "sa2_winner r outport \<noteq> -1"
  shows "0 \<le> sa2_winner r outport \<and> sa2_winner r outport < int (length (m_input_unit r))"
proof -
  let ?sa = "switchAllocator r"
  let ?n = "length (m_input_unit r)"
  let ?start = "nat (m_round_robin_inport ?sa ! nat outport)"
  let ?order = "round_robin_order ?n ?start"
  from ok have st: "?start < ?n" unfolding sa2_ok_def by linarith
  let ?e = "first_requester (\<lambda>i. m_port_requests ?sa ! nat i = outport \<and> m_is_escape_req ?sa ! nat i) ?order"
  let ?a = "first_requester (\<lambda>i. m_port_requests ?sa ! nat i = outport) ?order"
  have "sa2_winner r outport = (if ?e \<noteq> -1 then ?e else ?a)"
    by (simp add: sa2_winner_def Let_def)
  moreover have "?e \<in> set ?order" if "?e \<noteq> -1"
    using first_requester_in_order[OF that] by simp
  moreover have "?a \<in> set ?order" if "?a \<noteq> -1"
    using first_requester_in_order[OF that] by simp
  ultimately have "sa2_winner r outport \<in> set ?order"
    using w by (simp split: if_splits)
  then show ?thesis using st by (rule round_robin_order_range)
qed

lemma choose_inport_winner:
  assumes ok: "sa2_ok r outport"
  shows "choose_inport r outport = Inr (sa2_winner r outport)"
proof -
  let ?sa = "switchAllocator r"
  let ?n = "length (m_input_unit r)"
  from ok have op: "0 \<le> outport" "outport < int (length (m_round_robin_inport ?sa))"
    and st0: "0 \<le> m_round_robin_inport ?sa ! nat outport"
      "m_round_robin_inport ?sa ! nat outport < int ?n"
    and lr: "length (m_port_requests ?sa) = ?n" and le: "length (m_is_escape_req ?sa) = ?n"
    by (simp_all add: sa2_ok_def)
  from st0(1) obtain k where k: "m_round_robin_inport ?sa ! nat outport = int k"
    using nonneg_int_cases by blast
  with st0(2) have kn: "k < ?n" by simp
  have rr: "at_index (m_round_robin_inport ?sa) outport = Inr (int k)"
    using op k by (simp add: at_index_def)
  have e: "\<forall>j. 0 \<le> j \<and> j < int ?n \<longrightarrow> is_escape_requester ?sa outport j =
             Inr (m_port_requests ?sa ! nat j = outport \<and> m_is_escape_req ?sa ! nat j)"
    using lr le by (simp add: is_escape_requester_def at_index_def bindE_def)
  have a: "\<forall>j. 0 \<le> j \<and> j < int ?n \<longrightarrow> is_requester ?sa outport j =
             Inr (m_port_requests ?sa ! nat j = outport)"
    using lr by (simp add: is_requester_def at_index_def bindE_def)
  note s1 = inport_scan_round_robin[OF e kn]
  note s2 = inport_scan_round_robin[OF a kn]
  have w: "sa2_winner r outport =
     (if first_requester (\<lambda>i. m_port_requests ?sa ! nat i = outport \<and> m_is_escape_req ?sa ! nat i)
           (round_robin_order ?n k) \<noteq> -1
      then first_requester (\<lambda>i. m_port_requests ?sa ! nat i = outport \<and> m_is_escape_req ?sa ! nat i)
           (round_robin_order ?n k)
      else first_requester (\<lambda>i. m_port_requests ?sa ! nat i = outport) (round_robin_order ?n k))"
    by (simp add: sa2_winner_def Let_def k)
  show ?thesis
    unfolding choose_inport_def rr w
    by (simp add: bindE_def s1 s2)
qed




section \<open>Switch allocation, stage two: the upstream credit\<close>



lemma on_vc_contents:
  assumes "on_input_unit inport (\<lambda>iu. bindE (get_vc iu vc) (\<lambda>v. Inr (put_vc vc (G v) iu))) r = Inr r'"
  shows "\<exists>i j. inport = int i \<and> vc = int j \<and> i < length (m_input_unit r) \<and>
           j < length (virtualChannels (m_input_unit r ! i)) \<and>
           r' = r\<lparr>m_input_unit := (m_input_unit r)[i :=
                   put_vc vc (G (virtualChannels (m_input_unit r ! i) ! j)) (m_input_unit r ! i)]\<rparr>"
proof -
  from assms have ip: "0 \<le> inport" "inport < int (length (m_input_unit r))"
    by (auto simp add: on_input_unit_def getInputUnit_def bindE_def split: if_splits)
  let ?iu = "m_input_unit r ! nat inport"
  from assms ip have vr: "0 \<le> vc" "vc < int (length (virtualChannels ?iu))"
    by (auto simp add: on_input_unit_def getInputUnit_def get_vc_def at_index_def bindE_def split: if_splits)
  from assms ip vr have "r' = r\<lparr>m_input_unit := (m_input_unit r)[nat inport :=
                   put_vc vc (G (virtualChannels ?iu ! nat vc)) ?iu]\<rparr>"
    by (auto simp add: on_input_unit_def getInputUnit_def get_vc_def at_index_def bindE_def)
  moreover have "nat inport < length (m_input_unit r)" using ip by linarith
  moreover have "nat vc < length (virtualChannels ?iu)" using vr by linarith
  ultimately show ?thesis using ip vr
    by - (rule exI[of _ "nat inport"], rule exI[of _ "nat vc"], simp)
qed

lemma vc_contents_put:
  assumes "i < length (m_input_unit r)"
  shows "vc_contents (r\<lparr>m_input_unit := (m_input_unit r)[i := put_vc (int j) v' (m_input_unit r ! i)]\<rparr>) =
         (vc_contents r)[i := (vc_contents r ! i)[j := (fst (m_vc_state v'), inputBuffer v')]]"
  using assms by (simp add: vc_contents_def put_vc_def map_update)

lemma vc_contents_nth:
  assumes "i < length (m_input_unit r)" "j < length (virtualChannels (m_input_unit r ! i))"
  shows "vc_contents r ! i ! j =
           (fst (m_vc_state (virtualChannels (m_input_unit r ! i) ! j)),
            inputBuffer (virtualChannels (m_input_unit r ! i) ! j))"
    and "i < length (vc_contents r)" and "j < length (vc_contents r ! i)"
  using assms by (simp_all add: vc_contents_def)




lemma on_vc_contents_upd:
  assumes "on_input_unit inport (\<lambda>iu. bindE (get_vc iu vc) (\<lambda>v. Inr (put_vc vc (G v) iu))) r = Inr r'"
    and "\<And>v. fst (m_vc_state (G v)) = S (fst (m_vc_state v))"
    and "\<And>v. inputBuffer (G v) = B (inputBuffer v)"
  shows "\<exists>i j. inport = int i \<and> vc = int j \<and> i < length (vc_contents r) \<and>
           j < length (vc_contents r ! i) \<and>
           vc_contents r' = (vc_contents r)[i := (vc_contents r ! i)
              [j := (S (fst (vc_contents r ! i ! j)), B (snd (vc_contents r ! i ! j)))]]"
proof -
  from on_vc_contents[OF assms(1)] obtain i j where
    ij: "inport = int i" "vc = int j" "i < length (m_input_unit r)"
      "j < length (virtualChannels (m_input_unit r ! i))"
    and r': "r' = r\<lparr>m_input_unit := (m_input_unit r)[i :=
                   put_vc vc (G (virtualChannels (m_input_unit r ! i) ! j)) (m_input_unit r ! i)]\<rparr>"
    by blast
  have "vc_contents r' = (vc_contents r)[i := (vc_contents r ! i)
              [j := (S (fst (vc_contents r ! i ! j)), B (snd (vc_contents r ! i ! j)))]]"
    unfolding r' ij(2) vc_contents_put[OF ij(3)] vc_contents_nth(1)[OF ij(3,4)]
    by (simp add: assms(2,3))
  with ij vc_contents_nth(2,3)[OF ij(3,4)] show ?thesis by blast
qed



lemma set_vc_idle_contents:
  assumes "on_input_unit inport (set_vc_idle vc t) r = Inr r'"
  shows "\<exists>i j. inport = int i \<and> vc = int j \<and> i < length (vc_contents r) \<and>
           j < length (vc_contents r ! i) \<and>
           vc_contents r' = (vc_contents r)[i := (vc_contents r ! i)
              [j := (IDLE, snd (vc_contents r ! i ! j))]]"
proof -
  have e: "set_vc_idle vc t = (\<lambda>iu. bindE (get_vc iu vc) (\<lambda>v. Inr (put_vc vc (vc_set_idle t v) iu)))"
    by (intro ext) (simp add: set_vc_idle_def)
  show ?thesis
    using on_vc_contents_upd[OF assms[unfolded e], of "\<lambda>_. IDLE" "\<lambda>b. b"]
    by (simp add: vc_set_idle_def)
qed



















































lemma arbitrate_outport_grants_allocated:
  assumes ok: "sa2_ok r outport" and w: "sa2_winner r outport \<noteq> -1"
    and o: "get_outvc (m_input_unit r ! nat (sa2_winner r outport))
              (m_vc_winners (switchAllocator r) ! nat (sa2_winner r outport)) = Inr outvc"
    and a: "outvc \<noteq> -1"
  shows "arbitrate_outport outport r =
     grant_flit outport (sa2_winner r outport)
       (m_vc_winners (switchAllocator r) ! nat (sa2_winner r outport)) outvc r"
proof -
  let ?w = "sa2_winner r outport"
  let ?sa = "switchAllocator r"
  have wr: "0 \<le> ?w" "?w < int (length (m_input_unit r))"
    using sa2_winner_range[OF ok w] by simp_all
  from ok have op: "0 \<le> outport" "outport < int (length (m_output_unit r))"
    and lens: "length (m_vc_winners ?sa) = length (m_input_unit r)"
    by (simp_all add: sa2_ok_def)
  have c: "choose_inport r outport = Inr ?w" using ok by (rule choose_inport_winner)
  have gou: "getOutputUnit r outport = Inr (m_output_unit r ! nat outport)"
    using op by (simp add: getOutputUnit_def)
  have giu: "getInputUnit r ?w = Inr (m_input_unit r ! nat ?w)"
    using wr by (simp add: getInputUnit_def)
  have vw: "at_index (m_vc_winners ?sa) ?w = Inr (m_vc_winners ?sa ! nat ?w)"
    using wr lens by (simp add: at_index_def)
  have wo: "winner_outvc outport ?w (m_vc_winners ?sa ! nat ?w) r = Inr (Some outvc, r)"
    using a by (simp add: winner_outvc_def giu o bindE_def)
  show ?thesis
    using w by (simp add: arbitrate_outport_def c gou giu vw wo bindE_def)
qed




section \<open>SPIN: KILL_MOVE\<close>

lemma eligible_vc_ok:
  assumes "spin_ok r inport" "ip < length (m_input_unit r)" "vc < m_num_vcs r"
  shows "\<exists>b. eligible_vc r ip vc = Inr b"
proof -
  let ?iu = "m_input_unit r ! ip"
  from assms have iu: "?iu \<in> set (m_input_unit r)" by simp
  with assms(1) have len: "length (virtualChannels ?iu) = m_num_vcs r"
    and act: "\<forall>v \<in> set (virtualChannels ?iu). fst (m_vc_state v) = ACTIVE \<longrightarrow>
            0 \<le> m_output_port v \<and> m_output_port v < int (length (m_output_unit r))"
    unfolding spin_ok_def by blast+
  let ?v = "virtualChannels ?iu ! vc"
  have v: "?v \<in> set (virtualChannels ?iu)" using len assms(3) by simp
  have g: "getInputUnit r (int ip) = Inr ?iu" using assms(2) by (simp add: getInputUnit_def)
  have o: "get_outport ?iu (int vc) = Inr (m_output_port ?v)"
    and st: "get_vc_state ?iu (int vc) = Inr (fst (m_vc_state ?v))"
    using len assms(3) by (simp_all add: get_outport_def get_vc_state_def get_vc_def at_index_def bindE_def)
  show ?thesis
  proof (cases "fst (m_vc_state ?v) = ACTIVE")
    case True
    with act v have "0 \<le> m_output_port ?v \<and> m_output_port ?v < int (length (m_output_unit r))" by blast
    then have "eligible_vc r ip vc = Inr (ou_direction (m_output_unit r ! nat (m_output_port ?v)) \<noteq> ''Local'')"
      using True by (simp add: eligible_vc_def g o st bindE_def getOutportDirection_def at_index_def)
    then show ?thesis by blast
  next
    case False
    then have "eligible_vc r ip vc = Inr False"
      by (simp add: eligible_vc_def g o st bindE_def)
    then show ?thesis by blast
  qed
qed

lemma vc_scan_ok:
  assumes "spin_ok r inport" "ip < length (m_input_unit r)" "\<forall>vc \<in> set vcs. vc < m_num_vcs r"
  shows "\<exists>x. vc_scan r ip vcs = Inr x"
  using assms(3)
proof (induction vcs)
  case Nil
  then show ?case by simp
next
  case (Cons vc vcs)
  then have "vc < m_num_vcs r" by simp
  with assms(1,2) obtain b where "eligible_vc r ip vc = Inr b" using eligible_vc_ok by blast
  with Cons show ?case by simp
qed

lemma inport_vc_scan_ok:
  assumes "spin_ok r inport" "\<forall>ip \<in> set ips. ip < length (m_input_unit r)"
  shows "\<exists>x. inport_vc_scan r ips = Inr x"
  using assms(2)
proof (induction ips)
  case Nil
  then show ?case by simp
next
  case (Cons ip ips)
  then have ip: "ip < length (m_input_unit r)" by simp
  then have d: "getInportDirection r (int ip) = Inr (m_direction (m_input_unit r ! ip))"
    by (simp add: getInportDirection_def at_index_def bindE_def)
  obtain x where x: "vc_scan r ip [0..<m_num_vcs r] = Inr x"
    using vc_scan_ok[OF assms(1) ip, of "[0..<m_num_vcs r]"] by auto
  from Cons obtain y where y: "inport_vc_scan r ips = Inr y" by auto
  show ?case by (cases x) (simp_all add: d x y)
qed

lemma set_counter_ok:
  assumes "0 < m_vc_per_vnet r"
    and "state = s_off \<or> (state = s_deadlock_detection \<and> 0 < getSpinDdThreshold (m_network_ptr r))
         \<or> (state = s_frozen \<and> 0 < thresh)"
  shows "\<exists>c w. set_counter ip vc state thresh r = Inr (r\<lparr>m_counter := c, wakeups := w\<rparr>) \<and>
           c_state c = state \<and> c_thresh c = counter_thresh r state thresh \<and>
           cptr_input_port c = ip \<and> cptr_vc c = vc"
proof -
  let ?c = "\<lparr>cptr_input_port = ip, cptr_vc = vc, cptr_vnet = vc div m_vc_per_vnet r, c_count = 0,
             c_thresh = counter_thresh r state thresh, c_state = state\<rparr>"
  show ?thesis
  proof (cases "state = s_off")
    case True
    then have "set_counter ip vc state thresh r = Inr (r\<lparr>m_counter := ?c, wakeups := wakeups r\<rparr>)"
      using assms(1) by (simp add: set_counter_def)
    then show ?thesis by (intro exI[of _ ?c] exI[of _ "wakeups r"]) simp
  next
    case False
    with assms(2) have pos: "counter_thresh r state thresh - curCycle r > 0"
      by (auto simp add: counter_thresh_def)
    have "set_counter ip vc state thresh r =
        Inr (r\<lparr>m_counter := ?c, wakeups := wakeups r @ [counter_thresh r state thresh - curCycle r]\<rparr>)"
      using assms(1) False pos by (simp add: set_counter_def schedule_wakeup_def)
    then show ?thesis
      by (intro exI[of _ ?c] exI[of _ "wakeups r @ [counter_thresh r state thresh - curCycle r]"]) simp
  qed
qed


lemma increment_counter_ptr_ok:
  assumes ok: "spin_ok r inport"
  shows "\<exists>c w. increment_counter_ptr r = Inr (r\<lparr>m_counter := c, wakeups := w\<rparr>)"
proof -
  let ?ci = "cptr_input_port (m_counter r)"
  let ?cv = "cptr_vc (m_counter r)"
  from ok have n: "0 < m_vc_per_vnet r" and dd: "0 < getSpinDdThreshold (m_network_ptr r)"
    and ci: "?ci < length (m_input_unit r)"
    by (simp_all add: spin_ok_def)
  have sc: "\<exists>c w. set_counter ip vc s_deadlock_detection 0 r = Inr (r\<lparr>m_counter := c, wakeups := w\<rparr>)"
    for ip vc
    using set_counter_ok[OF n, of s_deadlock_detection 0 ip vc] dd by blast
  have so: "\<exists>c w. set_counter ip vc s_off 0 r = Inr (r\<lparr>m_counter := c, wakeups := w\<rparr>)"
    for ip vc
    using set_counter_ok[OF n, of s_off 0 ip vc] by blast
  obtain x where x: "vc_scan r ?ci [?cv + 1..<m_num_vcs r] = Inr x"
    using vc_scan_ok[OF ok ci, of "[?cv + 1..<m_num_vcs r]"] by auto
  obtain y where y: "inport_vc_scan r [?ci + 1..<length (m_input_unit r)] = Inr y"
    using inport_vc_scan_ok[OF ok, of "[?ci + 1..<length (m_input_unit r)]"] by auto
  obtain z where z: "inport_vc_scan r [0..<?ci + 1] = Inr z"
    using inport_vc_scan_ok[OF ok, of "[0..<?ci + 1]"] ci by auto
  show ?thesis
  proof (cases x)
    case (Some i)
    show ?thesis
      unfolding increment_counter_ptr_def x bindE_def Some
      using sc[of ?ci i] by simp
  next
    case None
    note xn = this
    show ?thesis
    proof (cases y)
      case (Some p)
      show ?thesis
        unfolding increment_counter_ptr_def x y bindE_def xn Some
        using sc[of "fst p" "snd p"] by (cases p) simp
    next
      case None
      note yn = this
      show ?thesis
      proof (cases z)
        case (Some p)
        show ?thesis
          unfolding increment_counter_ptr_def x y z bindE_def xn yn Some
          using sc[of "fst p" "snd p"] by (cases p) simp
      next
        case None
        show ?thesis
          unfolding increment_counter_ptr_def x y z bindE_def xn yn None
          using so[of ?ci ?cv] by simp
      qed
    qed
  qed
qed

lemma on_input_unit_ok:
  assumes "0 \<le> inport" "inport < int (length (m_input_unit r))"
  shows "on_input_unit inport (\<lambda>iu. Inr (g iu)) r =
           Inr (r\<lparr>m_input_unit := (m_input_unit r)[nat inport := g (m_input_unit r ! nat inport)]\<rparr>)"
  using assms by (simp add: on_input_unit_def getInputUnit_def bindE_def)

lemma thaw_registered_ok:
  assumes "\<forall>mi \<in> set mis. 0 \<le> mi_inport mi \<and> mi_inport mi < int (length (m_input_unit r))"
  shows "\<exists>ius. thaw_registered mis r = Inr (r\<lparr>m_input_unit := ius\<rparr>) \<and>
           length ius = length (m_input_unit r)"
  using assms
proof (induction mis arbitrary: r)
  case Nil
  have "r = r\<lparr>m_input_unit := m_input_unit r\<rparr>" by simp
  then show ?case by (metis thaw_registered.simps(1))
next
  case (Cons mi mis)
  let ?r1 = "r\<lparr>m_input_unit := (m_input_unit r)[nat (mi_inport mi) :=
                 thaw_vc (mi_vc mi) (m_input_unit r ! nat (mi_inport mi))]\<rparr>"
  have s1: "on_input_unit (mi_inport mi) (\<lambda>iu. Inr (thaw_vc (mi_vc mi) iu)) r = Inr ?r1"
    using Cons.prems by (intro on_input_unit_ok) simp_all
  have "\<forall>mi \<in> set mis. 0 \<le> mi_inport mi \<and> mi_inport mi < int (length (m_input_unit ?r1))"
    using Cons.prems by simp
  from Cons.IH[OF this] obtain ius where
    "thaw_registered mis ?r1 = Inr (?r1\<lparr>m_input_unit := ius\<rparr>)" "length ius = length (m_input_unit ?r1)"
    by blast
  then have "thaw_registered (mi # mis) r = Inr (r\<lparr>m_input_unit := ius\<rparr>) \<and>
             length ius = length (m_input_unit r)"
    by (simp add: s1)
  then show ?case by blast
qed

lemma clear_move_registry_ok:
  assumes "\<forall>mi \<in> set (move_registry r). 0 \<le> mi_inport mi \<and> mi_inport mi < int (length (m_input_unit r))"
  shows "\<exists>ius. clear_move_registry r = Inr (r\<lparr>m_input_unit := ius, move_registry := []\<rparr>) \<and>
           length ius = length (m_input_unit r)"
proof -
  from thaw_registered_ok[OF assms] obtain ius where
    "thaw_registered (move_registry r) r = Inr (r\<lparr>m_input_unit := ius\<rparr>)"
    "length ius = length (m_input_unit r)" by blast
  then have "clear_move_registry r = Inr (r\<lparr>m_input_unit := ius, move_registry := []\<rparr>) \<and>
           length ius = length (m_input_unit r)"
    by (simp add: clear_move_registry_def bindE_def)
  then show ?thesis by blast
qed

lemma invalidate_move_registry_loop_ok:
  assumes "0 \<le> inport" "inport < int (length (m_input_unit r))"
  shows "\<exists>ius reg. invalidate_move_registry_loop inport outport seen rest r =
                      Inr (r\<lparr>m_input_unit := ius, move_registry := reg\<rparr>) \<and>
           length ius = length (m_input_unit r)"
proof (induction rest arbitrary: seen)
  case Nil
  have "r = r\<lparr>m_input_unit := m_input_unit r, move_registry := move_registry r\<rparr>" by simp
  then have "invalidate_move_registry_loop inport outport seen [] r =
       Inr (r\<lparr>m_input_unit := m_input_unit r, move_registry := move_registry r\<rparr>) \<and>
       length (m_input_unit r) = length (m_input_unit r)" by simp
  then show ?case by blast
next
  case (Cons mi rest)
  show ?case
  proof (cases "mi_outport mi = outport")
    case True
    let ?r0 = "r\<lparr>move_registry := seen @ rest\<rparr>"
    have "on_input_unit inport (\<lambda>iu. Inr (thaw_vc (mi_vc mi) iu)) ?r0 =
       Inr (?r0\<lparr>m_input_unit := (m_input_unit ?r0)[nat inport := thaw_vc (mi_vc mi) (m_input_unit ?r0 ! nat inport)]\<rparr>)"
      using assms by (intro on_input_unit_ok) simp_all
    then have "invalidate_move_registry_loop inport outport seen (mi # rest) r =
       Inr (r\<lparr>m_input_unit := (m_input_unit r)[nat inport := thaw_vc (mi_vc mi) (m_input_unit r ! nat inport)],
             move_registry := seen @ rest\<rparr>) \<and>
       length ((m_input_unit r)[nat inport := thaw_vc (mi_vc mi) (m_input_unit r ! nat inport)]) =
         length (m_input_unit r)"
      using True by simp
    then show ?thesis by blast
  next
    case False
    then show ?thesis using Cons.IH[of "seen @ [mi]"] by simp
  qed
qed


lemma forward_kill_move_ok:
  assumes "m_path kf \<noteq> []"
  shows "\<exists>r'. forward_kill_move kf r = Inr r' \<and>
           kill_moveQueue r' = kill_moveQueue r @
             [kf\<lparr>m_path := tl (m_path kf), m_outport := hd (m_path kf), m_time := clockEdge r 1 - 1\<rparr>]"
proof -
  from assms obtain v rest where p: "m_path kf = v # rest" by (cases "m_path kf") auto
  have "forward_kill_move kf r =
      Inr (wake_after_latency (r\<lparr>kill_moveQueue := kill_moveQueue r @
             [kf\<lparr>m_path := rest, m_outport := v, m_time := clockEdge r 1 - 1\<rparr>]\<rparr>))"
    by (simp add: forward_kill_move_def getPathTop_def p bindE_def)
  moreover have "kill_moveQueue (wake_after_latency x) = kill_moveQueue x" for x
    by (simp add: wake_after_latency_def schedule_wakeup_def)
  ultimately show ?thesis by (simp add: p)
qed

lemma kill_move_teardown_ok:
  assumes ok: "spin_ok r inport"
  shows "\<exists>r3.
     (if length (move_registry r) = 1 then
        bindE (increment_counter_ptr (r\<lparr>kill_move_processed_this_cycle := True, m_move := False\<rparr>))
          (\<lambda>r1. clear_move_registry (invalidate_source_id_buffer r1))
      else
        invalidate_move_registry_entry inport outp (r\<lparr>kill_move_processed_this_cycle := True\<rparr>)) = Inr r3 \<and>
     kill_moveQueue r3 = kill_moveQueue r \<and> curTick r3 = curTick r \<and> clockPeriod r3 = clockPeriod r"
proof (cases "length (move_registry r) = 1")
  case True
  let ?r0 = "r\<lparr>kill_move_processed_this_cycle := True, m_move := False\<rparr>"
  have ok0: "spin_ok ?r0 inport" using ok by (simp add: spin_ok_def)
  from increment_counter_ptr_ok[OF ok0] obtain c w where
    i: "increment_counter_ptr ?r0 = Inr (?r0\<lparr>m_counter := c, wakeups := w\<rparr>)" by blast
  let ?r2 = "invalidate_source_id_buffer (?r0\<lparr>m_counter := c, wakeups := w\<rparr>)"
  have "\<forall>mi \<in> set (move_registry ?r2). 0 \<le> mi_inport mi \<and> mi_inport mi < int (length (m_input_unit ?r2))"
    using ok by (simp add: spin_ok_def invalidate_source_id_buffer_def)
  from clear_move_registry_ok[OF this] obtain ius where
    c: "clear_move_registry ?r2 = Inr (?r2\<lparr>m_input_unit := ius, move_registry := []\<rparr>)" by blast
  have "bindE (increment_counter_ptr ?r0) (\<lambda>r1. clear_move_registry (invalidate_source_id_buffer r1)) =
        Inr (?r2\<lparr>m_input_unit := ius, move_registry := []\<rparr>)"
    unfolding i bindE_def using c by simp
  then show ?thesis
    unfolding if_P[OF True] by (simp add: invalidate_source_id_buffer_def)
next
  case False
  let ?r0 = "r\<lparr>kill_move_processed_this_cycle := True\<rparr>"
  have "0 \<le> inport" "inport < int (length (m_input_unit ?r0))"
    using ok by (simp_all add: spin_ok_def)
  from invalidate_move_registry_loop_ok[OF this, of outp "[]" "move_registry ?r0"]
  obtain ius reg where
    "invalidate_move_registry_entry inport outp ?r0 = Inr (?r0\<lparr>m_input_unit := ius, move_registry := reg\<rparr>)"
    unfolding invalidate_move_registry_entry_def by blast
  then show ?thesis using False by simp
qed

text \<open>
  C10: a KILL_MOVE that arrives at the router whose id is its source id is deleted and not
  forwarded (the router is left as it was).  At any other router it is forwarded along its path:
  it is appended to the kill-move queue with the path top popped and made its outport, and with
  \<open>must_send\<close> true exactly when its source id is the one latched in the router's source-id
  buffer.
\<close>

theorem kill_move_deleted_at_source_forwarded_elsewhere:
  assumes "spin_scheme_enabled r" and "m_type f = KILL_MOVE" and "m_width f = m_bit_width r"
  shows "(m_source_id f = r_id r \<longrightarrow> wakeup_control init inport f r = Some (Inr r)) \<and>
         (m_source_id f \<noteq> r_id r \<and> m_path f \<noteq> [] \<and> spin_ok r inport \<longrightarrow>
            (\<exists>r'. wakeup_control init inport f r = Some (Inr r') \<and>
               kill_moveQueue r' = kill_moveQueue r @
                 [(increment_hops f)\<lparr>m_inport := r_id r,
                    m_must_send := partial_check_source_id_buffer r (m_source_id f),
                    m_path := tl (m_path f), m_outport := hd (m_path f),
                    m_time := clockEdge r 1 - 1\<rparr>]))"
proof (intro conjI impI)
  assume "m_source_id f = r_id r"
  then show "wakeup_control init inport f r = Some (Inr r)"
    using assms by (simp add: wakeup_control_def wakeup_KILL_MOVE_def increment_hops_def)
next
  assume h: "m_source_id f \<noteq> r_id r \<and> m_path f \<noteq> [] \<and> spin_ok r inport"
  let ?f1 = "(increment_hops f)\<lparr>m_inport := r_id r\<rparr>"
  have f1: "m_source_id (increment_hops f) = m_source_id f" "m_path (increment_hops f) = m_path f"
    by (simp_all add: increment_hops_def)
  have wc: "wakeup_control init inport f r = Some (wakeup_KILL_MOVE inport ?f1 r)"
    using assms by (simp add: wakeup_control_def)
  show "\<exists>r'. wakeup_control init inport f r = Some (Inr r') \<and>
               kill_moveQueue r' = kill_moveQueue r @
                 [(increment_hops f)\<lparr>m_inport := r_id r,
                    m_must_send := partial_check_source_id_buffer r (m_source_id f),
                    m_path := tl (m_path f), m_outport := hd (m_path f),
                    m_time := clockEdge r 1 - 1\<rparr>]"
  proof (cases "partial_check_source_id_buffer r (m_source_id f)")
    case False
    have p: "m_path (?f1\<lparr>m_must_send := False\<rparr>) \<noteq> []" using h by (simp add: f1)
    from forward_kill_move_ok[OF p, of r] show ?thesis
      using h False by (auto simp add: wc wakeup_KILL_MOVE_def f1)
  next
    case True
    from h have ok: "spin_ok r inport" by simp
    from kill_move_teardown_ok[OF ok, of "peekPathTop ?f1"] obtain r3 where
      t: "(if length (move_registry r) = 1 then
            bindE (increment_counter_ptr (r\<lparr>kill_move_processed_this_cycle := True, m_move := False\<rparr>))
              (\<lambda>r1. clear_move_registry (invalidate_source_id_buffer r1))
          else
            invalidate_move_registry_entry inport (peekPathTop ?f1)
              (r\<lparr>kill_move_processed_this_cycle := True\<rparr>)) = Inr r3"
      and q: "kill_moveQueue r3 = kill_moveQueue r" "curTick r3 = curTick r" "clockPeriod r3 = clockPeriod r"
      by blast
    have p: "m_path (?f1\<lparr>m_must_send := True\<rparr>) \<noteq> []" using h by (simp add: f1)
    have k: "wakeup_KILL_MOVE inport ?f1 r = forward_kill_move (?f1\<lparr>m_must_send := True\<rparr>) r3"
      using h True unfolding wakeup_KILL_MOVE_def t by (simp add: bindE_def f1)
    from forward_kill_move_ok[OF p, of r3] show ?thesis
      using True by (auto simp add: wc k q f1 clockEdge_def)
  qed
qed


theorem kill_move_deleted_at_source_forwarded_elsewhere_witness:
  "wakeup_control (ex_flit HEAD 0 0) 1 (ex_kill_move 0) ex_spin_router = Some (Inr ex_spin_router) \<and>
   (\<exists>r'. wakeup_control (ex_flit HEAD 0 0) 1 (ex_kill_move 7) ex_spin_router = Some (Inr r') \<and>
      kill_moveQueue r' =
        [(increment_hops (ex_kill_move 7))\<lparr>m_inport := 0, m_must_send := True, m_path := [2],
           m_outport := 1, m_time := 1499\<rparr>]) \<and>
   (\<exists>r'. wakeup_control (ex_flit HEAD 0 0) 1 (ex_kill_move 5) ex_spin_router = Some (Inr r') \<and>
      kill_moveQueue r' =
        [(increment_hops (ex_kill_move 5))\<lparr>m_inport := 0, m_must_send := False, m_path := [2],
           m_outport := 1, m_time := 1499\<rparr>])"
proof -
  have en: "spin_scheme_enabled ex_spin_router"
    by (simp add: spin_scheme_enabled_def ex_spin_router_def ex_sa_router_def ex_router_def ex_net_def)
  have ty: "m_type (ex_kill_move s) = KILL_MOVE" "m_width (ex_kill_move s) = m_bit_width ex_spin_router"
    "m_source_id (ex_kill_move s) = s" "m_path (ex_kill_move s) = [1, 2]" for s
    by (simp_all add: ex_kill_move_def ex_flit_def ex_spin_router_def ex_sa_router_def ex_router_def)
  have ok: "spin_ok ex_spin_router 1"
    by (simp add: spin_ok_def ex_spin_router_def ex_sa_router_def ex_router_def ex_net_def
        ex_input_unit_def ex_output_unit_def active_vc_def idle_vc_def)
  have r: "r_id ex_spin_router = 0" "kill_moveQueue ex_spin_router = []"
    "clockEdge ex_spin_router (Suc 0) = 1500"
    "partial_check_source_id_buffer ex_spin_router 7"
    "\<not> partial_check_source_id_buffer ex_spin_router 5"
    by (simp_all add: ex_spin_router_def ex_sa_router_def ex_router_def clockEdge_def
        partial_check_source_id_buffer_def)
  from kill_move_deleted_at_source_forwarded_elsewhere [OF en ty(1,2), of 0 "ex_flit HEAD 0 0" 1]
    kill_move_deleted_at_source_forwarded_elsewhere [OF en ty(1,2), of 7 "ex_flit HEAD 0 0" 1]
    kill_move_deleted_at_source_forwarded_elsewhere [OF en ty(1,2), of 5 "ex_flit HEAD 0 0" 1]
  show ?thesis
    by (simp add: ty ok r)
qed

section \<open>SPIN: PROBE at an intermediate router\<close>

lemma fork_vector_loop_all:
  assumes "\<forall>i \<in> set vcs. 0 \<le> i \<and> i < int (length (virtualChannels iu)) \<and>
             vc_active_nonlocal r (virtualChannels iu ! nat i) \<and>
             0 \<le> m_output_port (virtualChannels iu ! nat i) \<and>
             m_output_port (virtualChannels iu ! nat i) < int (length (m_output_unit r)) \<and>
             m_output_port (virtualChannels iu ! nat i) < int (length fv)"
  shows "\<exists>fv'. fork_vector_loop r iu vcs fv any = Inr (any \<or> vcs \<noteq> [], fv') \<and>
           length fv' = length fv \<and>
           (\<forall>k < length fv. fv' ! k =
              (fv ! k \<or> int k \<in> (\<lambda>i. m_output_port (virtualChannels iu ! nat i)) ` set vcs))"
  using assms
proof (induction vcs arbitrary: fv any)
  case Nil
  then show ?case by simp
next
  case (Cons i vcs)
  let ?v = "virtualChannels iu ! nat i"
  let ?o = "m_output_port ?v"
  from Cons.prems have i: "0 \<le> i" "i < int (length (virtualChannels iu))"
    and a: "vc_active_nonlocal r ?v"
    and o: "0 \<le> ?o" "?o < int (length (m_output_unit r))" "?o < int (length fv)"
    by simp_all
  have st: "get_vc_state iu i = Inr ACTIVE" and go: "get_outport iu i = Inr ?o"
    using i a by (simp_all add: get_vc_state_def get_outport_def get_vc_def at_index_def bindE_def
        vc_active_nonlocal_def)
  have d: "getOutportDirection r ?o = Inr (ou_direction (m_output_unit r ! nat ?o))"
    using o by (simp add: getOutportDirection_def at_index_def bindE_def)
  have nl: "ou_direction (m_output_unit r ! nat ?o) \<noteq> ''Local''"
    using a by (simp add: vc_active_nonlocal_def)
  have step: "fork_vector_loop r iu (i # vcs) fv any = fork_vector_loop r iu vcs (fv[nat ?o := True]) True"
    using o nl by (simp add: st go d)
  have "\<forall>j \<in> set vcs. 0 \<le> j \<and> j < int (length (virtualChannels iu)) \<and>
             vc_active_nonlocal r (virtualChannels iu ! nat j) \<and>
             0 \<le> m_output_port (virtualChannels iu ! nat j) \<and>
             m_output_port (virtualChannels iu ! nat j) < int (length (m_output_unit r)) \<and>
             m_output_port (virtualChannels iu ! nat j) < int (length (fv[nat ?o := True]))"
    using Cons.prems by simp
  from Cons.IH[OF this, of True] obtain fv' where
    r: "fork_vector_loop r iu vcs (fv[nat ?o := True]) True = Inr (True, fv')"
    and l: "length fv' = length fv"
    and k: "\<forall>k < length fv. fv' ! k =
              ((fv[nat ?o := True]) ! k \<or> int k \<in> (\<lambda>i. m_output_port (virtualChannels iu ! nat i)) ` set vcs)"
    by auto
  have "\<forall>k < length fv. fv' ! k =
          (fv ! k \<or> int k \<in> (\<lambda>i. m_output_port (virtualChannels iu ! nat i)) ` set (i # vcs))"
  proof (intro allI impI)
    fix k assume kl: "k < length fv"
    have "(fv[nat ?o := True]) ! k = (fv ! k \<or> int k = ?o)"
      using kl o by (auto simp add: nth_list_update)
    with k kl show "fv' ! k =
          (fv ! k \<or> int k \<in> (\<lambda>i. m_output_port (virtualChannels iu ! nat i)) ` set (i # vcs))"
      by auto
  qed
  with r l step show ?case by auto
qed

lemma fork_vector_loop_some_not:
  assumes "\<forall>i \<in> set vcs. 0 \<le> i \<and> i < int (length (virtualChannels iu)) \<and>
             (fst (m_vc_state (virtualChannels iu ! nat i)) = ACTIVE \<longrightarrow>
               0 \<le> m_output_port (virtualChannels iu ! nat i) \<and>
               m_output_port (virtualChannels iu ! nat i) < int (length (m_output_unit r)) \<and>
               m_output_port (virtualChannels iu ! nat i) < int (length fv))"
    and "\<exists>i \<in> set vcs. \<not> vc_active_nonlocal r (virtualChannels iu ! nat i)"
  shows "\<exists>fv'. fork_vector_loop r iu vcs fv any = Inr (False, fv') \<and> length fv' = length fv"
  using assms
proof (induction vcs arbitrary: fv any)
  case Nil
  then show ?case by simp
next
  case (Cons i vcs)
  let ?v = "virtualChannels iu ! nat i"
  let ?o = "m_output_port ?v"
  from Cons.prems(1) have i: "0 \<le> i" "i < int (length (virtualChannels iu))" by simp_all
  have st: "get_vc_state iu i = Inr (fst (m_vc_state ?v))" and go: "get_outport iu i = Inr ?o"
    using i by (simp_all add: get_vc_state_def get_outport_def get_vc_def at_index_def bindE_def)
  show ?case
  proof (cases "fst (m_vc_state ?v) = ACTIVE")
    case False
    then show ?thesis by (simp add: st)
  next
    case True
    with Cons.prems(1) have o: "0 \<le> ?o" "?o < int (length (m_output_unit r))" "?o < int (length fv)"
      by simp_all
    have d: "getOutportDirection r ?o = Inr (ou_direction (m_output_unit r ! nat ?o))"
      using o by (simp add: getOutportDirection_def at_index_def bindE_def)
    show ?thesis
    proof (cases "ou_direction (m_output_unit r ! nat ?o) = ''Local''")
      case True
      then show ?thesis using \<open>fst (m_vc_state ?v) = ACTIVE\<close> by (simp add: st go d)
    next
      case False
      then have an: "vc_active_nonlocal r ?v"
        using \<open>fst (m_vc_state ?v) = ACTIVE\<close> by (simp add: vc_active_nonlocal_def)
      have step: "fork_vector_loop r iu (i # vcs) fv any =
                  fork_vector_loop r iu vcs (fv[nat ?o := True]) True"
        using o False \<open>fst (m_vc_state ?v) = ACTIVE\<close> by (simp add: st go d)
      have p1: "\<forall>j \<in> set vcs. 0 \<le> j \<and> j < int (length (virtualChannels iu)) \<and>
             (fst (m_vc_state (virtualChannels iu ! nat j)) = ACTIVE \<longrightarrow>
               0 \<le> m_output_port (virtualChannels iu ! nat j) \<and>
               m_output_port (virtualChannels iu ! nat j) < int (length (m_output_unit r)) \<and>
               m_output_port (virtualChannels iu ! nat j) < int (length (fv[nat ?o := True])))"
        using Cons.prems(1) by simp
      have p2: "\<exists>j \<in> set vcs. \<not> vc_active_nonlocal r (virtualChannels iu ! nat j)"
        using Cons.prems(2) an by auto
      from Cons.IH[OF p1 p2, of True] show ?thesis unfolding step by simp
    qed
  qed
qed


lemma fork_copy_fields:
  "m_path (fork_copy init r t_flit op) = m_path t_flit @ [int op]"
  "m_type (fork_copy init r t_flit op) = PROBE"
  "m_source_id (fork_copy init r t_flit op) = m_source_id t_flit"
  "m_source_vc (fork_copy init r t_flit op) = m_source_vc t_flit"
  "m_vnet (fork_copy init r t_flit op) = m_vnet t_flit"
  by (simp_all add: fork_copy_def subDelay_def addDelay_def new_control_flit_def)

lemma distinct_single:
  assumes "distinct xs" "set xs = {a}"
  shows "xs = [a]"
proof (cases xs)
  case Nil
  with assms show ?thesis by simp
next
  case (Cons x ys)
  with assms have x: "x = a" and ys: "set ys \<subseteq> {a}" "a \<notin> set ys" by auto
  then have "ys = []" by (cases ys) auto
  with Cons x show ?thesis by simp
qed

text \<open>
  What the handler does when the fork vector has an entry for every outport that the ACTIVE
  VCs of the vnet are bound for (the last condition of \<open>probe_ok\<close>): a PROBE that arrives at a
  router other than its source is dropped (counted, nothing queued) when its path is longer
  than \<open>spin_max_turn_capacity\<close>, and also when some VC of its vnet at the inport is not ACTIVE
  or has a Local outport.  Otherwise every VC of the vnet is ACTIVE with a non-Local outport,
  and exactly one copy is queued per distinct outport of those VCs, each with the probe's path
  and that outport appended.
\<close>

lemma probe_forks_within_fork_vector:
  assumes en: "spin_scheme_enabled r" and ty: "m_type f = PROBE" and wd: "m_width f = m_bit_width r"
    and src: "m_source_id f \<noteq> r_id r" and ok: "probe_ok r inport (m_vnet f)"
  shows "\<exists>r'. wakeup_control init inport f r = Some (Inr r') \<and>
     (if getSpinMaxTurnCapacity (m_network_ptr r) < length (m_path f) \<or> \<not> vnet_blocked r inport (m_vnet f)
      then probeQueue r' = probeQueue r \<and>
           m_num_probes_dropped (m_input_unit r' ! nat inport) =
             m_num_probes_dropped (m_input_unit r ! nat inport) + 1
      else (\<exists>ops. distinct ops \<and> int ` set ops = vnet_outports r inport (m_vnet f) \<and>
              probeQueue r' = probeQueue r @ map (fork_copy init r f) ops \<and>
              map m_path (map (fork_copy init r f) ops) = map (\<lambda>op. m_path f @ [int op]) ops) \<and>
           m_num_probes_dropped (m_input_unit r' ! nat inport) =
             m_num_probes_dropped (m_input_unit r ! nat inport))"
proof -
  let ?f1 = "(increment_hops f)\<lparr>m_inport := r_id r\<rparr>"
  let ?iu = "m_input_unit r ! nat inport"
  let ?vcs = "vnet_vcs (m_vc_per_vnet r) (m_vnet f)"
  let ?n = "length (m_fork_vector ?iu)"
  from ok have ip: "0 \<le> inport" "inport < int (length (m_input_unit r))" and n0: "0 < m_vc_per_vnet r"
    by (simp_all add: probe_ok_def)
  have ne: "?vcs \<noteq> []" using n0 by (simp add: vnet_vcs_def)
  have f1: "m_source_id (increment_hops f) = m_source_id f" "m_path (increment_hops f) = m_path f"
    "m_vnet (increment_hops f) = m_vnet f" "m_delay (increment_hops f) = m_delay f"
    "m_source_vc (increment_hops f) = m_source_vc f"
    by (simp_all add: increment_hops_def)
  have wc: "wakeup_control init inport f r = Some (wakeup_PROBE init inport ?f1 r)"
    using en ty wd by (simp add: wakeup_control_def)
  have giu: "getInputUnit r inport = Inr ?iu" using ip by (simp add: getInputUnit_def)
  have cnt: "count_probe_dropped inport x =
      Inr (x\<lparr>m_input_unit := (m_input_unit x)[nat inport :=
             (m_input_unit x ! nat inport)\<lparr>m_num_probes_dropped :=
                 m_num_probes_dropped (m_input_unit x ! nat inport) + 1\<rparr>]\<rparr>)"
    if "length (m_input_unit x) = length (m_input_unit r)" for x
    unfolding count_probe_dropped_def using ip that by (intro on_input_unit_ok) simp_all
  have clr: "on_input_unit inport (\<lambda>iu2. Inr (clear_fork_vector iu2)) x =
      Inr (x\<lparr>m_input_unit := (m_input_unit x)[nat inport := clear_fork_vector (m_input_unit x ! nat inport)]\<rparr>)"
    if "length (m_input_unit x) = length (m_input_unit r)" for x
    using ip that by (intro on_input_unit_ok) simp_all
  have nip: "nat inport < length (m_input_unit r)" using ip by linarith
  show ?thesis
  proof (cases "getSpinMaxTurnCapacity (m_network_ptr r) < length (m_path f)")
    case True
    have "wakeup_PROBE init inport ?f1 r = count_probe_dropped inport r"
      using src True by (simp add: wakeup_PROBE_def f1 getNumTurns_def)
    then show ?thesis
      using True nip by (simp add: wc cnt)
  next
    case False
    note cap = this
    have wp: "wakeup_PROBE init inport ?f1 r =
        bindE (create_fork_vector r ?f1 ?iu) (\<lambda>(any, iu1).
        bindE (if any then
                 Inr (fork_probes init ?f1 (m_fork_vector iu1)
                       (r\<lparr>m_input_unit := (m_input_unit r)[nat inport := iu1]\<rparr>))
               else count_probe_dropped inport (r\<lparr>m_input_unit := (m_input_unit r)[nat inport := iu1]\<rparr>))
          (on_input_unit inport (\<lambda>iu2. Inr (clear_fork_vector iu2))))"
      using src cap by (simp add: wakeup_PROBE_def f1 getNumTurns_def giu bindE_def)
    show ?thesis
    proof (cases "vnet_blocked r inport (m_vnet f)")
      case True
      have pre: "\<forall>i \<in> set ?vcs. 0 \<le> i \<and> i < int (length (virtualChannels ?iu)) \<and>
             vc_active_nonlocal r (virtualChannels ?iu ! nat i) \<and>
             0 \<le> m_output_port (virtualChannels ?iu ! nat i) \<and>
             m_output_port (virtualChannels ?iu ! nat i) < int (length (m_output_unit r)) \<and>
             m_output_port (virtualChannels ?iu ! nat i) < int (length (replicate ?n False))"
      proof
        fix i assume i: "i \<in> set ?vcs"
        with True have a: "vc_active_nonlocal r (virtualChannels ?iu ! nat i)"
          by (simp add: vnet_blocked_def)
        then have "fst (m_vc_state (virtualChannels ?iu ! nat i)) = ACTIVE"
          by (simp add: vc_active_nonlocal_def)
        with ok i a show "0 \<le> i \<and> i < int (length (virtualChannels ?iu)) \<and>
             vc_active_nonlocal r (virtualChannels ?iu ! nat i) \<and>
             0 \<le> m_output_port (virtualChannels ?iu ! nat i) \<and>
             m_output_port (virtualChannels ?iu ! nat i) < int (length (m_output_unit r)) \<and>
             m_output_port (virtualChannels ?iu ! nat i) < int (length (replicate ?n False))"
          unfolding probe_ok_def by simp
      qed
      from fork_vector_loop_all[OF pre, of False] ne obtain fv' where
        fl: "fork_vector_loop r ?iu ?vcs (replicate ?n False) False = Inr (True, fv')"
        and len: "length fv' = ?n"
        and mem: "\<forall>k < ?n. fv' ! k =
           (int k \<in> (\<lambda>i. m_output_port (virtualChannels ?iu ! nat i)) ` set ?vcs)"
        by auto
      let ?ops = "filter (\<lambda>op. fv' ! op) [0..<length fv']"
      let ?iu1 = "?iu\<lparr>m_fork_vector := fv'\<rparr>"
      have cf: "create_fork_vector r ?f1 ?iu = Inr (True, ?iu1)"
        by (simp add: create_fork_vector_def f1 fl bindE_def)
      let ?r1 = "r\<lparr>m_input_unit := (m_input_unit r)[nat inport := ?iu1]\<rparr>"
      let ?r2 = "fork_probes init ?f1 fv' ?r1"
      have l2: "length (m_input_unit ?r2) = length (m_input_unit r)"
        by (simp add: fork_probes_def)
      have res: "wakeup_PROBE init inport ?f1 r =
          Inr (?r2\<lparr>m_input_unit := (m_input_unit ?r2)[nat inport := clear_fork_vector (m_input_unit ?r2 ! nat inport)]\<rparr>)"
        unfolding wp cf by (simp add: bindE_def clr[OF l2])
      have copy: "subDelay (clockEdge ?r1 (m_latency ?r1) - clockEdge ?r1 0)
                (addDelay (m_delay ?f1)
                  (new_control_flit init (m_source_id ?f1) (m_inport ?f1) (m_source_vc ?f1)
                     (m_vnet ?f1) PROBE (clockEdge ?r1 1 - 1) (m_path ?f1 @ [int op]))) =
            fork_copy init r f op" for op
        by (simp add: fork_copy_def f1 clockEdge_def)
      have copy': "(\<lambda>op. subDelay (clockEdge ?r1 (m_latency ?r1) - clockEdge ?r1 0)
                (addDelay (m_delay ?f1)
                  (new_control_flit init (m_source_id ?f1) (m_inport ?f1) (m_source_vc ?f1)
                     (m_vnet ?f1) PROBE (clockEdge ?r1 1 - 1) (m_path ?f1 @ [int op])))) =
            fork_copy init r f"
        using copy by (rule ext)
      have pq: "probeQueue ?r2 = probeQueue r @ map (fork_copy init r f) ?ops"
        unfolding fork_probes_def copy' by simp
      have d: "distinct ?ops" by simp
      have so: "int ` set ?ops = vnet_outports r inport (m_vnet f)"
      proof (intro equalityI subsetI)
        fix x assume "x \<in> int ` set ?ops"
        then obtain k where "x = int k" "k < ?n" "fv' ! k" using len by auto
        with mem show "x \<in> vnet_outports r inport (m_vnet f)"
          by (simp add: vnet_outports_def)
      next
        fix x assume "x \<in> vnet_outports r inport (m_vnet f)"
        then obtain i where i: "i \<in> set ?vcs" and x: "x = m_output_port (virtualChannels ?iu ! nat i)"
          by (auto simp add: vnet_outports_def)
        from pre i x have x0: "0 \<le> x" and xn: "x < int ?n" by simp_all
        then have "nat x < ?n" by linarith
        moreover from mem this i x x0 have "fv' ! nat x" by auto
        ultimately have "nat x \<in> set ?ops" using len by simp
        then show "x \<in> int ` set ?ops" using x0 by force
      qed
      have dr: "m_num_probes_dropped (clear_fork_vector (m_input_unit ?r2 ! nat inport)) =
                m_num_probes_dropped ?iu"
        using nip by (simp add: fork_probes_def clear_fork_vector_def)
      show ?thesis
        unfolding wc res using True cap d so pq dr nip l2
        by (auto simp add: fork_copy_fields intro!: exI[of _ ?ops])
    next
      case False
      have pre: "\<forall>i \<in> set ?vcs. 0 \<le> i \<and> i < int (length (virtualChannels ?iu)) \<and>
             (fst (m_vc_state (virtualChannels ?iu ! nat i)) = ACTIVE \<longrightarrow>
               0 \<le> m_output_port (virtualChannels ?iu ! nat i) \<and>
               m_output_port (virtualChannels ?iu ! nat i) < int (length (m_output_unit r)) \<and>
               m_output_port (virtualChannels ?iu ! nat i) < int (length (replicate ?n False)))"
        using ok unfolding probe_ok_def by simp
      have ex: "\<exists>i \<in> set ?vcs. \<not> vc_active_nonlocal r (virtualChannels ?iu ! nat i)"
        using False by (simp add: vnet_blocked_def)
      from fork_vector_loop_some_not[OF pre ex, of False] obtain fv' where
        fl: "fork_vector_loop r ?iu ?vcs (replicate ?n False) False = Inr (False, fv')"
        by blast
      let ?iu1 = "?iu\<lparr>m_fork_vector := fv'\<rparr>"
      have cf: "create_fork_vector r ?f1 ?iu = Inr (False, ?iu1)"
        by (simp add: create_fork_vector_def f1 fl bindE_def)
      let ?r1 = "r\<lparr>m_input_unit := (m_input_unit r)[nat inport := ?iu1]\<rparr>"
      have l1: "length (m_input_unit ?r1) = length (m_input_unit r)" by simp
      let ?r2 = "?r1\<lparr>m_input_unit := (m_input_unit ?r1)[nat inport :=
             (m_input_unit ?r1 ! nat inport)\<lparr>m_num_probes_dropped :=
                 m_num_probes_dropped (m_input_unit ?r1 ! nat inport) + 1\<rparr>]\<rparr>"
      have l2: "length (m_input_unit ?r2) = length (m_input_unit r)" by simp
      note c1 = cnt[OF l1] and c2 = clr[OF l2]
      have res: "wakeup_PROBE init inport ?f1 r =
          Inr (?r2\<lparr>m_input_unit := (m_input_unit ?r2)[nat inport := clear_fork_vector (m_input_unit ?r2 ! nat inport)]\<rparr>)"
        unfolding wp cf bindE_def by (simp only: sum.case prod.case if_False c1 c2)
      show ?thesis
        unfolding wc res using False nip
        by (simp add: clear_fork_vector_def)
    qed
  qed
qed


lemma probe_forks_within_fork_vector_example:
  "(\<exists>r'. wakeup_control (ex_flit HEAD 0 0) 1 (ex_probe [0]) ex_sa_router = Some (Inr r') \<and>
      map m_path (probeQueue r') = [[0, 1]]) \<and>
   (\<exists>r'. wakeup_control (ex_flit HEAD 0 0) 1 (ex_probe [0, 1, 2]) ex_sa_router = Some (Inr r') \<and>
      probeQueue r' = [] \<and> m_num_probes_dropped (m_input_unit r' ! 1) = 1)"
proof -
  have en: "spin_scheme_enabled ex_sa_router"
    by (simp add: spin_scheme_enabled_def ex_sa_router_def ex_router_def ex_net_def)
  have ty: "m_type (ex_probe p) = PROBE" "m_width (ex_probe p) = m_bit_width ex_sa_router"
    "m_source_id (ex_probe p) \<noteq> r_id ex_sa_router" "m_path (ex_probe p) = p" "m_vnet (ex_probe p) = 1" for p
    by (simp_all add: ex_probe_def ex_flit_def ex_sa_router_def ex_router_def)
  have ok: "probe_ok ex_sa_router 1 (m_vnet (ex_probe p))" for p
    by (simp add: ty probe_ok_def vnet_vcs_def upt2 ex_sa_router_def ex_router_def
        ex_input_unit_def ex_output_unit_def active_vc_def)
  have bl: "vnet_blocked ex_sa_router 1 1"
    by (simp add: vnet_blocked_def vc_active_nonlocal_def vnet_vcs_def upt2 ex_sa_router_def
        ex_router_def ex_input_unit_def ex_output_unit_def active_vc_def)
  have vo: "vnet_outports ex_sa_router 1 1 = {1}"
    by (simp add: vnet_outports_def vnet_vcs_def upt2 ex_sa_router_def
        ex_router_def ex_input_unit_def active_vc_def)
  have r: "getSpinMaxTurnCapacity (m_network_ptr ex_sa_router) = 2" "probeQueue ex_sa_router = []"
    "m_num_probes_dropped (m_input_unit ex_sa_router ! Suc 0) = 0"
    by (simp_all add: ex_sa_router_def ex_router_def ex_net_def ex_input_unit_def)
  have one: "ops = [1]" if "distinct ops" "int ` set ops = {1}" for ops :: "nat list"
  proof -
    from that(2) have "int ` set ops = int ` {1::nat}" by simp
    then have "set ops = {1}" by (simp only: inj_image_eq_iff[OF inj_of_nat])
    with that(1) show ?thesis by (rule distinct_single)
  qed
  have c1: "\<not> (getSpinMaxTurnCapacity (m_network_ptr ex_sa_router) < length (m_path (ex_probe [0])) \<or>
              \<not> vnet_blocked ex_sa_router 1 (m_vnet (ex_probe [0])))"
    by (simp add: ty bl r)
  have c2: "getSpinMaxTurnCapacity (m_network_ptr ex_sa_router) < length (m_path (ex_probe [0, 1, 2])) \<or>
              \<not> vnet_blocked ex_sa_router 1 (m_vnet (ex_probe [0, 1, 2]))"
    by (simp add: ty r)
  note t1 = probe_forks_within_fork_vector [OF en ty(1)[of "[0]"] ty(2)[of "[0]"] ty(3)[of "[0]"]
      ok[of "[0]"], where init = "ex_flit HEAD 0 0", unfolded if_not_P[OF c1]]
  note t2 = probe_forks_within_fork_vector [OF en ty(1)[of "[0, 1, 2]"] ty(2)[of "[0, 1, 2]"]
      ty(3)[of "[0, 1, 2]"] ok[of "[0, 1, 2]"], where init = "ex_flit HEAD 0 0",
      unfolded if_P[OF c2]]
  from t1 obtain r1 ops where a: "wakeup_control (ex_flit HEAD 0 0) 1 (ex_probe [0]) ex_sa_router = Some (Inr r1)"
    and d: "distinct ops" and so: "int ` set ops = vnet_outports ex_sa_router 1 (m_vnet (ex_probe [0]))"
    and q: "probeQueue r1 = probeQueue ex_sa_router @ map (fork_copy (ex_flit HEAD 0 0) ex_sa_router (ex_probe [0])) ops"
      "map m_path (map (fork_copy (ex_flit HEAD 0 0) ex_sa_router (ex_probe [0])) ops) =
                map (\<lambda>op. m_path (ex_probe [0]) @ [int op]) ops"
    by blast
  from so have "int ` set ops = {1}" by (simp add: ty vo)
  with d have "ops = [1]" by (rule one)
  with q have b: "map m_path (probeQueue r1) = [[0, 1]]" by (simp add: r ty)
  from t2 obtain r2 where c: "wakeup_control (ex_flit HEAD 0 0) 1 (ex_probe [0, 1, 2]) ex_sa_router = Some (Inr r2)"
    and e: "probeQueue r2 = probeQueue ex_sa_router"
      "m_num_probes_dropped (m_input_unit r2 ! nat 1) = m_num_probes_dropped (m_input_unit ex_sa_router ! nat 1) + 1"
    by blast
  from e have "probeQueue r2 = []" "m_num_probes_dropped (m_input_unit r2 ! 1) = 1"
    by (simp_all add: r)
  with a b c show ?thesis by simp
qed

text \<open>
  C5: a PROBE at an intermediate router whose path is within the turn capacity, with every
  VC of its vnet at the inport ACTIVE and bound for a non-Local outport, is to be forked once
  per distinct outport.  The code does not do that on a router built the way the network
  builds it.  The constructor of the input unit sizes the fork vector by the number of output
  ports the router has when the input port is added, and \<open>addOutPort\<close> never resizes it: the
  router below gets its Local ports first, then the West input port (fork vector of size 1),
  then the East and North output ports.  Two HEAD flits of vnet 1 arrive on VCs 2 and 3 of the
  West port in two cycles and are routed to outport 1 (East).  The PROBE of router 7 for
  vnet 1 that arrives next finds both VCs ACTIVE and bound for East, and \<open>create_fork_vector\<close>
  writes \<open>m_fork_vector[1]\<close> in a vector of size 1: no copy with outport 1 appended is queued.
\<close>

theorem probe_fork_vector_out_of_range:
  "ex_built_router = Inr ex_ports_router \<and>
   map (length \<circ> m_fork_vector) (m_input_unit ex_ports_router) = [0, 1] \<and>
   map ou_direction (m_output_unit ex_ports_router) = [''Local'', ''East'', ''North''] \<and>
   wakeup algs init 1 (ex_flit HEAD 1 2) False ex_ports_router g =
     Inr (ex_heads_router idle_vc 1000, g) \<and>
   wakeup algs init 1 (ex_flit HEAD 1 3) False (ex_heads_router idle_vc 1500) g =
     Inr (ex_heads_router (ex_arrived_vc HEAD 3 1500) 1500, g) \<and>
   vnet_vcs (m_vc_per_vnet ex_ports_router) (m_vnet (ex_probe [0])) = [2, 3] \<and>
   map (\<lambda>v. (fst (m_vc_state v), m_output_port v))
     (virtualChannels (m_input_unit (ex_heads_router (ex_arrived_vc HEAD 3 1500) 2000) ! 1)) =
     [(IDLE, -1), (IDLE, -1), (ACTIVE, 1), (ACTIVE, 1)] \<and>
   m_source_id (ex_probe [0]) \<noteq> r_id ex_ports_router \<and>
   getNumTurns (ex_probe [0]) \<le> getSpinMaxTurnCapacity (m_network_ptr ex_ports_router) \<and>
   wakeup algs init 1 (ex_probe [0]) False (ex_heads_router (ex_arrived_vc HEAD 3 1500) 2000) g =
     Inl UndefinedBehaviour"
proof -
  have built: "ex_built_router = Inr ex_ports_router"
    by (simp add: ex_built_router_def ex_ports_router_def ex_fresh_router_def addInPort_def
        addOutPort_def new_InputUnit_def new_OutputUnit_def addRoute_def addWeight_def
        init_switch_allocator_def bindE_def ex_router_def ex_ru_def ex_input_unit_def
        ex_output_unit_def upt2 idle_vc_def numeral_eq_Suc)
  have ports: "map (length \<circ> m_fork_vector) (m_input_unit ex_ports_router) = [0, 1]"
    "map ou_direction (m_output_unit ex_ports_router) = [''Local'', ''East'', ''North'']"
    "vnet_vcs (m_vc_per_vnet ex_ports_router) (m_vnet (ex_probe [0])) = [2, 3]"
    "m_source_id (ex_probe [0]) \<noteq> r_id ex_ports_router"
    "getNumTurns (ex_probe [0]) \<le> getSpinMaxTurnCapacity (m_network_ptr ex_ports_router)"
    by (simp_all add: ex_ports_router_def ex_router_def ex_input_unit_def ex_output_unit_def
        ex_net_def ex_probe_def ex_flit_def vnet_vcs_def upt2 getNumTurns_def)
  have vcs: "map (\<lambda>v. (fst (m_vc_state v), m_output_port v))
     (virtualChannels (m_input_unit (ex_heads_router (ex_arrived_vc HEAD 3 1500) 2000) ! 1)) =
     [(IDLE, -1), (IDLE, -1), (ACTIVE, 1), (ACTIVE, 1)]"
    by (simp add: ex_heads_router_def ex_arrived_vc_def active_vc_def idle_vc_def)
  have h2: "wakeup algs init 1 (ex_flit HEAD 1 2) False ex_ports_router g =
     Inr (ex_heads_router idle_vc 1000, g)"
    by (simp add: wakeup_def wakeup_control_def wakeup_data_def activate_vc_def
        buffer_flit_def route_compute_def outportCompute_def table_route_def
        lookupRoutingTable_def intersectionIsNotEmpty_def set_vc_active_def grant_outport_def
        insertFlit_def put_vc_def get_vc_state_def get_vc_def at_index_def getInputUnit_def
        on_input_unit_def getOutportDirection_def bindE_def set_counter_def counter_thresh_def
        curCycle_def schedule_wakeup_def to_unsigned_def get_counter_state_def
        spin_scheme_enabled_def increment_hops_def advance_stage_def ex_heads_router_def
        ex_arrived_vc_def ex_ports_router_def ex_router_def ex_net_def ex_ru_def ex_input_unit_def
        ex_output_unit_def ex_flit_def ex_route_def active_vc_def idle_vc_def sdiv_nonneg upt3
        INFINITE_def)
  have h3: "wakeup algs init 1 (ex_flit HEAD 1 3) False (ex_heads_router idle_vc 1500) g =
     Inr (ex_heads_router (ex_arrived_vc HEAD 3 1500) 1500, g)"
    by (simp add: wakeup_def wakeup_control_def wakeup_data_def activate_vc_def
        buffer_flit_def route_compute_def outportCompute_def table_route_def
        lookupRoutingTable_def intersectionIsNotEmpty_def set_vc_active_def grant_outport_def
        insertFlit_def put_vc_def get_vc_state_def get_vc_def at_index_def getInputUnit_def
        on_input_unit_def getOutportDirection_def bindE_def set_counter_def counter_thresh_def
        curCycle_def schedule_wakeup_def to_unsigned_def get_counter_state_def
        spin_scheme_enabled_def increment_hops_def advance_stage_def ex_heads_router_def
        ex_arrived_vc_def ex_ports_router_def ex_router_def ex_net_def ex_ru_def ex_input_unit_def
        ex_output_unit_def ex_flit_def ex_route_def active_vc_def idle_vc_def sdiv_nonneg upt3
        INFINITE_def)
  have pr: "wakeup algs init 1 (ex_probe [0]) False (ex_heads_router (ex_arrived_vc HEAD 3 1500) 2000) g =
     Inl UndefinedBehaviour"
    by (simp add: wakeup_def wakeup_control_def wakeup_data_def activate_vc_def
        buffer_flit_def route_compute_def outportCompute_def table_route_def
        lookupRoutingTable_def intersectionIsNotEmpty_def set_vc_active_def grant_outport_def
        insertFlit_def put_vc_def get_vc_state_def get_vc_def at_index_def getInputUnit_def
        on_input_unit_def getOutportDirection_def bindE_def set_counter_def counter_thresh_def
        curCycle_def schedule_wakeup_def to_unsigned_def get_counter_state_def
        spin_scheme_enabled_def increment_hops_def advance_stage_def ex_heads_router_def
        ex_arrived_vc_def ex_ports_router_def ex_router_def ex_net_def ex_ru_def ex_input_unit_def
        ex_output_unit_def ex_flit_def ex_route_def active_vc_def idle_vc_def sdiv_nonneg upt3
        INFINITE_def wakeup_PROBE_def getNumTurns_def create_fork_vector_def vnet_vcs_def
        upt2 get_outport_def ex_probe_def)
  from built ports vcs h2 h3 pr show ?thesis by (simp only: simp_thms)
qed

section \<open>SPIN: MOVE at an intermediate router\<close>

text \<open>
  C6: a MOVE at an intermediate router that passes the counter and registry conditions is to
  be accepted exactly when some VC of its vnet is bound for the outport on top of the path and
  holds both a HEAD and a TAIL; the comment of \<open>find_move_vc\<close> says the same. The code does
  not do that. The counter is off and the registry empty, the MOVE of router 7 has outport 1
  on top of its path, and one of the two VCs of its vnet holds a whole packet bound for
  outport 1 while the other is IDLE. With the IDLE VC first, \<open>find_move_vc\<close> returns \<open>-1\<close>
  at it without looking at the VC behind, and the MOVE is dropped: nothing changes but the
  drop statistic. With the same two VCs in the other order the MOVE is accepted: the move bit
  is set, VC 2 is registered and the MOVE is queued for outport 1 with the rest of its path.
\<close>

theorem find_move_vc_depends_on_vc_order:
  "get_counter_state (ex_vcs_router v2 v3) = s_off \<and>
   \<not> check_outport_entry_in_move_registry (ex_vcs_router v2 v3) (peekPathTop ex_move) \<and>
   m_source_id ex_move \<noteq> r_id (ex_vcs_router v2 v3) \<and>
   m_output_port ex_packet_vc = peekPathTop ex_move \<and> containsHeadAndTail ex_packet_vc \<and>
   wakeup_control (ex_flit HEAD 0 0) 1 ex_move (ex_vcs_router idle_vc ex_packet_vc) =
     Some (Inr (ex_router\<lparr>m_input_unit :=
        [ex_input_unit 0 ''Local'',
         (ex_input_unit 1 ''West'')\<lparr>virtualChannels := [idle_vc, idle_vc, idle_vc, ex_packet_vc],
            m_num_move_dropped := 1\<rparr>]\<rparr>)) \<and>
   (case wakeup_control (ex_flit HEAD 0 0) 1 ex_move (ex_vcs_router ex_packet_vc idle_vc) of
      Some (Inr r') \<Rightarrow>
        m_move r' \<and> map mi_vc (move_registry r') = [2] \<and> map m_path (moveQueue r') = [[2]] \<and>
        map m_outport (moveQueue r') = [1] \<and> m_num_move_dropped (m_input_unit r' ! 1) = 0
    | _ \<Rightarrow> False)"
  by (simp add: wakeup_control_def wakeup_MOVE_def get_counter_state_def
      check_outport_entry_in_move_registry_def peekPathTop_def increment_hops_def
      find_move_vc_def vnet_vcs_def upt2 get_vc_def at_index_def getInputUnit_def bindE_def
      count_move_dropped_def on_input_unit_def containsHeadAndTail_def
      getOutportDirection_def latch_source_id_buffer_def create_move_info_entry_def
      freeze_vc_def set_counter_def counter_thresh_def forward_move_def getPathTop_def
      subDelay_def wake_after_latency_def schedule_wakeup_def to_unsigned_def curCycle_def clockEdge_def
      spin_scheme_enabled_def ex_vcs_router_def ex_packet_vc_def ex_move_def ex_router_def
      ex_net_def ex_input_unit_def ex_output_unit_def ex_flit_def active_vc_def idle_vc_def)

end
